theory Spec2Isabelle
  imports Main "HOL-Library.Word"
begin

unbundle bit_operations_syntax

section \<open>Data model\<close>

text \<open>
  An IPv6 address (\<open>uip_ipaddr_t\<close>) is its 16 raw octets.  Pointers are addresses into
  a store; \<open>None\<close> is the C \<open>NULL\<close>.  C \<open>int\<close> is taken to be at least 32 bits wide, so
  the integer promotions of \<open>uint8_t\<close> and \<open>uint16_t\<close> operands are computed in \<open>int\<close>
  and only the assignments to a narrower variable truncate.
\<close>

type_synonym uip_ipaddr_t = "8 word list"
type_synonym ptr = nat

datatype error = Null_Deref | Out_Of_Bounds | Div_By_Zero | Config_Error | Index_Wrap

definition bindE :: "error + 'a \<Rightarrow> ('a \<Rightarrow> error + 'b) \<Rightarrow> error + 'b" where
  "bindE m f = (case m of Inl e \<Rightarrow> Inl e | Inr v \<Rightarrow> f v)"

text \<open>
  The tables of instances, DAGs and parents are arrays; a pointer into one of them is an
  index, and reading through \<open>NULL\<close> or past the table is an error of the model.
\<close>

definition deref :: "'a list \<Rightarrow> ptr option \<Rightarrow> error + 'a" where
  "deref tbl p =
     (case p of None \<Rightarrow> Inl Null_Deref
      | Some a \<Rightarrow> (if a < length tbl then Inr (tbl ! a) else Inl Null_Deref))"

text \<open>Reading one octet of a buffer; a read past its end is an error of the model.\<close>

definition rd :: "8 word list \<Rightarrow> nat \<Rightarrow> error + 8 word" where
  "rd buffer i = (if i < length buffer then Inr (buffer ! i) else Inl Out_Of_Bounds)"

definition buf_write :: "8 word list \<Rightarrow> nat \<Rightarrow> 8 word list \<Rightarrow> error + 8 word list" where
  "buf_write buffer pos bytes =
     (if pos + length bytes \<le> length buffer
      then Inr (take pos buffer @ bytes @ drop (pos + length bytes) buffer)
      else Inl Out_Of_Bounds)"


text \<open>
  Modelled from the spec: the metric container's typed value \<open>mc.obj\<close> is a union in
  \<open>rpl.h\<close>, which is not among the sources.  The 16-bit \<open>obj.etx\<close> and the two octets
  \<open>obj.energy.flags\<close> and \<open>obj.energy.energy_est\<close> share two octets of memory:
  \<open>mc_obj0\<close> is the octet at the lower address, where \<open>energy.flags\<close> lies, and
  \<open>mc_obj1\<close> the one after it, where \<open>energy.energy_est\<close> lies.  Which of the two is
  the low octet of \<open>etx\<close> depends on the byte order of the host.
\<close>

record rpl_metric_container =
  mc_type :: "8 word"
  mc_flags :: "8 word"
  mc_aggr :: "8 word"
  mc_prec :: "8 word"
  mc_length :: "8 word"
  mc_obj0 :: "8 word"
  mc_obj1 :: "8 word"

definition mc_obj_etx :: "bool \<Rightarrow> rpl_metric_container \<Rightarrow> 16 word" where
  "mc_obj_etx little_endian m =
     (if little_endian then push_bit 8 (ucast (mc_obj1 m)) OR ucast (mc_obj0 m)
      else push_bit 8 (ucast (mc_obj0 m)) OR ucast (mc_obj1 m))"

definition mc_obj_etx_update ::
  "bool \<Rightarrow> 16 word \<Rightarrow> rpl_metric_container \<Rightarrow> rpl_metric_container" where
  "mc_obj_etx_update little_endian v m =
     (if little_endian then m\<lparr>mc_obj0 := ucast v, mc_obj1 := ucast (drop_bit 8 v)\<rparr>
      else m\<lparr>mc_obj0 := ucast (drop_bit 8 v), mc_obj1 := ucast v\<rparr>)"

text \<open>
  \<open>parent_ipaddr\<close> is what \<open>rpl_get_parent_ipaddr\<close> finds for the parent in the
  neighbour cache and \<open>link_stats_etx\<close> what \<open>rpl_get_parent_link_stats\<close> finds in the
  link-stats module: \<open>None\<close> when there is no entry.
\<close>

record rpl_parent =
  parent_dag :: "ptr option"
  parent_rank :: "16 word"
  link_metric :: "16 word"
  parent_flags :: "8 word"
  parent_mc :: rpl_metric_container
  parent_ipaddr :: "uip_ipaddr_t option"
  link_stats_etx :: "16 word option"

record rpl_prefix =
  prefix :: uip_ipaddr_t
  prefix_lifetime :: "32 word"
  prefix_length :: "8 word"
  prefix_flags :: "8 word"

text \<open>
  \<open>grounded\<close> is the field as it is stored: the sources compare its value
  (MRHOF's \<open>best_dag\<close>), test it against zero (OF0's \<open>best_dag\<close>, \<open>dio_output\<close>)
  and \<open>dio_input\<close> reads it as \<open>0x80\<close> or 0.  Modelled from the spec: the \<open>joined\<close>
  flag, which the sources only test against zero, is a boolean.
\<close>

record rpl_dag =
  dag_id :: uip_ipaddr_t
  dag_instance :: "ptr option"
  preferred_parent :: "ptr option"
  dag_rank :: "16 word"
  grounded :: "8 word"
  preference :: "8 word"
  version :: "8 word"
  joined :: bool
  prefix_info :: rpl_prefix

text \<open>The two objective functions an instance can point to.\<close>

datatype rpl_of_t = rpl_mrhof | rpl_of0

record rpl_instance =
  instance_id :: "8 word"
  used :: bool
  current_dag :: "ptr option"
  inst_of :: rpl_of_t
  mop :: "8 word"
  dtsn_out :: "8 word"
  mc :: rpl_metric_container
  dio_intdoubl :: "8 word"
  dio_intmin :: "8 word"
  dio_redundancy :: "8 word"
  max_rankinc :: "16 word"
  min_hoprankinc :: "16 word"
  default_lifetime :: "8 word"
  lifetime_unit :: "16 word"
  my_dao_seqno :: "8 word"
  my_dao_transmissions :: "8 word"
  has_downward_route :: bool

record rpl_heap =
  instances :: "rpl_instance list"
  dags :: "rpl_dag list"
  parents :: "rpl_parent list"

record rpl_dio =
  dio_dag_id :: uip_ipaddr_t
  dio_ocp :: "16 word"
  dio_rank :: "16 word"
  dio_grounded :: "8 word"
  dio_mop :: "8 word"
  dio_preference :: "8 word"
  dio_version :: "8 word"
  dio_instance_id :: "8 word"
  dio_dtsn :: "8 word"
  dag_intdoubl :: "8 word"
  dag_intmin :: "8 word"
  dag_redund :: "8 word"
  dio_default_lifetime :: "8 word"
  dio_lifetime_unit :: "16 word"
  dag_max_rankinc :: "16 word"
  dag_min_hoprankinc :: "16 word"
  destination_prefix :: rpl_prefix
  dio_prefix_info :: rpl_prefix
  dio_mc :: rpl_metric_container

text \<open>
  Modelled from the spec: a route entry of the external route table with the fields the
  handlers observe (prefix length, next hop, remaining lifetime, the DAO sequence numbers,
  the stored path sequence, the DAO-pending and NOPATH-received bits).  The table maps a
  prefix to its entry: \<open>uip_ds6_route_lookup\<close> is the application of the map and
  \<open>uip_ds6_route_rm\<close> removes the key.
\<close>

record uip_ds6_route =
  route_length :: "8 word"
  route_nexthop :: "uip_ipaddr_t option"
  route_lifetime :: "32 word"
  dao_seqno_in :: "8 word"
  dao_seqno_out :: "8 word"
  dao_path_sequence :: "8 word"
  dao_pending :: bool
  nopath_received :: bool

datatype addr_state = ADDR_TENTATIVE | ADDR_PREFERRED | ADDR_DEPRECATED

record uip_ds6_addr =
  isused :: bool
  state :: addr_state
  ipaddr :: uip_ipaddr_t

text \<open>
  Compile-time constants and macros that \<open>rpl-private.h\<close>, \<open>rpl.h\<close>, \<open>uip.h\<close> and
  \<open>link-stats.h\<close> define, and that the sources only use, are parameters of the
  model.  The model is of the build with \<open>RPL_WITH_STORING\<close>, \<open>RPL_WITH_DAO_ACK\<close>,
  \<open>RPL_WITH_DCO\<close> and the statistics on, and \<open>RPL_WITH_MULTICAST\<close> off.
\<close>

record rpl_macros =
  RPL_IS_STORING :: "rpl_instance \<Rightarrow> bool"
  RPL_IS_NON_STORING :: "rpl_instance \<Rightarrow> bool"
  ROOT_RANK :: "rpl_instance \<Rightarrow> 16 word"
  RPL_LIFETIME :: "rpl_instance \<Rightarrow> 8 word \<Rightarrow> 32 word"
  RPL_LOLLIPOP_INCREMENT :: "8 word \<Rightarrow> 8 word"
  lollipop_greater_than :: "8 word \<Rightarrow> 8 word \<Rightarrow> bool"
  uip_is_addr_mcast :: "uip_ipaddr_t \<Rightarrow> bool"
  uip_is_addr_linklocal :: "uip_ipaddr_t \<Rightarrow> bool"
  uip_is_addr_unspecified :: "uip_ipaddr_t \<Rightarrow> bool"
  linklocal_rplnodes_mcast :: uip_ipaddr_t

record rpl_mc_conf =
  RPL_DAG_MC :: "8 word"
  RPL_DAG_MC_NONE :: "8 word"
  RPL_DAG_MC_ETX :: "8 word"
  RPL_DAG_MC_ENERGY :: "8 word"
  RPL_DAG_MC_FLAG_P :: "8 word"
  RPL_DAG_MC_AGGR_ADDITIVE :: "8 word"
  RPL_DAG_MC_ENERGY_TYPE :: nat
  RPL_DAG_MC_ENERGY_TYPE_MAINS :: "8 word"
  RPL_DAG_MC_ENERGY_TYPE_BATTERY :: "8 word"
  RPL_DAG_MC_ETX_DIVISOR :: int

record rpl_conf =
  macros :: rpl_macros
  mcc :: rpl_mc_conf
  HOST_LITTLE_ENDIAN :: bool
  LINK_STATS_ETX_DIVISOR :: int
  RPL_MIN_HOPRANKINC :: int
  RPL_MAX_RANKINC :: "16 word"
  INFINITE_RANK :: "16 word"
  RPL_LEAF_ONLY :: bool
  RPL_DIO_REFRESH_DAO_ROUTES :: bool
  RPL_DAO_SPECIFY_DAG :: bool
  RPL_WITH_DCO_ACK :: bool
  RPL_DIO_INTERVAL_DOUBLINGS :: "8 word"
  RPL_DIO_INTERVAL_MIN :: "8 word"
  RPL_DIO_REDUNDANCY :: "8 word"
  RPL_OF_OCP :: "16 word"
  RPL_DEFAULT_LIFETIME :: "8 word"
  RPL_DEFAULT_LIFETIME_UNIT :: "16 word"
  RPL_MOP_NON_STORING :: "8 word"
  RPL_NOPATH_REMOVAL_DELAY :: "32 word"
  RPL_DAO_MAX_RETRANSMISSIONS :: int
  RPL_DAO_RETRANSMISSION_TIMEOUT :: nat
  RPL_PARENT_FLAG_UPDATED :: "8 word"
  RPL_DAO_ACK_UNABLE_TO_ACCEPT :: "8 word"
  RPL_DAO_ACK_UNABLE_TO_ADD_ROUTE_AT_ROOT :: "8 word"
  RPL_DAO_ACK_TIMEOUT :: int

text \<open>
  The counters of \<open>rpl_stats\<close>; their width is not in the sources, so they are natural
  numbers.
\<close>

record rpl_stats_t =
  malformed_msgs :: nat
  mem_overflows :: nat
  dio_recvd :: nat
  dio_sent_m :: nat
  dio_sent_u :: nat
  dao_recvd :: nat
  dao_sent :: nat
  dao_forwarded :: nat
  npdao_recvd :: nat
  npdao_sent :: nat
  npdao_forwarded :: nat
  dco_recvd :: nat
  dco_sent :: nat
  dco_forwarded :: nat
  dco_ignored :: nat

text \<open>
  What a handler does to its collaborators, in the order it does it: an ICMPv6 send
  (destination, RPL code, the payload octets handed over), the hand-over of a parsed DIO
  to \<open>rpl_process_dio\<close>, the removal of a route, the objective function's
  \<open>dao_ack_callback\<close> (parent, status), \<open>rpl_local_repair\<close> of an instance,
  \<open>ctimer_set\<close> of the DAO retransmission timer (instance, delay, parent), and the
  calls \<open>rpl_ns_expire_parent\<close> and \<open>rpl_ns_update_node\<close> of the non-storing mode
  (DAG, prefix, parent address, lifetime).
\<close>

datatype event =
    Icmp6_Send uip_ipaddr_t "8 word" "8 word list"
  | Process_Dio uip_ipaddr_t rpl_dio
  | Route_Rm uip_ipaddr_t
  | Dao_Ack_Callback "ptr option" int
  | Local_Repair ptr
  | Ctimer_Set ptr nat "ptr option"
  | Ns_Expire_Parent "ptr option" uip_ipaddr_t uip_ipaddr_t
  | Ns_Update_Node "ptr option" uip_ipaddr_t uip_ipaddr_t "32 word"

text \<open>
  The node: the tables, the route table, the neighbour cache (the addresses it holds),
  the interface's address list, the module's
  sequence counters, the statistics, the ICMPv6 payload area of \<open>uip_buf\<close> (from
  \<open>UIP_ICMP_PAYLOAD\<close> to the end of the buffer), whether \<open>rpl_get_mode\<close> is the feather
  mode, and the trace of events.
\<close>

record node =
  heap :: rpl_heap
  routes :: "uip_ipaddr_t \<rightharpoonup> uip_ds6_route"
  nbr_cache :: "uip_ipaddr_t set"
  addr_list :: "uip_ds6_addr list"
  dao_sequence :: "8 word"
  dco_sequence :: "8 word"
  path_sequence :: "8 word"
  rpl_stats :: rpl_stats_t
  icmp_payload :: "8 word list"
  feather_mode :: bool
  events :: "event list"

text \<open>
  The received packet: source and destination address of the IP header and the payload
  length \<open>uip_len - uip_l3_icmp_hdr_len\<close>.
\<close>

record uip_packet =
  srcipaddr :: uip_ipaddr_t
  destipaddr :: uip_ipaddr_t
  payload_len :: nat

text \<open>
  What the model cannot compute: whether the neighbour cache and the route table accept
  a new entry, the value of \<open>random_rand\<close>, and the indeterminate initial values of
  the handlers' uninitialised locals.
\<close>

record env =
  nbr_add_ok :: bool
  route_add_ok :: bool
  ns_update_ok :: bool
  random_rand :: nat
  stack_prefix :: uip_ipaddr_t
  stack_prefixlen :: "8 word"
  stack_pathSequence :: "8 word"
  stack_pathLifetime :: "8 word"

section \<open>Constants\<close>

text \<open>
  Modelled from the spec: the option types, the RPL codes, the DAO flags K and D, the
  status of an accepting DAO-ACK and the lifetime of a No-Path DAO, which
  \<open>rpl-private.h\<close> defines and the spec gives by value.
\<close>

definition RPL_OPTION_PAD1 :: "8 word" where "RPL_OPTION_PAD1 = 0"
definition RPL_OPTION_DAG_METRIC_CONTAINER :: "8 word" where "RPL_OPTION_DAG_METRIC_CONTAINER = 2"
definition RPL_OPTION_ROUTE_INFO :: "8 word" where "RPL_OPTION_ROUTE_INFO = 3"
definition RPL_OPTION_DAG_CONF :: "8 word" where "RPL_OPTION_DAG_CONF = 4"
definition RPL_OPTION_TARGET :: "8 word" where "RPL_OPTION_TARGET = 5"
definition RPL_OPTION_TRANSIT :: "8 word" where "RPL_OPTION_TRANSIT = 6"
definition RPL_OPTION_PREFIX_INFO :: "8 word" where "RPL_OPTION_PREFIX_INFO = 8"

definition RPL_CODE_DIO :: "8 word" where "RPL_CODE_DIO = 1"
definition RPL_CODE_DAO :: "8 word" where "RPL_CODE_DAO = 2"
definition RPL_CODE_DAO_ACK :: "8 word" where "RPL_CODE_DAO_ACK = 3"
definition RPL_CODE_DCO :: "8 word" where "RPL_CODE_DCO = 4"
definition RPL_CODE_DCO_ACK :: "8 word" where "RPL_CODE_DCO_ACK = 5"

definition RPL_DAO_K_FLAG :: "8 word" where "RPL_DAO_K_FLAG = 0x80"
definition RPL_DAO_D_FLAG :: "8 word" where "RPL_DAO_D_FLAG = 0x40"
definition RPL_DAO_ACK_UNCONDITIONAL_ACCEPT :: "8 word" where "RPL_DAO_ACK_UNCONDITIONAL_ACCEPT = 0"
definition RPL_ZERO_LIFETIME :: "8 word" where "RPL_ZERO_LIFETIME = 0"

text \<open>The constants rpl-icmp6.c defines itself.\<close>

definition RPL_DIO_GROUNDED :: "8 word" where "RPL_DIO_GROUNDED = 0x80"
definition RPL_DIO_MOP_SHIFT :: nat where "RPL_DIO_MOP_SHIFT = 3"
definition RPL_DIO_MOP_MASK :: "8 word" where "RPL_DIO_MOP_MASK = 0x38"
definition RPL_DIO_PREFERENCE_MASK :: "8 word" where "RPL_DIO_PREFERENCE_MASK = 0x07"

definition MAX_LINK_METRIC :: int where "MAX_LINK_METRIC = 10"
definition MAX_PATH_COST :: int where "MAX_PATH_COST = 100"
definition PARENT_SWITCH_THRESHOLD_DIV :: int where "PARENT_SWITCH_THRESHOLD_DIV = 2"

section \<open>MRHOF (the objective function in rpl-icmp6.c)\<close>

definition calculate_path_metric :: "rpl_conf \<Rightarrow> rpl_heap \<Rightarrow> ptr option \<Rightarrow> error + 16 word" where
  "calculate_path_metric c h p =
     (case p of
        None \<Rightarrow> Inr (word_of_int (MAX_PATH_COST * RPL_DAG_MC_ETX_DIVISOR (mcc c)))
      | Some a \<Rightarrow>
          bindE (deref (parents h) p) (\<lambda>pr.
            if RPL_DAG_MC (mcc c) = RPL_DAG_MC_NONE (mcc c) then
              Inr (parent_rank pr + link_metric pr)
            else if RPL_DAG_MC (mcc c) = RPL_DAG_MC_ETX (mcc c) then
              Inr (mc_obj_etx (HOST_LITTLE_ENDIAN c) (parent_mc pr) + link_metric pr)
            else if RPL_DAG_MC (mcc c) = RPL_DAG_MC_ENERGY (mcc c) then
              Inr (ucast (mc_obj1 (parent_mc pr)) + link_metric pr)
            else Inl Config_Error))"

definition mrhof_best_dag :: "rpl_heap \<Rightarrow> ptr option \<Rightarrow> ptr option \<Rightarrow> error + ptr option" where
  "mrhof_best_dag h d1 d2 =
     bindE (deref (dags h) d1) (\<lambda>a.
     bindE (deref (dags h) d2) (\<lambda>b.
       if grounded a \<noteq> grounded b then Inr (if grounded a \<noteq> 0 then d1 else d2)
       else if preference a \<noteq> preference b then
         Inr (if preference a > preference b then d1 else d2)
       else Inr (if dag_rank a < dag_rank b then d1 else d2)))"

definition mrhof_best_parent ::
  "rpl_conf \<Rightarrow> rpl_heap \<Rightarrow> ptr option \<Rightarrow> ptr option \<Rightarrow> error + ptr option" where
  "mrhof_best_parent c h p1 p2 =
     bindE (deref (parents h) p1) (\<lambda>pr1.
       let dag = parent_dag pr1;
           min_diff = (word_of_int (RPL_DAG_MC_ETX_DIVISOR (mcc c) div PARENT_SWITCH_THRESHOLD_DIV)
                       :: 16 word)
       in
       bindE (calculate_path_metric c h p1) (\<lambda>p1_metric.
       bindE (calculate_path_metric c h p2) (\<lambda>p2_metric.
       bindE (deref (dags h) dag) (\<lambda>d.
         if (p1 = preferred_parent d \<or> p2 = preferred_parent d)
            \<and> uint p1_metric < uint p2_metric + uint min_diff
            \<and> uint p1_metric > uint p2_metric - uint min_diff
         then Inr (preferred_parent d)
         else Inr (if p1_metric < p2_metric then p1 else p2)))))"

definition set_instance_mc :: "rpl_heap \<Rightarrow> ptr \<Rightarrow> rpl_metric_container \<Rightarrow> rpl_heap" where
  "set_instance_mc h ia m = h\<lparr>instances := (instances h)[ia := (instances h ! ia)\<lparr>mc := m\<rparr>]\<rparr>"

definition mrhof_update_metric_container :: "rpl_conf \<Rightarrow> rpl_heap \<Rightarrow> ptr \<Rightarrow> error + rpl_heap" where
  "mrhof_update_metric_container c h ia =
     bindE (deref (instances h) (Some ia)) (\<lambda>instance.
       if RPL_DAG_MC (mcc c) = RPL_DAG_MC_NONE (mcc c) then
         Inr (set_instance_mc h ia ((mc instance)\<lparr>mc_type := RPL_DAG_MC (mcc c)\<rparr>))
       else if RPL_DAG_MC (mcc c) \<noteq> RPL_DAG_MC_ETX (mcc c)
               \<and> RPL_DAG_MC (mcc c) \<noteq> RPL_DAG_MC_ENERGY (mcc c) then Inl Config_Error
       else
         let mc1 = (mc instance)\<lparr>mc_type := RPL_DAG_MC (mcc c),
                                 mc_flags := RPL_DAG_MC_FLAG_P (mcc c),
                                 mc_aggr := RPL_DAG_MC_AGGR_ADDITIVE (mcc c),
                                 mc_prec := 0\<rparr>
         in
         bindE (deref (dags h) (current_dag instance)) (\<lambda>dag.
           if \<not> joined dag then Inr (set_instance_mc h ia mc1)
           else
             bindE (if dag_rank dag = ROOT_RANK (macros c) instance then Inr 0
                    else calculate_path_metric c h (preferred_parent dag)) (\<lambda>path_metric.
               if RPL_DAG_MC (mcc c) = RPL_DAG_MC_ETX (mcc c) then
                 Inr (set_instance_mc h ia
                        (mc_obj_etx_update (HOST_LITTLE_ENDIAN c) path_metric
                           (mc1\<lparr>mc_length := 2\<rparr>)))
               else
                 let type = (if dag_rank dag = ROOT_RANK (macros c) instance
                             then RPL_DAG_MC_ENERGY_TYPE_MAINS (mcc c)
                             else RPL_DAG_MC_ENERGY_TYPE_BATTERY (mcc c))
                 in Inr (set_instance_mc h ia
                          (mc1\<lparr>mc_length := 2,
                               mc_obj0 := push_bit (RPL_DAG_MC_ENERGY_TYPE (mcc c)) type,
                               mc_obj1 := ucast path_metric\<rparr>)))))"

section \<open>OF0 (rpl-of0.c)\<close>

definition MIN_DIFFERENCE :: "rpl_conf \<Rightarrow> int" where
  "MIN_DIFFERENCE c = RPL_MIN_HOPRANKINC c + RPL_MIN_HOPRANKINC c div 2"

definition RANK_STRETCH :: int where "RANK_STRETCH = 0"
definition RANK_FACTOR :: int where "RANK_FACTOR = 1"
definition MIN_STEP_OF_RANK :: int where "MIN_STEP_OF_RANK = 1"
definition MAX_STEP_OF_RANK :: int where "MAX_STEP_OF_RANK = 9"

text \<open>
  Modelled from the spec: \<open>rpl_get_parent_link_stats\<close>, the link-stats lookup
  (\<open>etx_of(lladdr)\<close>) of the external link statistics module; it finds nothing for a
  parent that is not in the table.
\<close>

definition rpl_get_parent_link_stats :: "rpl_heap \<Rightarrow> ptr option \<Rightarrow> 16 word option" where
  "rpl_get_parent_link_stats h p =
     (case deref (parents h) p of Inl e \<Rightarrow> None | Inr pr \<Rightarrow> link_stats_etx pr)"

definition parent_link_metric :: "rpl_heap \<Rightarrow> ptr option \<Rightarrow> 16 word" where
  "parent_link_metric h p =
     (case rpl_get_parent_link_stats h p of Some etx \<Rightarrow> etx | None \<Rightarrow> 0xffff)"

definition STEP_OF_RANK :: "rpl_conf \<Rightarrow> rpl_heap \<Rightarrow> ptr option \<Rightarrow> int" where
  "STEP_OF_RANK c h p = ((3 * uint (parent_link_metric h p)) div LINK_STATS_ETX_DIVISOR c) - 2"

definition parent_rank_increase :: "rpl_conf \<Rightarrow> rpl_heap \<Rightarrow> ptr option \<Rightarrow> error + 16 word" where
  "parent_rank_increase c h p =
     (case p of None \<Rightarrow> Inr (INFINITE_RANK c)
      | Some a \<Rightarrow>
          bindE (deref (parents h) p) (\<lambda>pr.
            case parent_dag pr of None \<Rightarrow> Inr (INFINITE_RANK c)
            | Some da \<Rightarrow>
                bindE (deref (dags h) (Some da)) (\<lambda>d.
                  case dag_instance d of None \<Rightarrow> Inr (INFINITE_RANK c)
                  | Some ia \<Rightarrow>
                      bindE (deref (instances h) (Some ia)) (\<lambda>inst.
                        Inr (word_of_int ((RANK_FACTOR * STEP_OF_RANK c h p + RANK_STRETCH)
                                          * uint (min_hoprankinc inst)))))))"

definition parent_path_cost :: "rpl_heap \<Rightarrow> ptr option \<Rightarrow> error + 16 word" where
  "parent_path_cost h p =
     (case p of None \<Rightarrow> Inr 0xffff
      | Some a \<Rightarrow>
          bindE (deref (parents h) p) (\<lambda>pr.
            Inr (word_of_int (min (uint (parent_rank pr) + uint (parent_link_metric h p)) 0xffff))))"

definition rank_via_parent :: "rpl_conf \<Rightarrow> rpl_heap \<Rightarrow> ptr option \<Rightarrow> error + 16 word" where
  "rank_via_parent c h p =
     (case p of None \<Rightarrow> Inr (INFINITE_RANK c)
      | Some a \<Rightarrow>
          bindE (deref (parents h) p) (\<lambda>pr.
          bindE (parent_rank_increase c h p) (\<lambda>inc.
            Inr (word_of_int (min (uint (parent_rank pr) + uint inc) (uint (INFINITE_RANK c)))))))"

definition parent_is_acceptable :: "rpl_conf \<Rightarrow> rpl_heap \<Rightarrow> ptr option \<Rightarrow> bool" where
  "parent_is_acceptable c h p \<longleftrightarrow>
     STEP_OF_RANK c h p \<ge> MIN_STEP_OF_RANK \<and> STEP_OF_RANK c h p \<le> MAX_STEP_OF_RANK"

definition parent_has_usable_link :: "rpl_conf \<Rightarrow> rpl_heap \<Rightarrow> ptr option \<Rightarrow> bool" where
  "parent_has_usable_link c h p = parent_is_acceptable c h p"

text \<open>
  Modelled from the spec: the macro \<open>DAG_RANK(fixpt_rank, instance)\<close>, the integer
  hop count \<open>r / min_hoprankinc\<close>; the division traps when \<open>min_hoprankinc\<close> is zero.
\<close>

definition DAG_RANK :: "16 word \<Rightarrow> rpl_instance \<Rightarrow> error + int" where
  "DAG_RANK fixpt_rank inst =
     (if min_hoprankinc inst = 0 then Inl Div_By_Zero
      else Inr (uint fixpt_rank div uint (min_hoprankinc inst)))"

text \<open>The value \<open>r1\<close> (and \<open>r2\<close>) that OF0's \<open>best_parent\<close> compares, a \<open>rpl_rank_t\<close>.\<close>

definition of0_compared_rank :: "rpl_conf \<Rightarrow> rpl_instance \<Rightarrow> rpl_parent \<Rightarrow> error + 16 word" where
  "of0_compared_rank c inst pr =
     bindE (DAG_RANK (parent_rank pr) inst) (\<lambda>dr.
       Inr (word_of_int (dr * RPL_MIN_HOPRANKINC c + uint (link_metric pr))))"

definition of0_best_parent ::
  "rpl_conf \<Rightarrow> rpl_heap \<Rightarrow> ptr option \<Rightarrow> ptr option \<Rightarrow> error + ptr option" where
  "of0_best_parent c h p1 p2 =
     bindE (deref (parents h) p1) (\<lambda>pr1.
     bindE (deref (parents h) p2) (\<lambda>pr2.
     bindE (deref (dags h) (parent_dag pr1)) (\<lambda>dag.
     bindE (deref (instances h) (dag_instance dag)) (\<lambda>inst.
     bindE (of0_compared_rank c inst pr1) (\<lambda>r1.
     bindE (of0_compared_rank c inst pr2) (\<lambda>r2.
       if uint r1 < uint r2 + MIN_DIFFERENCE c \<and> uint r1 > uint r2 - MIN_DIFFERENCE c
       then Inr (preferred_parent dag)
       else if r1 < r2 then Inr p1
       else Inr p2))))))"

definition of0_best_dag :: "rpl_heap \<Rightarrow> ptr option \<Rightarrow> ptr option \<Rightarrow> error + ptr option" where
  "of0_best_dag h d1 d2 =
     bindE (deref (dags h) d1) (\<lambda>a.
     bindE (deref (dags h) d2) (\<lambda>b.
       if grounded a \<noteq> 0 \<and> grounded b = 0 then Inr d1
       else if grounded a = 0 \<and> grounded b \<noteq> 0 then Inr d2
       else if preference a < preference b then Inr d2
       else if preference a > preference b then Inr d1
       else if dag_rank b < dag_rank a then Inr d2
       else Inr d1))"

text \<open>
  Modelled from the spec: OF0's \<open>update_metric_container\<close>, which rpl-of0.c declares and
  no source file defines; the spec gives OF0 no metric container, so the instance's
  container type becomes \<open>RPL_DAG_MC_NONE\<close>.
\<close>

definition of0_update_metric_container :: "rpl_conf \<Rightarrow> rpl_heap \<Rightarrow> ptr \<Rightarrow> error + rpl_heap" where
  "of0_update_metric_container c h ia =
     bindE (deref (instances h) (Some ia)) (\<lambda>instance.
       Inr (set_instance_mc h ia ((mc instance)\<lparr>mc_type := RPL_DAG_MC_NONE (mcc c)\<rparr>)))"


definition ocp :: "rpl_of_t \<Rightarrow> 16 word" where
  "ocp f = (case f of rpl_mrhof \<Rightarrow> 1 | rpl_of0 \<Rightarrow> 0)"

definition update_metric_container ::
  "rpl_conf \<Rightarrow> rpl_of_t \<Rightarrow> rpl_heap \<Rightarrow> ptr \<Rightarrow> error + rpl_heap" where
  "update_metric_container c f h ia =
     (case f of rpl_mrhof \<Rightarrow> mrhof_update_metric_container c h ia
      | rpl_of0 \<Rightarrow> of0_update_metric_container c h ia)"

section \<open>Wire codec\<close>

text \<open>
  \<open>get16\<close> and \<open>get32\<close> read big-endian integers from the buffer.  \<open>set16\<close> and
  \<open>set32\<close> give the octets that the source writes at \<open>pos\<close>: the builders below write
  their octets at increasing positions from 0, the model collects them in that order and
  lays them over the payload area at once.
\<close>

definition get32 :: "8 word list \<Rightarrow> nat \<Rightarrow> error + 32 word" where
  "get32 buffer pos =
     bindE (rd buffer pos) (\<lambda>b0.
     bindE (rd buffer (pos + 1)) (\<lambda>b1.
     bindE (rd buffer (pos + 2)) (\<lambda>b2.
     bindE (rd buffer (pos + 3)) (\<lambda>b3.
       Inr (push_bit 24 (ucast b0) OR push_bit 16 (ucast b1) OR push_bit 8 (ucast b2)
            OR ucast b3)))))"

definition set32 :: "32 word \<Rightarrow> 8 word list" where
  "set32 v = [ucast (drop_bit 24 v), ucast (drop_bit 16 v AND 0xff),
              ucast (drop_bit 8 v AND 0xff), ucast (v AND 0xff)]"

definition get16 :: "8 word list \<Rightarrow> nat \<Rightarrow> error + 16 word" where
  "get16 buffer pos =
     bindE (rd buffer pos) (\<lambda>b0.
     bindE (rd buffer (pos + 1)) (\<lambda>b1.
       Inr (push_bit 8 (ucast b0) OR ucast b1)))"

definition set16 :: "16 word \<Rightarrow> 8 word list" where
  "set16 v = [ucast (drop_bit 8 v), ucast (v AND 0xff)]"

text \<open>\<open>memcpy\<close> of \<open>n\<close> octets out of the buffer.\<close>

definition rd_bytes :: "8 word list \<Rightarrow> nat \<Rightarrow> nat \<Rightarrow> error + 8 word list" where
  "rd_bytes buffer pos n =
     (if pos + n \<le> length buffer then Inr (take n (drop pos buffer)) else Inl Out_Of_Bounds)"

text \<open>
  The head of every option loop: the option type at \<open>i\<close> and the length \<open>len\<close> of the
  whole option, 1 for \<open>PAD1\<close> and else two plus the length octet.
\<close>

definition subopt_len :: "8 word list \<Rightarrow> nat \<Rightarrow> error + (8 word \<times> nat)" where
  "subopt_len buffer i =
     bindE (rd buffer i) (\<lambda>subopt_type.
       if subopt_type = RPL_OPTION_PAD1 then Inr (subopt_type, 1)
       else bindE (rd buffer (i + 1)) (\<lambda>l. Inr (subopt_type, 2 + unat l)))"

text \<open>
  How an input handler leaves its parsing: with the parsed value, through
  \<open>goto discard\<close> after counting a malformed message, or through \<open>goto discard\<close>
  without counting.
\<close>

datatype 'a parsed = Accept 'a | Malformed | Unhandled

section \<open>DIO input and output\<close>

definition zero_addr :: uip_ipaddr_t where
  "zero_addr = replicate 16 0"

definition zero_prefix :: rpl_prefix where
  "zero_prefix = \<lparr>prefix = zero_addr, prefix_lifetime = 0, prefix_length = 0, prefix_flags = 0\<rparr>"

definition zero_mc :: rpl_metric_container where
  "zero_mc = \<lparr>mc_type = 0, mc_flags = 0, mc_aggr = 0, mc_prec = 0, mc_length = 0,
              mc_obj0 = 0, mc_obj1 = 0\<rparr>"

text \<open>The \<open>rpl_dio_t\<close> after \<open>memset\<close> and the defaults for a missing configuration option.\<close>

definition dio_init :: "rpl_conf \<Rightarrow> rpl_dio" where
  "dio_init c =
     \<lparr>dio_dag_id = zero_addr, dio_ocp = RPL_OF_OCP c, dio_rank = 0, dio_grounded = 0,
      dio_mop = 0, dio_preference = 0, dio_version = 0, dio_instance_id = 0, dio_dtsn = 0,
      dag_intdoubl = RPL_DIO_INTERVAL_DOUBLINGS c, dag_intmin = RPL_DIO_INTERVAL_MIN c,
      dag_redund = RPL_DIO_REDUNDANCY c, dio_default_lifetime = RPL_DEFAULT_LIFETIME c,
      dio_lifetime_unit = RPL_DEFAULT_LIFETIME_UNIT c, dag_max_rankinc = RPL_MAX_RANKINC c,
      dag_min_hoprankinc = word_of_int (RPL_MIN_HOPRANKINC c),
      destination_prefix = zero_prefix, dio_prefix_info = zero_prefix, dio_mc = zero_mc\<rparr>"

text \<open>The DIO base object, the first 24 octets.\<close>

definition dio_base :: "rpl_conf \<Rightarrow> 8 word list \<Rightarrow> error + rpl_dio" where
  "dio_base c buffer =
     bindE (rd buffer 0) (\<lambda>b0.
     bindE (rd buffer 1) (\<lambda>b1.
     bindE (get16 buffer 2) (\<lambda>r.
     bindE (rd buffer 4) (\<lambda>b4.
     bindE (rd buffer 5) (\<lambda>b5.
     bindE (rd_bytes buffer 8 16) (\<lambda>did.
       Inr ((dio_init c)\<lparr>dio_instance_id := b0, dio_version := b1, dio_rank := r,
                          dio_grounded := b4 AND RPL_DIO_GROUNDED,
                          dio_mop := drop_bit RPL_DIO_MOP_SHIFT (b4 AND RPL_DIO_MOP_MASK),
                          dio_preference := b4 AND RPL_DIO_PREFERENCE_MASK,
                          dio_dtsn := b5, dio_dag_id := did\<rparr>)))))))"

text \<open>The body of the \<open>switch\<close> for one option of total length \<open>len\<close> at \<open>i\<close>.\<close>

definition dio_metric_container ::
  "rpl_conf \<Rightarrow> 8 word list \<Rightarrow> nat \<Rightarrow> nat \<Rightarrow> rpl_dio \<Rightarrow> error + rpl_dio parsed" where
  "dio_metric_container c buffer i len dio =
     (if len < 6 then Inr Malformed
      else
        bindE (rd buffer (i + 2)) (\<lambda>t.
        bindE (rd buffer (i + 3)) (\<lambda>b3.
        bindE (rd buffer (i + 4)) (\<lambda>b4.
        bindE (rd buffer (i + 5)) (\<lambda>b5.
          let m = (dio_mc dio)\<lparr>mc_type := t, mc_flags := push_bit 1 b3 OR drop_bit 7 b4,
                                mc_aggr := drop_bit 4 b4 AND 0x3, mc_prec := b4 AND 0xf,
                                mc_length := b5\<rparr>
          in
          if t = RPL_DAG_MC_NONE (mcc c) then Inr (Accept (dio\<lparr>dio_mc := m\<rparr>))
          else if t = RPL_DAG_MC_ETX (mcc c) then
            bindE (get16 buffer (i + 6)) (\<lambda>e.
              Inr (Accept (dio\<lparr>dio_mc := mc_obj_etx_update (HOST_LITTLE_ENDIAN c) e m\<rparr>)))
          else if t = RPL_DAG_MC_ENERGY (mcc c) then
            bindE (rd buffer (i + 6)) (\<lambda>ef.
            bindE (rd buffer (i + 7)) (\<lambda>ee.
              Inr (Accept (dio\<lparr>dio_mc := m\<lparr>mc_obj0 := ef, mc_obj1 := ee\<rparr>\<rparr>))))
          else Inr Unhandled)))))"

definition dio_route_info ::
  "8 word list \<Rightarrow> nat \<Rightarrow> nat \<Rightarrow> rpl_dio \<Rightarrow> error + rpl_dio parsed" where
  "dio_route_info buffer i len dio =
     (if len < 9 then Inr Malformed
      else
        bindE (rd buffer (i + 2)) (\<lambda>l.
        bindE (rd buffer (i + 3)) (\<lambda>f.
        bindE (get32 buffer (i + 4)) (\<lambda>lt.
          let n = (unat l + 7) div 8 in
          if n + 8 \<le> len \<and> unat l \<le> 128 then
            bindE (rd_bytes buffer (i + 8) n) (\<lambda>bytes.
              Inr (Accept (dio\<lparr>destination_prefix :=
                     \<lparr>prefix = bytes @ drop n (prefix (destination_prefix dio)),
                      prefix_lifetime = lt, prefix_length = l, prefix_flags = f\<rparr>\<rparr>)))
          else Inr Malformed))))"

definition dio_dag_conf ::
  "8 word list \<Rightarrow> nat \<Rightarrow> nat \<Rightarrow> rpl_dio \<Rightarrow> error + rpl_dio parsed" where
  "dio_dag_conf buffer i len dio =
     (if len \<noteq> 16 then Inr Malformed
      else
        bindE (rd buffer (i + 3)) (\<lambda>b3.
        bindE (rd buffer (i + 4)) (\<lambda>b4.
        bindE (rd buffer (i + 5)) (\<lambda>b5.
        bindE (get16 buffer (i + 6)) (\<lambda>maxinc.
        bindE (get16 buffer (i + 8)) (\<lambda>mininc.
        bindE (get16 buffer (i + 10)) (\<lambda>oc.
        bindE (rd buffer (i + 13)) (\<lambda>dl.
        bindE (get16 buffer (i + 14)) (\<lambda>lu.
          Inr (Accept (dio\<lparr>dag_intdoubl := b3, dag_intmin := b4, dag_redund := b5,
                            dag_max_rankinc := maxinc, dag_min_hoprankinc := mininc,
                            dio_ocp := oc, dio_default_lifetime := dl,
                            dio_lifetime_unit := lu\<rparr>)))))))))))"

definition dio_prefix_information ::
  "8 word list \<Rightarrow> nat \<Rightarrow> nat \<Rightarrow> rpl_dio \<Rightarrow> error + rpl_dio parsed" where
  "dio_prefix_information buffer i len dio =
     (if len \<noteq> 32 then Inr Malformed
      else
        bindE (rd buffer (i + 2)) (\<lambda>l.
        bindE (rd buffer (i + 3)) (\<lambda>f.
        bindE (get32 buffer (i + 8)) (\<lambda>lt.
        bindE (rd_bytes buffer (i + 16) 16) (\<lambda>bytes.
          Inr (Accept (dio\<lparr>dio_prefix_info :=
                 \<lparr>prefix = bytes, prefix_lifetime = lt, prefix_length = l,
                  prefix_flags = f\<rparr>\<rparr>)))))))"

definition dio_subopt ::
  "rpl_conf \<Rightarrow> 8 word list \<Rightarrow> nat \<Rightarrow> 8 word \<Rightarrow> nat \<Rightarrow> rpl_dio \<Rightarrow> error + rpl_dio parsed" where
  "dio_subopt c buffer i subopt_type len dio =
     (if subopt_type = RPL_OPTION_DAG_METRIC_CONTAINER then dio_metric_container c buffer i len dio
      else if subopt_type = RPL_OPTION_ROUTE_INFO then dio_route_info buffer i len dio
      else if subopt_type = RPL_OPTION_DAG_CONF then dio_dag_conf buffer i len dio
      else if subopt_type = RPL_OPTION_PREFIX_INFO then dio_prefix_information buffer i len dio
      else Inr (Accept dio))"

text \<open>The loop over the DIO suboptions, from \<open>i\<close> to \<open>buffer_length\<close>.\<close>

function dio_options ::
  "rpl_conf \<Rightarrow> 8 word list \<Rightarrow> nat \<Rightarrow> nat \<Rightarrow> rpl_dio \<Rightarrow> error + rpl_dio parsed" where
  "dio_options c buffer buffer_length i dio =
     (if i < buffer_length then
        (case subopt_len buffer i of
           Inl e \<Rightarrow> Inl e
         | Inr (subopt_type, len) \<Rightarrow>
             if len + i > buffer_length then Inr Malformed
             else
               (case dio_subopt c buffer i subopt_type len dio of
                  Inl e \<Rightarrow> Inl e
                | Inr Malformed \<Rightarrow> Inr Malformed
                | Inr Unhandled \<Rightarrow> Inr Unhandled
                | Inr (Accept dio') \<Rightarrow> dio_options c buffer buffer_length (i + len) dio'))
      else Inr (Accept dio))"
  by pat_completeness auto
termination
  by (relation "measure (\<lambda>(c, buffer, buffer_length, i, dio). buffer_length - i)")
     (auto simp add: subopt_len_def bindE_def rd_def split: if_splits sum.splits)

declare dio_options.simps [simp del]

definition dio_parse :: "rpl_conf \<Rightarrow> 8 word list \<Rightarrow> nat \<Rightarrow> error + rpl_dio parsed" where
  "dio_parse c buffer buffer_length =
     bindE (dio_base c buffer) (\<lambda>dio. dio_options c buffer buffer_length 24 dio)"

definition stat_incr :: "(rpl_stats_t \<Rightarrow> rpl_stats_t) \<Rightarrow> node \<Rightarrow> node" where
  "stat_incr f st = st\<lparr>rpl_stats := f (rpl_stats st)\<rparr>"

definition emit :: "event \<Rightarrow> node \<Rightarrow> node" where
  "emit ev st = st\<lparr>events := events st @ [ev]\<rparr>"

text \<open>\<open>buffer_length\<close> is a \<open>uint8_t\<close> in \<open>dio_input\<close>: the payload length modulo 256.\<close>

definition dio_input :: "rpl_conf \<Rightarrow> uip_packet \<Rightarrow> node \<Rightarrow> error + node" where
  "dio_input c pkt st =
     (let from = srcipaddr pkt;
          st1 = stat_incr (\<lambda>s. s\<lparr>dio_recvd := dio_recvd s + 1\<rparr>) st;
          buffer_length = payload_len pkt mod 256
      in
      bindE (dio_parse c (icmp_payload st) buffer_length) (\<lambda>r.
        case r of
          Accept dio \<Rightarrow> Inr (emit (Process_Dio from dio) st1)
        | Malformed \<Rightarrow> Inr (stat_incr (\<lambda>s. s\<lparr>malformed_msgs := malformed_msgs s + 1\<rparr>) st1)
        | Unhandled \<Rightarrow> Inr st1))"

text \<open>The octets \<open>dio_output\<close> writes: base object, metric container, configuration, prefix.\<close>

definition dio_base_bytes :: "rpl_conf \<Rightarrow> rpl_instance \<Rightarrow> rpl_dag \<Rightarrow> 8 word list" where
  "dio_base_bytes c instance dag =
     [instance_id instance, version dag]
     @ set16 (if RPL_LEAF_ONLY c then INFINITE_RANK c else dag_rank dag)
     @ [(if grounded dag \<noteq> 0 then RPL_DIO_GROUNDED else 0)
          OR push_bit RPL_DIO_MOP_SHIFT (mop instance)
          OR (preference dag AND RPL_DIO_PREFERENCE_MASK),
        dtsn_out instance, 0, 0]
     @ take 16 (dag_id dag)"

text \<open>
  The metric container option; the flag is false when the container type is neither ETX
  nor ENERGY, where \<open>dio_output\<close> returns without sending.
\<close>

definition dio_mc_bytes :: "rpl_conf \<Rightarrow> rpl_metric_container \<Rightarrow> 8 word list \<times> bool" where
  "dio_mc_bytes c m =
     (let hdr = [RPL_OPTION_DAG_METRIC_CONTAINER, 6, mc_type m, drop_bit 1 (mc_flags m),
                 push_bit 7 (mc_flags m AND 1) OR (push_bit 4 (mc_aggr m) OR mc_prec m)]
      in
      if mc_type m = RPL_DAG_MC_ETX (mcc c) then
        (hdr @ [2] @ set16 (mc_obj_etx (HOST_LITTLE_ENDIAN c) m), True)
      else if mc_type m = RPL_DAG_MC_ENERGY (mcc c) then
        (hdr @ [2, mc_obj0 m, mc_obj1 m], True)
      else (hdr, False))"

definition dio_conf_bytes :: "rpl_instance \<Rightarrow> 8 word list" where
  "dio_conf_bytes instance =
     [RPL_OPTION_DAG_CONF, 14, 0, dio_intdoubl instance, dio_intmin instance,
      dio_redundancy instance]
     @ set16 (max_rankinc instance) @ set16 (min_hoprankinc instance)
     @ set16 (ocp (inst_of instance))
     @ [0, default_lifetime instance] @ set16 (lifetime_unit instance)"

definition dio_prefix_bytes :: "rpl_dag \<Rightarrow> 8 word list" where
  "dio_prefix_bytes dag =
     (if prefix_length (prefix_info dag) > 0 then
        [RPL_OPTION_PREFIX_INFO, 30, prefix_length (prefix_info dag),
         prefix_flags (prefix_info dag)]
        @ set32 (prefix_lifetime (prefix_info dag)) @ set32 (prefix_lifetime (prefix_info dag))
        @ [0, 0, 0, 0] @ take 16 (prefix (prefix_info dag))
      else [])"

definition set_instance :: "rpl_heap \<Rightarrow> ptr \<Rightarrow> rpl_instance \<Rightarrow> rpl_heap" where
  "set_instance h ia instance = h\<lparr>instances := (instances h)[ia := instance]\<rparr>"

definition dio_output :: "rpl_conf \<Rightarrow> node \<Rightarrow> ptr \<Rightarrow> uip_ipaddr_t option \<Rightarrow> error + node" where
  "dio_output c st ia uc_addr =
     bindE (deref (instances (heap st)) (Some ia)) (\<lambda>instance.
       if RPL_LEAF_ONLY c \<and> uc_addr = None then Inr st
       else
         bindE (deref (dags (heap st)) (current_dag instance)) (\<lambda>dag.
           let is_root = (dag_rank dag = ROOT_RANK (macros c) instance);
               base = dio_base_bytes c instance dag;
               instance1 = (if RPL_DIO_REFRESH_DAO_ROUTES c \<and> is_root \<and> uc_addr = None
                            then instance\<lparr>dtsn_out :=
                                   RPL_LOLLIPOP_INCREMENT (macros c) (dtsn_out instance)\<rparr>
                            else instance);
               h1 = set_instance (heap st) ia instance1
           in
           bindE (if \<not> RPL_LEAF_ONLY c \<and> mc_type (mc instance1) \<noteq> RPL_DAG_MC_NONE (mcc c)
                  then bindE (update_metric_container c (inst_of instance1) h1 ia) (\<lambda>h2.
                       bindE (deref (instances h2) (Some ia)) (\<lambda>instance2.
                         Inr (h2, dio_mc_bytes c (mc instance2))))
                  else Inr (h1, [], True)) (\<lambda>(h2, mcb, ok).
           bindE (deref (instances h2) (Some ia)) (\<lambda>instance2.
             if \<not> ok then
               bindE (buf_write (icmp_payload st) 0 (base @ mcb)) (\<lambda>buf.
                 Inr (st\<lparr>heap := h2, icmp_payload := buf\<rparr>))
             else
               let msg = base @ mcb @ dio_conf_bytes instance2 @ dio_prefix_bytes dag in
               bindE (buf_write (icmp_payload st) 0 msg) (\<lambda>buf.
                 let st2 = st\<lparr>heap := h2, icmp_payload := buf\<rparr> in
                 case uc_addr of
                   None \<Rightarrow>
                     Inr (stat_incr (\<lambda>s. s\<lparr>dio_sent_m := dio_sent_m s + 1\<rparr>)
                           (emit (Icmp6_Send (linklocal_rplnodes_mcast (macros c))
                                    RPL_CODE_DIO msg) st2))
                 | Some a \<Rightarrow>
                     if RPL_LEAF_ONLY c then Inr (emit (Icmp6_Send a RPL_CODE_DIO msg) st2)
                     else Inr (stat_incr (\<lambda>s. s\<lparr>dio_sent_u := dio_sent_u s + 1\<rparr>)
                                (emit (Icmp6_Send a RPL_CODE_DIO msg) st2)))))))"

section \<open>Collaborators\<close>

fun first_index :: "('a \<Rightarrow> bool) \<Rightarrow> 'a list \<Rightarrow> nat \<Rightarrow> nat option" where
  "first_index P [] k = None"
| "first_index P (x # xs) k = (if P x then Some k else first_index P xs (Suc k))"

text \<open>
  Modelled from the spec: \<open>rpl_get_instance\<close> of rpl-dag.c, the used entry of the
  instance table with the given instance id, \<open>NULL\<close> for an unknown instance.
\<close>

definition rpl_get_instance :: "rpl_heap \<Rightarrow> 8 word \<Rightarrow> ptr option" where
  "rpl_get_instance h iid = first_index (\<lambda>i. used i \<and> instance_id i = iid) (instances h) 0"

text \<open>
  Modelled from the spec: \<open>rpl_find_parent\<close> of rpl-dag.c, which locates the sender
  among the parents of the DAG.
\<close>

definition rpl_find_parent :: "rpl_heap \<Rightarrow> ptr option \<Rightarrow> uip_ipaddr_t \<Rightarrow> ptr option" where
  "rpl_find_parent h dag addr =
     first_index (\<lambda>p. parent_dag p = dag \<and> parent_ipaddr p = Some addr) (parents h) 0"

text \<open>
  Modelled from the spec: \<open>rpl_add_route\<close> of rpl-dag.c, which inserts or updates the
  route of the prefix: the entry is kept if there is one and fresh otherwise, with the
  given prefix length and next hop.  Whether the table has room is not computed here.
\<close>

definition rpl_add_route :: "node \<Rightarrow> uip_ipaddr_t \<Rightarrow> 8 word \<Rightarrow> uip_ipaddr_t \<Rightarrow> node" where
  "rpl_add_route st pfx prefixlen next_hop =
     st\<lparr>routes := (routes st)(pfx \<mapsto>
          (case routes st pfx of
             None \<Rightarrow> \<lparr>route_length = prefixlen, route_nexthop = Some next_hop,
                      route_lifetime = 0, dao_seqno_in = 0, dao_seqno_out = 0,
                      dao_path_sequence = 0, dao_pending = False, nopath_received = False\<rparr>
           | Some r \<Rightarrow> r\<lparr>route_length := prefixlen, route_nexthop := Some next_hop\<rparr>))\<rparr>"

definition route_update :: "node \<Rightarrow> uip_ipaddr_t \<Rightarrow> (uip_ds6_route \<Rightarrow> uip_ds6_route) \<Rightarrow> node" where
  "route_update st rep f =
     (case routes st rep of None \<Rightarrow> st | Some r \<Rightarrow> st\<lparr>routes := (routes st)(rep \<mapsto> f r)\<rparr>)"

text \<open>\<open>uip_ds6_route_rm\<close>: the entry leaves the table.\<close>

definition uip_ds6_route_rm :: "node \<Rightarrow> uip_ipaddr_t \<Rightarrow> node" where
  "uip_ds6_route_rm st rep = emit (Route_Rm rep) (st\<lparr>routes := (routes st)(rep := None)\<rparr>)"

section \<open>Helpers of rpl-icmp6.c\<close>

text \<open>A route entry is named by its key, the prefix it was found under.\<close>

definition prepare_for_dao_fwd :: "rpl_conf \<Rightarrow> node \<Rightarrow> 8 word \<Rightarrow> uip_ipaddr_t \<Rightarrow> node \<times> 8 word" where
  "prepare_for_dao_fwd c st sequence rep =
     (let seq' = RPL_LOLLIPOP_INCREMENT (macros c) (dao_sequence st);
          st1 = st\<lparr>dao_sequence := seq'\<rparr>
      in (route_update st1 rep
            (\<lambda>r. r\<lparr>dao_seqno_in := sequence, dao_seqno_out := seq', dao_pending := True\<rparr>),
          seq'))"

definition get_global_addr :: "rpl_conf \<Rightarrow> node \<Rightarrow> uip_ipaddr_t option" where
  "get_global_addr c st =
     (case find (\<lambda>a. isused a \<and> (state a = ADDR_TENTATIVE \<or> state a = ADDR_PREFERRED)
                     \<and> \<not> uip_is_addr_linklocal (macros c) (ipaddr a)) (addr_list st) of
        None \<Rightarrow> None
      | Some a \<Rightarrow> Some (ipaddr a))"

text \<open>
  \<open>rpl_icmp6_update_nbr_table\<close>: the neighbour is looked up and, when missing, added;
  the result says whether a neighbour entry came back.
\<close>

definition rpl_icmp6_update_nbr_table :: "env \<Rightarrow> node \<Rightarrow> uip_ipaddr_t \<Rightarrow> node \<times> bool" where
  "rpl_icmp6_update_nbr_table e st from =
     (if from \<in> nbr_cache st then (st, True)
      else if nbr_add_ok e then (st\<lparr>nbr_cache := insert from (nbr_cache st)\<rparr>, True)
      else (st, False))"

definition dao_ack_output ::
  "node \<Rightarrow> rpl_instance \<Rightarrow> uip_ipaddr_t \<Rightarrow> 8 word \<Rightarrow> 8 word \<Rightarrow> error + node" where
  "dao_ack_output st instance dest sequence status =
     (let msg = [instance_id instance, 0, sequence, status] in
      bindE (buf_write (icmp_payload st) 0 msg) (\<lambda>buf.
        Inr (emit (Icmp6_Send dest RPL_CODE_DAO_ACK msg) (st\<lparr>icmp_payload := buf\<rparr>))))"

definition dco_ack_output ::
  "node \<Rightarrow> rpl_instance \<Rightarrow> uip_ipaddr_t \<Rightarrow> 8 word \<Rightarrow> 8 word \<Rightarrow> error + node" where
  "dco_ack_output st instance dest sequence status =
     (let msg = [instance_id instance, 0, sequence, status] in
      bindE (buf_write (icmp_payload st) 0 msg) (\<lambda>buf.
        Inr (emit (Icmp6_Send dest RPL_CODE_DCO_ACK msg) (st\<lparr>icmp_payload := buf\<rparr>))))"

section \<open>DAO and DCO options\<close>

record dao_opts =
  opt_prefix :: uip_ipaddr_t
  opt_prefixlen :: "8 word"
  opt_pathSequence :: "8 word"
  opt_lifetime :: "8 word"
  opt_parent_addr :: uip_ipaddr_t

text \<open>
  The target option: \<open>memset\<close> of the 16 octets of \<open>prefix\<close> and \<open>memcpy\<close> of
  \<open>(prefixlen + 7) / CHAR_BIT\<close> octets into it, which overruns \<open>prefix\<close> beyond 16.
\<close>

definition dao_target :: "8 word list \<Rightarrow> nat \<Rightarrow> dao_opts \<Rightarrow> error + dao_opts" where
  "dao_target buffer i opts =
     bindE (rd buffer (i + 3)) (\<lambda>prefixlen.
       let n = (unat prefixlen + 7) div 8 in
       if n > 16 then Inl Out_Of_Bounds
       else bindE (rd_bytes buffer (i + 4) n) (\<lambda>bytes.
              Inr (opts\<lparr>opt_prefixlen := prefixlen,
                        opt_prefix := bytes @ replicate (16 - n) 0\<rparr>)))"

text \<open>The \<open>switch\<close> of \<open>dao_input_storing\<close> and, with the same two cases, of \<open>dco_input\<close>.\<close>

definition dao_subopt :: "8 word list \<Rightarrow> nat \<Rightarrow> 8 word \<Rightarrow> dao_opts \<Rightarrow> error + dao_opts" where
  "dao_subopt buffer i subopt_type opts =
     (if subopt_type = RPL_OPTION_TARGET then dao_target buffer i opts
      else if subopt_type = RPL_OPTION_TRANSIT then
        bindE (rd buffer (i + 4)) (\<lambda>ps.
        bindE (rd buffer (i + 5)) (\<lambda>lt.
          Inr (opts\<lparr>opt_pathSequence := ps, opt_lifetime := lt\<rparr>)))
      else Inr opts)"

text \<open>The \<open>switch\<close> of \<open>dao_input_nonstoring\<close>.\<close>

definition dao_nonstoring_subopt ::
  "8 word list \<Rightarrow> nat \<Rightarrow> 8 word \<Rightarrow> nat \<Rightarrow> dao_opts \<Rightarrow> error + dao_opts" where
  "dao_nonstoring_subopt buffer i subopt_type len opts =
     (if subopt_type = RPL_OPTION_TARGET then dao_target buffer i opts
      else if subopt_type = RPL_OPTION_TRANSIT then
        bindE (rd buffer (i + 5)) (\<lambda>lt.
          if len \<ge> 20 then
            bindE (rd_bytes buffer (i + 6) 16) (\<lambda>pa.
              Inr (opts\<lparr>opt_lifetime := lt, opt_parent_addr := pa\<rparr>))
          else Inr (opts\<lparr>opt_lifetime := lt\<rparr>))
      else Inr opts)"

text \<open>
  The option loop of the two DAO handlers (\<open>i\<close> and \<open>len\<close> are \<open>int\<close>); the flag says
  which handler's \<open>switch\<close> runs.  There is no check of \<open>len\<close> against \<open>buffer_length\<close>.
\<close>

function dao_options ::
  "bool \<Rightarrow> 8 word list \<Rightarrow> nat \<Rightarrow> nat \<Rightarrow> dao_opts \<Rightarrow> error + dao_opts" where
  "dao_options nonstoring buffer buffer_length i opts =
     (if i < buffer_length then
        (case subopt_len buffer i of
           Inl e \<Rightarrow> Inl e
         | Inr (subopt_type, len) \<Rightarrow>
             (case (if nonstoring then dao_nonstoring_subopt buffer i subopt_type len opts
                    else dao_subopt buffer i subopt_type opts) of
                Inl e \<Rightarrow> Inl e
              | Inr opts' \<Rightarrow> dao_options nonstoring buffer buffer_length (i + len) opts'))
      else Inr opts)"
  by pat_completeness auto
termination
  by (relation "measure (\<lambda>(n, buffer, buffer_length, i, opts). buffer_length - i)")
     (auto simp add: subopt_len_def bindE_def rd_def split: if_splits sum.splits)

declare dao_options.simps [simp del]

text \<open>
  The option loop of \<open>dco_input\<close>, where \<open>i\<close> and \<open>len\<close> are \<open>uint16_t\<close>: an index
  that would pass \<open>0xffff\<close> wraps around in the source and is an error of the model.
\<close>

function dco_options :: "8 word list \<Rightarrow> nat \<Rightarrow> nat \<Rightarrow> dao_opts \<Rightarrow> error + dao_opts" where
  "dco_options buffer buffer_length i opts =
     (if i < buffer_length then
        (case subopt_len buffer i of
           Inl e \<Rightarrow> Inl e
         | Inr (subopt_type, len) \<Rightarrow>
             (case dao_subopt buffer i subopt_type opts of
                Inl e \<Rightarrow> Inl e
              | Inr opts' \<Rightarrow>
                  if i + len \<ge> 65536 then Inl Index_Wrap
                  else dco_options buffer buffer_length (i + len) opts'))
      else Inr opts)"
  by pat_completeness auto
termination
  by (relation "measure (\<lambda>(buffer, buffer_length, i, opts). buffer_length - i)")
     (auto simp add: subopt_len_def bindE_def rd_def split: if_splits sum.splits)

declare dco_options.simps [simp del]

text \<open>
  The DAG id after the base object: \<open>None\<close> when the D flag is set and the id is not
  the one of our DAG (the handler returns), else the position of the first option.
\<close>

definition dao_dag_id_check :: "8 word list \<Rightarrow> 8 word \<Rightarrow> rpl_dag \<Rightarrow> error + nat option" where
  "dao_dag_id_check buffer flags dag =
     (if flags AND RPL_DAO_D_FLAG \<noteq> 0 then
        bindE (rd_bytes buffer 4 16) (\<lambda>bytes.
          if take 16 (dag_id dag) \<noteq> bytes then Inr None else Inr (Some 20))
      else Inr (Some 4))"

section \<open>DAO and DCO output\<close>

definition dao_bytes ::
  "rpl_conf \<Rightarrow> node \<Rightarrow> rpl_instance \<Rightarrow> rpl_dag \<Rightarrow> uip_ipaddr_t \<Rightarrow> uip_ipaddr_t \<Rightarrow> 8 word
   \<Rightarrow> 8 word \<Rightarrow> 8 word list" where
  "dao_bytes c st instance dag parent_ip pfx lifetime seq_no =
     [instance_id instance,
      (if RPL_DAO_SPECIFY_DAG c then RPL_DAO_D_FLAG else 0)
        OR (if lifetime \<noteq> RPL_ZERO_LIFETIME then RPL_DAO_K_FLAG else 0),
      0, seq_no]
     @ (if RPL_DAO_SPECIFY_DAG c then take 16 (dag_id dag) else [])
     @ [RPL_OPTION_TARGET, 18, 0, 128] @ take 16 pfx
     @ [RPL_OPTION_TRANSIT, (if mop instance \<noteq> RPL_MOP_NON_STORING c then 4 else 20), 0, 0,
        path_sequence st, lifetime]
     @ (if mop instance \<noteq> RPL_MOP_NON_STORING c then []
        else take 8 (dag_id dag) @ take 8 (drop 8 parent_ip))"

definition dao_output_target_seq ::
  "rpl_conf \<Rightarrow> node \<Rightarrow> ptr option \<Rightarrow> uip_ipaddr_t option \<Rightarrow> 8 word \<Rightarrow> 8 word \<Rightarrow> error + node" where
  "dao_output_target_seq c st parent pfx lifetime seq_no =
     (if feather_mode st then Inr st
      else case parent of None \<Rightarrow> Inr st
      | Some pa \<Rightarrow>
          bindE (deref (parents (heap st)) parent) (\<lambda>p.
            case parent_ipaddr p of None \<Rightarrow> Inr st
            | Some parent_ip \<Rightarrow>
                (case parent_dag p of None \<Rightarrow> Inr st
                 | Some da \<Rightarrow>
                     bindE (deref (dags (heap st)) (Some da)) (\<lambda>dag.
                       case dag_instance dag of None \<Rightarrow> Inr st
                       | Some ia \<Rightarrow>
                           bindE (deref (instances (heap st)) (Some ia)) (\<lambda>instance.
                             case pfx of None \<Rightarrow> Inr st
                             | Some target \<Rightarrow>
                                 let msg = dao_bytes c st instance dag parent_ip target
                                             lifetime seq_no;
                                     dest = (if mop instance \<noteq> RPL_MOP_NON_STORING c
                                             then parent_ip else dag_id dag)
                                 in
                                 bindE (buf_write (icmp_payload st) 0 msg) (\<lambda>buf.
                                   Inr (stat_incr
                                          (\<lambda>s. if lifetime = 0
                                                then s\<lparr>npdao_sent := npdao_sent s + 1\<rparr>
                                                else s\<lparr>dao_sent := dao_sent s + 1\<rparr>)
                                          (emit (Icmp6_Send dest RPL_CODE_DAO msg)
                                             (st\<lparr>icmp_payload := buf\<rparr>)))))))))"

definition dco_bytes ::
  "rpl_conf \<Rightarrow> node \<Rightarrow> rpl_instance \<Rightarrow> uip_ipaddr_t \<Rightarrow> uip_ipaddr_t \<Rightarrow> 8 word \<Rightarrow> 8 word list" where
  "dco_bytes c st instance did target pathSequence =
     [instance_id instance,
      (if RPL_DAO_SPECIFY_DAG c then RPL_DAO_D_FLAG else 0)
        OR (if RPL_WITH_DCO_ACK c then RPL_DAO_K_FLAG else 0),
      0, dco_sequence st]
     @ (if RPL_DAO_SPECIFY_DAG c then take 16 did else [])
     @ [RPL_OPTION_TARGET, 18, 0, 128] @ take 16 target
     @ [RPL_OPTION_TRANSIT, 4, 0, 0, pathSequence, 0]"

definition dco_output ::
  "rpl_conf \<Rightarrow> node \<Rightarrow> ptr option \<Rightarrow> uip_ipaddr_t \<Rightarrow> uip_ipaddr_t \<Rightarrow> 8 word \<Rightarrow> error + node" where
  "dco_output c st ip pstTargetIP pstDcoTarget pathSequence =
     bindE (deref (instances (heap st)) ip) (\<lambda>instance.
     bindE (if RPL_DAO_SPECIFY_DAG c
            then bindE (deref (dags (heap st)) (current_dag instance)) (\<lambda>d. Inr (dag_id d))
            else Inr []) (\<lambda>did.
       let msg = dco_bytes c st instance did pstTargetIP pathSequence in
       bindE (buf_write (icmp_payload st) 0 msg) (\<lambda>buf.
         Inr (stat_incr (\<lambda>s. s\<lparr>dco_sent := dco_sent s + 1\<rparr>)
                (emit (Icmp6_Send pstDcoTarget RPL_CODE_DCO msg)
                   (st\<lparr>icmp_payload := buf,
                       dco_sequence := RPL_LOLLIPOP_INCREMENT (macros c) (dco_sequence st)\<rparr>))))))"

section \<open>DAO input\<close>

text \<open>
  The two loop tests of \<open>dao_input_storing\<close>: the sender is a parent of the DAG with a
  lower \<open>DAG_RANK\<close> than ours, or it is our preferred parent.
\<close>

definition dao_loop_parent ::
  "rpl_heap \<Rightarrow> rpl_instance \<Rightarrow> rpl_dag \<Rightarrow> ptr option \<Rightarrow> error + bool" where
  "dao_loop_parent h instance dag parent =
     (case parent of None \<Rightarrow> Inr False
      | Some pa \<Rightarrow>
          bindE (deref (parents h) parent) (\<lambda>p.
          bindE (DAG_RANK (parent_rank p) instance) (\<lambda>r1.
          bindE (DAG_RANK (dag_rank dag) instance) (\<lambda>r2.
            Inr (r1 < r2 \<or> parent = preferred_parent dag)))))"

definition poison_parent :: "rpl_conf \<Rightarrow> rpl_heap \<Rightarrow> ptr option \<Rightarrow> rpl_heap" where
  "poison_parent c h parent =
     (case parent of None \<Rightarrow> h
      | Some pa \<Rightarrow>
          h\<lparr>parents := (parents h)[pa := (parents h ! pa)
                \<lparr>parent_rank := INFINITE_RANK c,
                 parent_flags := parent_flags (parents h ! pa) OR RPL_PARENT_FLAG_UPDATED c\<rparr>]\<rparr>)"

text \<open>\<open>buffer[3] = out_seq\<close> and the send of \<open>buffer_length\<close> octets of the payload.\<close>

definition forward_dao :: "node \<Rightarrow> uip_ipaddr_t \<Rightarrow> 8 word \<Rightarrow> nat \<Rightarrow> error + node" where
  "forward_dao st dest out_seq buffer_length =
     bindE (buf_write (icmp_payload st) 3 [out_seq]) (\<lambda>buf.
       Inr (emit (Icmp6_Send dest RPL_CODE_DAO (take buffer_length buf))
              (st\<lparr>icmp_payload := buf\<rparr>)))"

text \<open>The branch \<open>lifetime == RPL_ZERO_LIFETIME\<close> of \<open>dao_input_storing\<close>.\<close>

definition dao_storing_nopath ::
  "rpl_conf \<Rightarrow> uip_packet \<Rightarrow> node \<Rightarrow> rpl_instance \<Rightarrow> rpl_dag \<Rightarrow> 8 word \<Rightarrow> 8 word \<Rightarrow> nat
   \<Rightarrow> dao_opts \<Rightarrow> error + node" where
  "dao_storing_nopath c pkt st instance dag flags sequence buffer_length opts =
     (let dao_sender_addr = srcipaddr pkt;
          rep = opt_prefix opts;
          st1 = stat_incr (\<lambda>s. s\<lparr>dao_recvd := dao_recvd s - 1,
                                  npdao_recvd := npdao_recvd s + 1\<rparr>) st
      in
      bindE
        (case routes st1 rep of
           None \<Rightarrow> Inr st1
         | Some r \<Rightarrow>
             if \<not> nopath_received r \<and> route_length r = opt_prefixlen opts
                \<and> route_nexthop r = Some dao_sender_addr
             then
               let st2 = route_update st1 rep
                           (\<lambda>r. r\<lparr>nopath_received := True,
                                  route_lifetime := RPL_NOPATH_REMOVAL_DELAY c\<rparr>)
               in
               (case preferred_parent dag of
                  None \<Rightarrow> Inr st2
                | Some ppa \<Rightarrow>
                    bindE (deref (parents (heap st2)) (preferred_parent dag)) (\<lambda>pp.
                      case parent_ipaddr pp of
                        None \<Rightarrow> Inr st2
                      | Some pip \<Rightarrow>
                          (case prepare_for_dao_fwd c st2 sequence rep of
                             (st3, out_seq) \<Rightarrow>
                               bindE (forward_dao st3 pip out_seq buffer_length) (\<lambda>st4.
                                 Inr (stat_incr
                                        (\<lambda>s. s\<lparr>npdao_forwarded := npdao_forwarded s + 1\<rparr>)
                                        st4)))))
             else Inr st1)
        (\<lambda>st5.
           if flags AND RPL_DAO_K_FLAG \<noteq> 0
           then dao_ack_output st5 instance dao_sender_addr sequence
                  RPL_DAO_ACK_UNCONDITIONAL_ACCEPT
           else Inr st5))"

text \<open>The rest of \<open>dao_input_storing\<close>, from \<open>Adding DAO route\<close> on.\<close>

definition dao_storing_forward ::
  "rpl_conf \<Rightarrow> node \<Rightarrow> rpl_dag \<Rightarrow> uip_ds6_route \<Rightarrow> uip_ipaddr_t \<Rightarrow> 8 word \<Rightarrow> nat
   \<Rightarrow> error + node" where
  "dao_storing_forward c st dag r rep sequence buffer_length =
     (case preferred_parent dag of
        None \<Rightarrow> Inr st
      | Some ppa \<Rightarrow>
          bindE (deref (parents (heap st)) (preferred_parent dag)) (\<lambda>pp.
            case parent_ipaddr pp of
              None \<Rightarrow> Inr st
            | Some pip \<Rightarrow>
                (case (if dao_pending r \<and> dao_seqno_in r = sequence
                       then (st, dao_seqno_out r)
                       else prepare_for_dao_fwd c st sequence rep) of
                   (st1, out_seq) \<Rightarrow>
                     bindE (forward_dao st1 pip out_seq buffer_length) (\<lambda>st2.
                       Inr (stat_incr (\<lambda>s. s\<lparr>dao_forwarded := dao_forwarded s + 1\<rparr>) st2)))))"

definition dao_storing_add ::
  "rpl_conf \<Rightarrow> env \<Rightarrow> uip_packet \<Rightarrow> node \<Rightarrow> ptr option \<Rightarrow> rpl_instance \<Rightarrow> rpl_dag \<Rightarrow> 8 word
   \<Rightarrow> 8 word \<Rightarrow> nat \<Rightarrow> bool \<Rightarrow> dao_opts \<Rightarrow> error + node" where
  "dao_storing_add c e pkt st ip instance dag flags sequence buffer_length unicast opts =
     (let dao_sender_addr = srcipaddr pkt;
          is_root = (dag_rank dag = ROOT_RANK (macros c) instance);
          nack = (if is_root then RPL_DAO_ACK_UNABLE_TO_ADD_ROUTE_AT_ROOT c
                  else RPL_DAO_ACK_UNABLE_TO_ACCEPT c);
          rep = opt_prefix opts;
          curNextHop = (case routes st rep of
                          None \<Rightarrow> zero_addr
                        | Some r \<Rightarrow> (case route_nexthop r of None \<Rightarrow> zero_addr
                                     | Some nh \<Rightarrow> nh))
      in
      case rpl_icmp6_update_nbr_table e st dao_sender_addr of
        (st1, False) \<Rightarrow>
          if flags AND RPL_DAO_K_FLAG \<noteq> 0
          then dao_ack_output st1 instance dao_sender_addr sequence nack
          else Inr st1
      | (st1, True) \<Rightarrow>
          if \<not> route_add_ok e then
            let st2 = stat_incr (\<lambda>s. s\<lparr>mem_overflows := mem_overflows s + 1\<rparr>) st1 in
            if flags AND RPL_DAO_K_FLAG \<noteq> 0
            then dao_ack_output st2 instance dao_sender_addr sequence nack
            else Inr st2
          else
            let st2 = rpl_add_route st1 rep (opt_prefixlen opts) dao_sender_addr;
                st3 = route_update st2 rep
                        (\<lambda>r. r\<lparr>route_lifetime :=
                                 RPL_LIFETIME (macros c) instance (opt_lifetime opts),
                               dao_path_sequence := opt_pathSequence opts,
                               nopath_received := False\<rparr>)
            in
            if \<not> unicast then Inr st3
            else
              (case routes st3 rep of
                 None \<Rightarrow> Inl Null_Deref
               | Some r \<Rightarrow>
                   let should_ack =
                         (flags AND RPL_DAO_K_FLAG \<noteq> 0
                          \<and> ((\<not> dao_pending r \<and> dao_seqno_in r = sequence)
                              \<or> dag_rank dag = ROOT_RANK (macros c) instance))
                   in
                   bindE (dao_storing_forward c st3 dag r rep sequence buffer_length) (\<lambda>st4.
                   bindE (if should_ack
                          then dao_ack_output st4 instance dao_sender_addr sequence
                                 RPL_DAO_ACK_UNCONDITIONAL_ACCEPT
                          else Inr st4) (\<lambda>st5.
                     if \<not> uip_is_addr_unspecified (macros c) curNextHop
                        \<and> curNextHop \<noteq> dao_sender_addr
                     then dco_output c st5 ip rep curNextHop (opt_pathSequence opts)
                     else Inr st5))))"

text \<open>
  How \<open>dao_input_storing\<close> leaves its first part: it returns because the DAO names
  another DAG, it returns after marking the sender as the parent of a loop, or it goes on
  with the instance, the flags, the sequence number, whether the DAO came by unicast,
  and the values the option loop found.
\<close>

datatype dao_parsed =
    Dao_Other_Dag
  | Dao_Loop "ptr option"
  | Dao_Parsed "ptr option" "8 word" "8 word" bool dao_opts

text \<open>
  \<open>buffer_length\<close> is a \<open>uint8_t\<close>: the payload length modulo 256.  \<open>pathSequence\<close> is
  not initialised before the option loop.
\<close>

definition dao_storing_parse :: "rpl_conf \<Rightarrow> env \<Rightarrow> uip_packet \<Rightarrow> node \<Rightarrow> error + dao_parsed" where
  "dao_storing_parse c e pkt st =
     (let dao_sender_addr = srcipaddr pkt;
          buffer = icmp_payload st;
          buffer_length = payload_len pkt mod 256;
          h = heap st
      in
      bindE (rd buffer 0) (\<lambda>iid.
      let ip = rpl_get_instance h iid in
      bindE (deref (instances h) ip) (\<lambda>instance.
      bindE (rd buffer 1) (\<lambda>flags.
      bindE (rd buffer 3) (\<lambda>sequence.
      bindE (deref (dags h) (current_dag instance)) (\<lambda>dag.
      bindE (dao_dag_id_check buffer flags dag) (\<lambda>start.
        case start of
          None \<Rightarrow> Inr Dao_Other_Dag
        | Some pos \<Rightarrow>
            let unicast = \<not> uip_is_addr_mcast (macros c) dao_sender_addr;
                parent = (if unicast
                          then rpl_find_parent h (current_dag instance) dao_sender_addr
                          else None)
            in
            bindE (dao_loop_parent h instance dag parent) (\<lambda>loop.
              if loop then Inr (Dao_Loop parent)
              else
                bindE (dao_options False buffer buffer_length pos
                         \<lparr>opt_prefix = zero_addr, opt_prefixlen = 0,
                          opt_pathSequence = stack_pathSequence e,
                          opt_lifetime = default_lifetime instance,
                          opt_parent_addr = zero_addr\<rparr>) (\<lambda>opts.
                  Inr (Dao_Parsed ip flags sequence unicast opts))))))))))"

definition dao_input_storing :: "rpl_conf \<Rightarrow> env \<Rightarrow> uip_packet \<Rightarrow> node \<Rightarrow> error + node" where
  "dao_input_storing c e pkt st =
     (let st1 = stat_incr (\<lambda>s. s\<lparr>dao_recvd := dao_recvd s + 1\<rparr>) st;
          buffer_length = payload_len pkt mod 256
      in
      bindE (dao_storing_parse c e pkt st) (\<lambda>r.
        case r of
          Dao_Other_Dag \<Rightarrow> Inr st1
        | Dao_Loop parent \<Rightarrow> Inr (st1\<lparr>heap := poison_parent c (heap st) parent\<rparr>)
        | Dao_Parsed ip flags sequence unicast opts \<Rightarrow>
            bindE (deref (instances (heap st)) ip) (\<lambda>instance.
            bindE (deref (dags (heap st)) (current_dag instance)) (\<lambda>dag.
              if opt_lifetime opts = RPL_ZERO_LIFETIME
              then dao_storing_nopath c pkt st1 instance dag flags sequence
                     buffer_length opts
              else dao_storing_add c e pkt st1 ip instance dag flags sequence
                     buffer_length unicast opts))))"

text \<open>\<open>prefix\<close> is not initialised before the option loop of \<open>dao_input_nonstoring\<close>.\<close>

definition dao_nonstoring_parse ::
  "rpl_conf \<Rightarrow> env \<Rightarrow> uip_packet \<Rightarrow> node \<Rightarrow> error + (ptr option \<times> 8 word \<times> 8 word \<times> dao_opts) option" where
  "dao_nonstoring_parse c e pkt st =
     (let buffer = icmp_payload st;
          buffer_length = payload_len pkt mod 256;
          h = heap st
      in
      bindE (rd buffer 0) (\<lambda>iid.
      let ip = rpl_get_instance h iid in
      bindE (deref (instances h) ip) (\<lambda>instance.
      bindE (rd buffer 1) (\<lambda>flags.
      bindE (rd buffer 3) (\<lambda>sequence.
      bindE (deref (dags h) (current_dag instance)) (\<lambda>dag.
      bindE (dao_dag_id_check buffer flags dag) (\<lambda>start.
        case start of
          None \<Rightarrow> Inr None
        | Some pos \<Rightarrow>
            bindE (dao_options True buffer buffer_length pos
                     \<lparr>opt_prefix = stack_prefix e, opt_prefixlen = 0,
                      opt_pathSequence = stack_pathSequence e,
                      opt_lifetime = default_lifetime instance,
                      opt_parent_addr = zero_addr\<rparr>) (\<lambda>opts.
              Inr (Some (ip, flags, sequence, opts))))))))))"

definition dao_input_nonstoring :: "rpl_conf \<Rightarrow> env \<Rightarrow> uip_packet \<Rightarrow> node \<Rightarrow> error + node" where
  "dao_input_nonstoring c e pkt st =
     bindE (dao_nonstoring_parse c e pkt st) (\<lambda>r.
       case r of
         None \<Rightarrow> Inr st
       | Some (ip, flags, sequence, opts) \<Rightarrow>
           bindE (deref (instances (heap st)) ip) (\<lambda>instance.
             let dao_sender_addr = srcipaddr pkt;
                 st1 = (if opt_lifetime opts = RPL_ZERO_LIFETIME
                        then emit (Ns_Expire_Parent (current_dag instance) (opt_prefix opts)
                                     (opt_parent_addr opts)) st
                        else emit (Ns_Update_Node (current_dag instance) (opt_prefix opts)
                                     (opt_parent_addr opts)
                                     (RPL_LIFETIME (macros c) instance (opt_lifetime opts))) st)
             in
             if opt_lifetime opts \<noteq> RPL_ZERO_LIFETIME \<and> \<not> ns_update_ok e then Inr st1
             else if flags AND RPL_DAO_K_FLAG \<noteq> 0
             then dao_ack_output st1 instance dao_sender_addr sequence
                    RPL_DAO_ACK_UNCONDITIONAL_ACCEPT
             else Inr st1))"

definition dao_input :: "rpl_conf \<Rightarrow> env \<Rightarrow> uip_packet \<Rightarrow> node \<Rightarrow> error + node" where
  "dao_input c e pkt st =
     bindE (rd (icmp_payload st) 0) (\<lambda>iid.
       case rpl_get_instance (heap st) iid of
         None \<Rightarrow> Inr st
       | Some ia \<Rightarrow>
           bindE (deref (instances (heap st)) (Some ia)) (\<lambda>instance.
             if RPL_IS_STORING (macros c) instance then dao_input_storing c e pkt st
             else if RPL_IS_NON_STORING (macros c) instance then dao_input_nonstoring c e pkt st
             else Inr st))"

section \<open>DAO retransmission\<close>


section \<open>DCO input\<close>

text \<open>
  \<open>buffer_length\<close> is a \<open>uint16_t\<close> here.  \<open>prefix\<close>, \<open>prefixlen\<close>,
  \<open>pathSequence\<close> and \<open>pathLifetime\<close> are not initialised before the option loop.
\<close>

definition dco_parse ::
  "rpl_conf \<Rightarrow> env \<Rightarrow> uip_packet \<Rightarrow> node \<Rightarrow> error + (ptr \<times> 8 word \<times> 8 word \<times> dao_opts) option" where
  "dco_parse c e pkt st =
     (let buffer = icmp_payload st;
          buffer_length = payload_len pkt mod 65536;
          h = heap st
      in
      bindE (rd buffer 0) (\<lambda>iid.
        case rpl_get_instance h iid of
          None \<Rightarrow> Inr None
        | Some ia \<Rightarrow>
            bindE (deref (instances h) (Some ia)) (\<lambda>instance.
            bindE (rd buffer 1) (\<lambda>flags.
            bindE (rd buffer 3) (\<lambda>dco_seq.
            bindE (deref (dags h) (current_dag instance)) (\<lambda>curdag.
            bindE (dao_dag_id_check buffer flags curdag) (\<lambda>start.
              case start of
                None \<Rightarrow> Inr None
              | Some pos \<Rightarrow>
                  bindE (dco_options buffer buffer_length pos
                           \<lparr>opt_prefix = stack_prefix e, opt_prefixlen = stack_prefixlen e,
                            opt_pathSequence = stack_pathSequence e,
                            opt_lifetime = stack_pathLifetime e,
                            opt_parent_addr = zero_addr\<rparr>) (\<lambda>opts.
                    Inr (Some (ia, flags, dco_seq, opts))))))))))"

text \<open>The part of \<open>dco_input\<close> after the option loop, from the route lookup on.\<close>

definition dco_route ::
  "rpl_conf \<Rightarrow> uip_packet \<Rightarrow> node \<Rightarrow> rpl_instance \<Rightarrow> 8 word \<Rightarrow> 8 word \<Rightarrow> dao_opts
   \<Rightarrow> error + node" where
  "dco_route c pkt st1 instance flags dco_seq opts =
     (let dao_sender = srcipaddr pkt;
          buffer = icmp_payload st1;
          buffer_length = payload_len pkt mod 65536;
          pstRoute = routes st1 (opt_prefix opts)
      in
      if pstRoute \<noteq> None \<and> opt_lifetime opts = 0 then
        (case pstRoute of
           None \<Rightarrow> Inl Null_Deref
         | Some r \<Rightarrow>
             let st2 =
                   (case route_nexthop r of
                      Some pstNextHop \<Rightarrow>
                        if lollipop_greater_than (macros c)
                             (opt_pathSequence opts) (dao_path_sequence r)
                        then uip_ds6_route_rm
                               (stat_incr
                                  (\<lambda>s. s\<lparr>dco_forwarded := dco_forwarded s + 1\<rparr>)
                                  (emit (Icmp6_Send pstNextHop RPL_CODE_DCO
                                           (take buffer_length buffer)) st1))
                               (opt_prefix opts)
                        else stat_incr
                               (\<lambda>s. s\<lparr>dco_ignored := dco_ignored s + 1\<rparr>) st1
                    | None \<Rightarrow>
                        stat_incr (\<lambda>s. s\<lparr>dco_ignored := dco_ignored s + 1\<rparr>) st1)
             in
             if flags AND RPL_DAO_K_FLAG \<noteq> 0
             then dco_ack_output st2 instance dao_sender dco_seq 0
             else Inr st2)
      else if get_global_addr c st1 = Some (opt_prefix opts) then
        Inr (stat_incr (\<lambda>s. s\<lparr>dco_ignored := dco_ignored s + 1\<rparr>) st1)
      else if flags AND RPL_DAO_K_FLAG \<noteq> 0
      then dco_ack_output st1 instance dao_sender dco_seq 234
      else Inr st1)"

definition dco_input :: "rpl_conf \<Rightarrow> env \<Rightarrow> uip_packet \<Rightarrow> node \<Rightarrow> error + node" where
  "dco_input c e pkt st =
     (let st1 = stat_incr (\<lambda>s. s\<lparr>dco_recvd := dco_recvd s + 1\<rparr>) st in
      bindE (dco_parse c e pkt st) (\<lambda>r.
        case r of
          None \<Rightarrow> Inr st1
        | Some (ia, flags, dco_seq, opts) \<Rightarrow>
            bindE (deref (instances (heap st)) (Some ia)) (\<lambda>instance.
              dco_route c pkt st1 instance flags dco_seq opts)))"

text \<open>The trace of events a handler leaves.\<close>

definition trace :: "error + node \<Rightarrow> error + event list" where
  "trace r = (case r of Inl e \<Rightarrow> Inl e | Inr st \<Rightarrow> Inr (events st))"

text \<open>A counter of the statistics and the route of a prefix that a handler leaves.\<close>

definition result_stat :: "(rpl_stats_t \<Rightarrow> nat) \<Rightarrow> error + node \<Rightarrow> error + nat" where
  "result_stat f r = (case r of Inl e \<Rightarrow> Inl e | Inr st \<Rightarrow> Inr (f (rpl_stats st)))"

definition result_route :: "error + node \<Rightarrow> uip_ipaddr_t \<Rightarrow> error + uip_ds6_route option" where
  "result_route r pfx = (case r of Inl e \<Rightarrow> Inl e | Inr st \<Rightarrow> Inr (routes st pfx))"

section \<open>An example configuration\<close>

definition example_lollipop_greater_than :: "8 word \<Rightarrow> 8 word \<Rightarrow> bool" where
  "example_lollipop_greater_than a b =
     (if a \<le> 127 \<and> b \<le> 127 then a \<noteq> b \<and> (unat a + 128 - unat b) mod 128 < 64
      else if a > 127 \<and> b > 127 then a > b
      else b > 127)"

definition example_macros :: rpl_macros where
  "example_macros =
     \<lparr>RPL_IS_STORING = (\<lambda>i. mop i > 1), RPL_IS_NON_STORING = (\<lambda>i. mop i = 1),
      ROOT_RANK = min_hoprankinc,
      RPL_LIFETIME = (\<lambda>i l. ucast (lifetime_unit i) * ucast l),
      RPL_LOLLIPOP_INCREMENT = (\<lambda>x. if x > 127 then x + 1 else (x + 1) AND 127),
      lollipop_greater_than = example_lollipop_greater_than,
      uip_is_addr_mcast = (\<lambda>a. take 1 a = [0xff]),
      uip_is_addr_linklocal = (\<lambda>a. take 2 a = [0xfe, 0x80]),
      uip_is_addr_unspecified = (\<lambda>a. a = zero_addr),
      linklocal_rplnodes_mcast = [0xff, 0x02, 0, 0, 0, 0, 0, 0, 0, 0, 0, 0, 0, 0, 0, 0x1a]\<rparr>"

definition example_mc_conf :: rpl_mc_conf where
  "example_mc_conf =
     \<lparr>RPL_DAG_MC = 0, RPL_DAG_MC_NONE = 0, RPL_DAG_MC_ETX = 7, RPL_DAG_MC_ENERGY = 2,
      RPL_DAG_MC_FLAG_P = 0x8, RPL_DAG_MC_AGGR_ADDITIVE = 0, RPL_DAG_MC_ENERGY_TYPE = 1,
      RPL_DAG_MC_ENERGY_TYPE_MAINS = 0, RPL_DAG_MC_ENERGY_TYPE_BATTERY = 1,
      RPL_DAG_MC_ETX_DIVISOR = 128\<rparr>"

definition example_conf :: rpl_conf where
  "example_conf =
     \<lparr>macros = example_macros, mcc = example_mc_conf, HOST_LITTLE_ENDIAN = True,
      LINK_STATS_ETX_DIVISOR = 128,
      RPL_MIN_HOPRANKINC = 256, RPL_MAX_RANKINC = 1792, INFINITE_RANK = 0xffff,
      RPL_LEAF_ONLY = False, RPL_DIO_REFRESH_DAO_ROUTES = True, RPL_DAO_SPECIFY_DAG = False,
      RPL_WITH_DCO_ACK = False, RPL_DIO_INTERVAL_DOUBLINGS = 8, RPL_DIO_INTERVAL_MIN = 12,
      RPL_DIO_REDUNDANCY = 10, RPL_OF_OCP = 1, RPL_DEFAULT_LIFETIME = 30,
      RPL_DEFAULT_LIFETIME_UNIT = 60, RPL_MOP_NON_STORING = 1, RPL_NOPATH_REMOVAL_DELAY = 60,
      RPL_DAO_MAX_RETRANSMISSIONS = 5, RPL_DAO_RETRANSMISSION_TIMEOUT = 640,
      RPL_PARENT_FLAG_UPDATED = 1, RPL_DAO_ACK_UNABLE_TO_ACCEPT = 128,
      RPL_DAO_ACK_UNABLE_TO_ADD_ROUTE_AT_ROOT = 129, RPL_DAO_ACK_TIMEOUT = - 1\<rparr>"

definition example_parent :: "16 word \<Rightarrow> 16 word \<Rightarrow> uip_ipaddr_t option \<Rightarrow> 16 word option \<Rightarrow> rpl_parent" where
  "example_parent r lm ip etx =
     \<lparr>parent_dag = Some 0, parent_rank = r, link_metric = lm, parent_flags = 0,
      parent_mc = zero_mc, parent_ipaddr = ip, link_stats_etx = etx\<rparr>"

definition example_dag :: "ptr option \<Rightarrow> 16 word \<Rightarrow> rpl_dag" where
  "example_dag pp r =
     \<lparr>dag_id = [0xaa, 0xaa, 0, 0, 0, 0, 0, 0, 0, 0, 0, 0, 0, 0, 0, 1], dag_instance = Some 0,
      preferred_parent = pp, dag_rank = r, grounded = 1, preference = 0, version = 240,
      joined = True, prefix_info = zero_prefix\<rparr>"

definition example_instance :: "rpl_of_t \<Rightarrow> 8 word \<Rightarrow> rpl_instance" where
  "example_instance f m =
     \<lparr>instance_id = 30, used = True, current_dag = Some 0, inst_of = f, mop = m,
      dtsn_out = 240, mc = zero_mc, dio_intdoubl = 8, dio_intmin = 12, dio_redundancy = 10,
      max_rankinc = 1792, min_hoprankinc = 256, default_lifetime = 30, lifetime_unit = 60,
      my_dao_seqno = 241, my_dao_transmissions = 5, has_downward_route = False\<rparr>"

definition example_heap :: "rpl_of_t \<Rightarrow> ptr option \<Rightarrow> rpl_parent list \<Rightarrow> rpl_heap" where
  "example_heap f pp ps =
     \<lparr>instances = [example_instance f 2], dags = [example_dag pp 768], parents = ps\<rparr>"

definition example_tie_heap :: rpl_heap where
  "example_tie_heap =
     \<lparr>instances = [example_instance rpl_of0 2],
      dags = [example_dag None 512, (example_dag None 512)\<lparr>version := 241\<rparr>], parents = []\<rparr>"

definition example_addr :: "8 word \<Rightarrow> uip_ipaddr_t" where
  "example_addr k = [0x20, 0x01, 0x0d, 0xb8, 0, 0, 0, 0, 0, 0, 0, 0, 0, 0, 0, k]"

definition example_stats :: rpl_stats_t where
  "example_stats =
     \<lparr>malformed_msgs = 0, mem_overflows = 0, dio_recvd = 0, dio_sent_m = 0, dio_sent_u = 0,
      dao_recvd = 0, dao_sent = 0, dao_forwarded = 0, npdao_recvd = 0, npdao_sent = 0,
      npdao_forwarded = 0, dco_recvd = 0, dco_sent = 0, dco_forwarded = 0, dco_ignored = 0\<rparr>"

definition example_route :: "uip_ipaddr_t \<Rightarrow> 8 word \<Rightarrow> uip_ds6_route" where
  "example_route nh ps =
     \<lparr>route_length = 128, route_nexthop = Some nh, route_lifetime = 1800, dao_seqno_in = 0,
      dao_seqno_out = 0, dao_path_sequence = ps, dao_pending = False,
      nopath_received = False\<rparr>"

definition example_node ::
  "rpl_heap \<Rightarrow> (uip_ipaddr_t \<rightharpoonup> uip_ds6_route) \<Rightarrow> 8 word list \<Rightarrow> node" where
  "example_node h rt buf =
     \<lparr>heap = h, routes = rt, nbr_cache = {},
      addr_list = [\<lparr>isused = True, state = ADDR_PREFERRED, ipaddr = example_addr 1\<rparr>],
      dao_sequence = 240, dco_sequence = 240, path_sequence = 240, rpl_stats = example_stats,
      icmp_payload = buf, feather_mode = False, events = []\<rparr>"

definition example_env :: env where
  "example_env =
     \<lparr>nbr_add_ok = True, route_add_ok = True, ns_update_ok = True, random_rand = 7,
      stack_prefix = zero_addr, stack_prefixlen = 0, stack_pathSequence = 0,
      stack_pathLifetime = 0\<rparr>"

definition example_packet :: "uip_ipaddr_t \<Rightarrow> nat \<Rightarrow> uip_packet" where
  "example_packet src n = \<lparr>srcipaddr = src, destipaddr = example_addr 1, payload_len = n\<rparr>"

text \<open>A DAO or DCO of 30 octets for the target, followed by two stale octets of the buffer.\<close>

definition example_dao_buffer :: "8 word \<Rightarrow> uip_ipaddr_t \<Rightarrow> 8 word \<Rightarrow> 8 word \<Rightarrow> 8 word \<Rightarrow> 8 word list" where
  "example_dao_buffer flags target tlen ps lt =
     [30, flags, 0, 17, 5, 18, 0, 128] @ target @ [6, tlen, 0, 0, ps, lt] @ [0, 0]"

text \<open>
  The same configuration with ETX as the metric container, and a node below the root
  whose instance carries a metric container and whose DAG announces a prefix.
\<close>

definition example_conf_etx :: rpl_conf where
  "example_conf_etx = example_conf\<lparr>mcc := example_mc_conf\<lparr>RPL_DAG_MC := 7\<rparr>\<rparr>"

definition example_prefix :: rpl_prefix where
  "example_prefix =
     \<lparr>prefix = example_addr 0, prefix_lifetime = 86400, prefix_length = 64,
      prefix_flags = 0x40\<rparr>"

definition example_etx_heap :: rpl_heap where
  "example_etx_heap =
     \<lparr>instances = [(example_instance rpl_mrhof 2)\<lparr>mc := zero_mc\<lparr>mc_type := 7\<rparr>\<rparr>],
      dags = [(example_dag (Some 0) 768)\<lparr>prefix_info := example_prefix\<rparr>],
      parents = [example_parent 512 128 (Some (example_addr 2)) (Some 160)]\<rparr>"

text \<open>A node of a non-storing instance (mode of operation 1).\<close>

definition example_nonstoring_heap :: rpl_heap where
  "example_nonstoring_heap =
     \<lparr>instances = [example_instance rpl_mrhof 1],
      dags = [example_dag (Some 0) 768],
      parents = [example_parent 512 128 (Some (example_addr 2)) (Some 160)]\<rparr>"

text \<open>
  The octets of four messages: a DIO of 80 octets (base object, metric container with
  ETX 128, configuration, prefix information), and a storing DAO of 30 octets, a
  non-storing DAO of 46 octets and a DCO of 30 octets for the target \<open>2001:db8::9\<close>.
\<close>

definition example_dio_bytes :: "8 word list" where
  "example_dio_bytes =
     [30, 240, 3, 0, 0x90, 240, 0, 0]
     @ [0xaa, 0xaa, 0, 0, 0, 0, 0, 0, 0, 0, 0, 0, 0, 0, 0, 1]
     @ [2, 6, 7, 4, 0, 2, 0, 128]
     @ [4, 14, 0, 8, 12, 10, 7, 0, 1, 0, 0, 1, 0, 30, 0, 60]
     @ [8, 30, 64, 0x40, 0, 1, 0x51, 0x80, 0, 1, 0x51, 0x80, 0, 0, 0, 0]
     @ example_addr 0"

definition example_dao_bytes :: "8 word list" where
  "example_dao_bytes =
     [30, 0x80, 0, 17, 5, 18, 0, 128] @ example_addr 9 @ [6, 4, 0, 0, 240, 30]"

definition example_dao_nonstoring_bytes :: "8 word list" where
  "example_dao_nonstoring_bytes =
     [30, 0x80, 0, 17, 5, 18, 0, 128] @ example_addr 9 @ [6, 20, 0, 0, 240, 30]
     @ [0xaa, 0xaa, 0, 0, 0, 0, 0, 0, 0, 0, 0, 0, 0, 0, 0, 2]"

definition example_dco_bytes :: "8 word list" where
  "example_dco_bytes =
     [30, 0, 0, 240, 5, 18, 0, 128] @ example_addr 9 @ [6, 4, 0, 0, 4, 0]"

section \<open>Evaluation and error lemmas\<close>

lemmas ex_defs = example_heap_def example_instance_def example_dag_def example_parent_def
  example_conf_def example_mc_conf_def example_macros_def zero_mc_def zero_prefix_def
  zero_addr_def

lemmas ex2_defs = example_addr_def example_stats_def example_route_def example_node_def
  example_env_def example_packet_def example_dao_buffer_def

lemmas err_defs = bindE_def deref_def

lemmas opt_defs = RPL_OPTION_PAD1_def RPL_OPTION_TARGET_def RPL_OPTION_TRANSIT_def
  RPL_DAO_K_FLAG_def RPL_DAO_D_FLAG_def

lemma bindE_Inr_iff:
  "bindE m f = Inr y \<longleftrightarrow> (\<exists>x. m = Inr x \<and> f x = Inr y)"
  by (cases m) (simp_all add: bindE_def)

lemma stat_incr_simps [simp]:
  "heap (stat_incr f st) = heap st" "routes (stat_incr f st) = routes st"
  "events (stat_incr f st) = events st" "icmp_payload (stat_incr f st) = icmp_payload st"
  "addr_list (stat_incr f st) = addr_list st" "rpl_stats (stat_incr f st) = f (rpl_stats st)"
  "dao_sequence (stat_incr f st) = dao_sequence st" "nbr_cache (stat_incr f st) = nbr_cache st"
  by (simp_all add: stat_incr_def)

lemma emit_simps [simp]:
  "heap (emit ev st) = heap st" "routes (emit ev st) = routes st"
  "events (emit ev st) = events st @ [ev]" "icmp_payload (emit ev st) = icmp_payload st"
  "addr_list (emit ev st) = addr_list st" "rpl_stats (emit ev st) = rpl_stats st"
  "dao_sequence (emit ev st) = dao_sequence st" "nbr_cache (emit ev st) = nbr_cache st"
  by (simp_all add: emit_def)

lemma get_global_addr_stat_incr [simp]:
  "get_global_addr c (stat_incr f st) = get_global_addr c st"
  by (simp add: get_global_addr_def)

section \<open>Parent selection of MRHOF\<close>

text \<open>
  Where parent selection keeps the preferred parent: one of the two parents is the
  preferred one and the path metrics differ by less than half the ETX divisor.
\<close>

lemma mrhof_best_parent_hysteresis:
  assumes "deref (parents h) p1 = Inr pr1" and "deref (dags h) (parent_dag pr1) = Inr d"
    and "calculate_path_metric c h p1 = Inr m1" and "calculate_path_metric c h p2 = Inr m2"
    and "p1 = preferred_parent d \<or> p2 = preferred_parent d"
    and "\<bar>uint m1 - uint m2\<bar> <
           uint (word_of_int (RPL_DAG_MC_ETX_DIVISOR (mcc c) div 2) :: 16 word)"
  shows "mrhof_best_parent c h p1 p2 = Inr (preferred_parent d)"
  using assms
  by (auto simp add: mrhof_best_parent_def bindE_def PARENT_SWITCH_THRESHOLD_DIV_def Let_def)

text \<open>
  C7, at the boundary.  The claim: when \<open>p1\<close> or \<open>p2\<close> is the preferred parent and the
  path metrics \<open>rank + link_metric\<close> differ by at most \<open>ETX_DIVISOR / 2\<close>, MRHOF's
  \<open>best_parent\<close> returns the preferred parent, the difference \<open>ETX_DIVISOR / 2\<close>
  included.  With the divisor 128, the preferred parent 0 has rank 256 and link metric
  128 (path metric 384) and parent 1 has rank 256 and link metric 64 (path metric 320):
  the difference is exactly 64 and \<open>best_parent\<close> returns parent 1, not the preferred
  parent.
\<close>

theorem mrhof_best_parent_boundary:
  "mrhof_best_parent example_conf
     (example_heap rpl_mrhof (Some 0)
        [example_parent 256 128 None None, example_parent 256 64 None None])
     (Some 0) (Some 1) = Inr (Some 1)"
  by (simp add: mrhof_best_parent_def calculate_path_metric_def err_defs ex_defs
      PARENT_SWITCH_THRESHOLD_DIV_def Let_def)

section \<open>OF0\<close>

text \<open>
  C9, at a parent without link statistics.  The claim: \<open>STEP_OF_RANK\<close> is
  \<open>3 * link_metric / ETX_DIVISOR - 2\<close> clipped to 1..9, a parent whose unclipped step
  is outside 1..9 is unacceptable, and the rank increase never uses a step outside 1..9.
  For a parent with no link-stats entry the metric is \<open>0xffff\<close>: \<open>STEP_OF_RANK\<close> is
  1533, not clipped; the parent is not acceptable; \<open>parent_rank_increase\<close> still
  multiplies the step 1533 with \<open>min_hoprankinc\<close> 256 (64768 after the truncation to 16
  bits); and \<open>best_parent\<close> returns this parent against one with a higher rank.
\<close>

theorem of0_step_of_rank_unclipped:
  "STEP_OF_RANK example_conf
     (example_heap rpl_of0 (Some 0) [example_parent 256 128 None None]) (Some 0) = 1533
   \<and> \<not> parent_is_acceptable example_conf
     (example_heap rpl_of0 (Some 0) [example_parent 256 128 None None]) (Some 0)
   \<and> parent_rank_increase example_conf
     (example_heap rpl_of0 (Some 0) [example_parent 256 128 None None]) (Some 0) = Inr 64768
   \<and> of0_best_parent example_conf
     (example_heap rpl_of0 None
        [example_parent 256 128 None None, example_parent 2048 128 None (Some 128)])
     (Some 0) (Some 1) = Inr (Some 0)"
  by (simp add: STEP_OF_RANK_def parent_is_acceptable_def parent_rank_increase_def
      parent_link_metric_def rpl_get_parent_link_stats_def of0_best_parent_def
      of0_compared_rank_def DAG_RANK_def MIN_DIFFERENCE_def
      MIN_STEP_OF_RANK_def MAX_STEP_OF_RANK_def RANK_FACTOR_def RANK_STRETCH_def
      err_defs ex_defs)

text \<open>
  C10.  OF0's \<open>best_parent\<close> computes for each parent the \<open>rpl_rank_t\<close> value
  \<open>DAG_RANK(rank) * RPL_MIN_HOPRANKINC + link_metric\<close>; whenever the two values differ
  by less than \<open>MIN_DIFFERENCE\<close> it returns the preferred parent of the DAG of \<open>p1\<close>,
  whatever that is: nothing requires it to be \<open>p1\<close> or \<open>p2\<close>, or to be set at all.
\<close>

theorem of0_best_parent_returns_preferred:
  assumes "deref (parents h) p1 = Inr pr1" and "deref (parents h) p2 = Inr pr2"
    and "deref (dags h) (parent_dag pr1) = Inr dag"
    and "deref (instances h) (dag_instance dag) = Inr inst"
    and "of0_compared_rank c inst pr1 = Inr r1" and "of0_compared_rank c inst pr2 = Inr r2"
    and "\<bar>uint r1 - uint r2\<bar> < MIN_DIFFERENCE c"
  shows "of0_best_parent c h p1 p2 = Inr (preferred_parent dag)"
  using assms by (auto simp add: of0_best_parent_def bindE_def)

text \<open>
  Two parents with the values 384 and 416 (\<open>MIN_DIFFERENCE\<close> is 384): the result is
  \<open>NULL\<close> when the DAG has no preferred parent, and it is parent 2 when that is the
  preferred one, in both cases neither of the two arguments.
\<close>

theorem of0_best_parent_returns_preferred_witness:
  "of0_best_parent example_conf
     (example_heap rpl_of0 None
        [example_parent 256 128 None None, example_parent 256 160 None None])
     (Some 0) (Some 1) = Inr None
   \<and> of0_best_parent example_conf
     (example_heap rpl_of0 (Some 2)
        [example_parent 256 128 None None, example_parent 256 160 None None,
         example_parent 512 128 None None])
     (Some 0) (Some 1) = Inr (Some 2)"
proof -
  let ?h1 = "example_heap rpl_of0 None
        [example_parent 256 128 None None, example_parent 256 160 None None]"
  let ?h2 = "example_heap rpl_of0 (Some 2)
        [example_parent 256 128 None None, example_parent 256 160 None None,
         example_parent 512 128 None None]"
  have a: "of0_best_parent example_conf ?h1 (Some 0) (Some 1)
           = Inr (preferred_parent (example_dag None 768))"
    by (rule of0_best_parent_returns_preferred
          [where ?pr1.0 = "example_parent 256 128 None None"
             and ?pr2.0 = "example_parent 256 160 None None"
             and inst = "example_instance rpl_of0 2" and ?r1.0 = 384 and ?r2.0 = 416])
       (simp_all add: of0_compared_rank_def DAG_RANK_def MIN_DIFFERENCE_def err_defs ex_defs)
  have b: "of0_best_parent example_conf ?h2 (Some 0) (Some 1)
           = Inr (preferred_parent (example_dag (Some 2) 768))"
    by (rule of0_best_parent_returns_preferred
          [where ?pr1.0 = "example_parent 256 128 None None"
             and ?pr2.0 = "example_parent 256 160 None None"
             and inst = "example_instance rpl_of0 2" and ?r1.0 = 384 and ?r2.0 = 416])
       (simp_all add: of0_compared_rank_def DAG_RANK_def MIN_DIFFERENCE_def err_defs ex_defs)
  from a b show ?thesis by (simp add: example_dag_def)
qed

section \<open>The two best_dag functions\<close>

text \<open>
  C8 as stated fails, at two places.  Two DAGs that tie on grounded, preference and rank:
  MRHOF's \<open>best_dag\<close> returns the second, OF0's returns the first.  And two grounded
  DAGs whose \<open>grounded\<close> fields hold different values, 1 and the \<open>0x80\<close> that
  \<open>dio_input\<close> reads, with preference 1 and 7: MRHOF compares the two values, finds
  them different and returns the first DAG, OF0 tests each against zero and returns the
  second, which has the higher preference.
\<close>

theorem best_dag_tie_counterexample:
  "mrhof_best_dag example_tie_heap (Some 0) (Some 1) = Inr (Some 1)
   \<and> of0_best_dag example_tie_heap (Some 0) (Some 1) = Inr (Some 0)
   \<and> mrhof_best_dag
        (example_tie_heap\<lparr>dags := [(example_dag None 512)\<lparr>preference := 1\<rparr>,
           (example_dag None 512)\<lparr>grounded := 0x80, preference := 7\<rparr>]\<rparr>)
        (Some 0) (Some 1) = Inr (Some 0)
   \<and> of0_best_dag
        (example_tie_heap\<lparr>dags := [(example_dag None 512)\<lparr>preference := 1\<rparr>,
           (example_dag None 512)\<lparr>grounded := 0x80, preference := 7\<rparr>]\<rparr>)
        (Some 0) (Some 1) = Inr (Some 1)"
  by (simp add: mrhof_best_dag_def of0_best_dag_def example_tie_heap_def err_defs ex_defs)

text \<open>
  C8, amended.  For two DAGs whose \<open>grounded\<close> fields are equal or one of them zero, the
  two \<open>best_dag\<close> functions return the same DAG whenever the DAGs differ in grounded,
  preference or rank (or are the same DAG): the grounded one, else the one of higher
  preference, else the one of lower rank.  When the two DAGs tie on all three, MRHOF
  returns \<open>d2\<close> and OF0 returns \<open>d1\<close>.
\<close>

theorem best_dag_agree_unless_tie:
  assumes "deref (dags h) d1 = Inr x" and "deref (dags h) d2 = Inr y"
    and "grounded x = grounded y \<or> grounded x = 0 \<or> grounded y = 0"
  shows "(grounded x \<noteq> grounded y \<or> preference x \<noteq> preference y \<or> dag_rank x \<noteq> dag_rank y
           \<or> d1 = d2 \<longrightarrow>
          mrhof_best_dag h d1 d2 = of0_best_dag h d1 d2
          \<and> of0_best_dag h d1 d2 =
              Inr (if grounded x \<noteq> grounded y then (if grounded x \<noteq> 0 then d1 else d2)
                   else if preference x \<noteq> preference y
                        then (if preference x > preference y then d1 else d2)
                   else if dag_rank x < dag_rank y then d1 else d2))
       \<and> (grounded x = grounded y \<and> preference x = preference y \<and> dag_rank x = dag_rank y \<longrightarrow>
          mrhof_best_dag h d1 d2 = Inr d2 \<and> of0_best_dag h d1 d2 = Inr d1)"
  using assms by (auto simp add: mrhof_best_dag_def of0_best_dag_def bindE_def)

text \<open>
  Two DAGs of rank 512 and 768, a grounded DAG and a floating one of higher preference,
  and the two tying DAGs.
\<close>

theorem best_dag_agree_unless_tie_witness:
  "mrhof_best_dag
     (example_tie_heap\<lparr>dags := [example_dag None 512, example_dag None 768]\<rparr>) (Some 0) (Some 1)
   = of0_best_dag
     (example_tie_heap\<lparr>dags := [example_dag None 512, example_dag None 768]\<rparr>) (Some 0) (Some 1)
   \<and> of0_best_dag
     (example_tie_heap\<lparr>dags := [example_dag None 512, example_dag None 768]\<rparr>) (Some 0) (Some 1)
     = Inr (Some 0)
   \<and> mrhof_best_dag
     (example_tie_heap\<lparr>dags := [(example_dag None 512)\<lparr>grounded := 0, preference := 7\<rparr>,
        (example_dag None 768)\<lparr>grounded := 0x80\<rparr>]\<rparr>) (Some 0) (Some 1)
     = Inr (Some 1)
   \<and> of0_best_dag
     (example_tie_heap\<lparr>dags := [(example_dag None 512)\<lparr>grounded := 0, preference := 7\<rparr>,
        (example_dag None 768)\<lparr>grounded := 0x80\<rparr>]\<rparr>) (Some 0) (Some 1)
     = Inr (Some 1)
   \<and> mrhof_best_dag example_tie_heap (Some 0) (Some 1) = Inr (Some 1)
   \<and> of0_best_dag example_tie_heap (Some 0) (Some 1) = Inr (Some 0)"
  using best_dag_agree_unless_tie
          [of "example_tie_heap\<lparr>dags := [example_dag None 512, example_dag None 768]\<rparr>"
              "Some 0" "example_dag None 512" "Some 1" "example_dag None 768"]
        best_dag_agree_unless_tie
          [of "example_tie_heap\<lparr>dags := [(example_dag None 512)\<lparr>grounded := 0, preference := 7\<rparr>,
                 (example_dag None 768)\<lparr>grounded := 0x80\<rparr>]\<rparr>"
              "Some 0" "(example_dag None 512)\<lparr>grounded := 0, preference := 7\<rparr>" "Some 1"
              "(example_dag None 768)\<lparr>grounded := 0x80\<rparr>"]
        best_dag_agree_unless_tie
          [of example_tie_heap "Some 0" "example_dag None 512" "Some 1"
              "(example_dag None 512)\<lparr>version := 241\<rparr>"]
  by (simp add: example_tie_heap_def deref_def example_dag_def)

section \<open>DAO retransmission\<close>




section \<open>DCO input\<close>

lemma dco_parse_length:
  assumes "dco_parse c e pkt st = Inr (Some (ia, flags, dco_seq, opts))"
  shows "4 \<le> length (icmp_payload st)"
  using assms
  by (auto simp add: dco_parse_def Let_def bindE_Inr_iff rd_def split: option.splits if_splits)

lemma dco_ack_output_ok:
  assumes "4 \<le> length (icmp_payload st)"
  shows "dco_ack_output st instance dest sequence status =
           Inr (emit (Icmp6_Send dest RPL_CODE_DCO_ACK [instance_id instance, 0, sequence, status])
                  (st\<lparr>icmp_payload := [instance_id instance, 0, sequence, status]
                                        @ drop 4 (icmp_payload st)\<rparr>))"
  using assms by (simp add: dco_ack_output_def buf_write_def bindE_def eval_nat_numeral)

lemmas dco_eval = dco_parse_def dco_options.simps subopt_len_def dao_subopt_def dao_target_def
  dao_dag_id_check_def rd_def rd_bytes_def rpl_get_instance_def Let_def

text \<open>
  The example DCO: instance 30, sequence 17, a target option for \<open>2001:db8::k/128\<close> and
  a transit option with the given path sequence and path lifetime.
\<close>

lemma example_dco_parse:
  "flags AND RPL_DAO_D_FLAG = 0 \<Longrightarrow>
   dco_parse example_conf example_env (example_packet (example_addr 2) 30)
     (example_node (example_heap rpl_mrhof None []) rt
        (example_dao_buffer flags (example_addr k) 4 ps lt))
   = Inr (Some (0, flags, 17,
        \<lparr>opt_prefix = example_addr k, opt_prefixlen = 128, opt_pathSequence = ps,
         opt_lifetime = lt, opt_parent_addr = zero_addr\<rparr>))"
  by (simp add: dco_eval err_defs ex_defs ex2_defs opt_defs)

text \<open>
  C3 as stated fails: a DCO for a target that has a route (next hop \<open>2001:db8::3\<close>,
  stored path sequence 3), with the newer path sequence 5 but the path lifetime 1 in its
  transit option.  The handler forwards nothing, keeps the route and counts neither a
  forwarded nor an ignored DCO.
\<close>

theorem dco_input_nonzero_lifetime_keeps_route:
  "trace (dco_input example_conf example_env (example_packet (example_addr 2) 30)
     (example_node (example_heap rpl_mrhof None [])
        [example_addr 9 \<mapsto> example_route (example_addr 3) 3]
        (example_dao_buffer 0 (example_addr 9) 4 5 1))) = Inr []
   \<and> result_route (dco_input example_conf example_env (example_packet (example_addr 2) 30)
     (example_node (example_heap rpl_mrhof None [])
        [example_addr 9 \<mapsto> example_route (example_addr 3) 3]
        (example_dao_buffer 0 (example_addr 9) 4 5 1))) (example_addr 9)
       = Inr (Some (example_route (example_addr 3) 3))
   \<and> result_stat dco_forwarded
       (dco_input example_conf example_env (example_packet (example_addr 2) 30)
     (example_node (example_heap rpl_mrhof None [])
        [example_addr 9 \<mapsto> example_route (example_addr 3) 3]
        (example_dao_buffer 0 (example_addr 9) 4 5 1))) = Inr 0
   \<and> result_stat dco_ignored
       (dco_input example_conf example_env (example_packet (example_addr 2) 30)
     (example_node (example_heap rpl_mrhof None [])
        [example_addr 9 \<mapsto> example_route (example_addr 3) 3]
        (example_dao_buffer 0 (example_addr 9) 4 5 1))) = Inr 0
   \<and> lollipop_greater_than (macros example_conf) 5 3"
  apply (simp add: dco_input_def example_dco_parse bindE_def RPL_DAO_D_FLAG_def)
  apply (simp add: dco_route_def get_global_addr_def Let_def stat_incr_def err_defs ex_defs
      ex2_defs example_lollipop_greater_than_def opt_defs trace_def result_route_def
      result_stat_def)
  done

text \<open>
  C3, amended.  For a received DCO of a known instance and of our DAG whose options give
  the path lifetime zero and whose target prefix has a local route: if the route has a
  next hop and the DCO's path sequence is lollipop-greater than the route's stored
  \<open>dao_path_sequence\<close>, the handler forwards the DCO (the payload as received) to that
  next hop, then removes the route, and counts a forwarded DCO; otherwise it keeps the
  route and counts an ignored DCO.  In both cases a DCO-ACK with status 0 follows when the
  K flag is set.
\<close>

theorem dco_input_target_route:
  assumes parse: "dco_parse c e pkt st = Inr (Some (ia, flags, dco_seq, opts))"
    and inst: "deref (instances (heap st)) (Some ia) = Inr instance"
    and route: "routes st (opt_prefix opts) = Some r"
    and zero: "opt_lifetime opts = 0"
  shows "\<exists>st'. dco_input c e pkt st = Inr st' \<and>
     (let ack = (if flags AND RPL_DAO_K_FLAG \<noteq> 0
                 then [Icmp6_Send (srcipaddr pkt) RPL_CODE_DCO_ACK
                         [instance_id instance, 0, dco_seq, 0]]
                 else []);
          forward = (\<lambda>nh.
             events st' = events st
                @ [Icmp6_Send nh RPL_CODE_DCO
                     (take (payload_len pkt mod 65536) (icmp_payload st)),
                   Route_Rm (opt_prefix opts)] @ ack
             \<and> routes st' = (routes st)(opt_prefix opts := None)
             \<and> dco_forwarded (rpl_stats st') = dco_forwarded (rpl_stats st) + 1
             \<and> dco_ignored (rpl_stats st') = dco_ignored (rpl_stats st));
          ignore = (events st' = events st @ ack
             \<and> routes st' = routes st
             \<and> dco_forwarded (rpl_stats st') = dco_forwarded (rpl_stats st)
             \<and> dco_ignored (rpl_stats st') = dco_ignored (rpl_stats st) + 1)
      in case route_nexthop r of
           None \<Rightarrow> ignore
         | Some nh \<Rightarrow>
             if lollipop_greater_than (macros c) (opt_pathSequence opts) (dao_path_sequence r)
             then forward nh else ignore)"
  using dco_parse_length [OF parse] parse inst route zero
  by (auto simp add: dco_input_def dco_route_def bindE_def Let_def dco_ack_output_ok
        uip_ds6_route_rm_def split: option.splits)

text \<open>
  The DCO with the K flag, path sequence 5 and path lifetime 0 for the target with the
  stored path sequence 3: forwarded to the next hop \<open>2001:db8::3\<close>, the route removed,
  then the DCO-ACK to the sender.
\<close>

theorem dco_input_target_route_witness:
  "trace (dco_input example_conf example_env (example_packet (example_addr 2) 30)
     (example_node (example_heap rpl_mrhof None [])
        [example_addr 9 \<mapsto> example_route (example_addr 3) 3]
        (example_dao_buffer 0x80 (example_addr 9) 4 5 0)))
     = Inr [Icmp6_Send (example_addr 3) RPL_CODE_DCO
              (take 30 (example_dao_buffer 0x80 (example_addr 9) 4 5 0)),
            Route_Rm (example_addr 9),
            Icmp6_Send (example_addr 2) RPL_CODE_DCO_ACK [30, 0, 17, 0]]
   \<and> result_route (dco_input example_conf example_env (example_packet (example_addr 2) 30)
     (example_node (example_heap rpl_mrhof None [])
        [example_addr 9 \<mapsto> example_route (example_addr 3) 3]
        (example_dao_buffer 0x80 (example_addr 9) 4 5 0))) (example_addr 9) = Inr None
   \<and> result_stat dco_forwarded
       (dco_input example_conf example_env (example_packet (example_addr 2) 30)
     (example_node (example_heap rpl_mrhof None [])
        [example_addr 9 \<mapsto> example_route (example_addr 3) 3]
        (example_dao_buffer 0x80 (example_addr 9) 4 5 0))) = Inr 1"
proof -
  let ?st = "example_node (example_heap rpl_mrhof None [])
        [example_addr 9 \<mapsto> example_route (example_addr 3) 3]
        (example_dao_buffer 0x80 (example_addr 9) 4 5 0)"
  have p: "dco_parse example_conf example_env (example_packet (example_addr 2) 30) ?st
           = Inr (Some (0, 0x80, 17,
               \<lparr>opt_prefix = example_addr 9, opt_prefixlen = 128, opt_pathSequence = 5,
                opt_lifetime = 0, opt_parent_addr = zero_addr\<rparr>))"
    by (rule example_dco_parse) (simp add: RPL_DAO_D_FLAG_def)
  have i: "deref (instances (heap ?st)) (Some 0) = Inr (example_instance rpl_mrhof 2)"
    by (simp add: deref_def example_node_def example_heap_def)
  have r: "routes ?st (opt_prefix \<lparr>opt_prefix = example_addr 9, opt_prefixlen = 128,
              opt_pathSequence = 5, opt_lifetime = 0, opt_parent_addr = zero_addr\<rparr>)
           = Some (example_route (example_addr 3) 3)"
    by (simp add: example_node_def)
  from dco_input_target_route [OF p i r]
  show ?thesis
    by (auto simp add: Let_def example_route_def example_node_def example_stats_def
        example_packet_def example_instance_def example_conf_def example_macros_def
        example_lollipop_greater_than_def RPL_DAO_K_FLAG_def trace_def result_route_def
        result_stat_def)
qed

text \<open>
  C4 as stated fails, at two places.  A DCO with the K flag whose target is the node's
  own global address \<open>2001:db8::1\<close>, which has no route: the handler counts an ignored
  DCO and sends nothing, no DCO-ACK with status 234 goes to the sender.  And the same DCO
  when the own address has a route (next hop \<open>2001:db8::3\<close>, stored path sequence 3): the
  test for the own address is not reached, the handler forwards the DCO to the next hop
  and removes the route of its own address, then sends the DCO-ACK with status 0.
\<close>

theorem dco_input_own_address_no_ack:
  "trace (dco_input example_conf example_env (example_packet (example_addr 2) 30)
     (example_node (example_heap rpl_mrhof None []) Map.empty
        (example_dao_buffer 0x80 (example_addr 1) 4 5 0))) = Inr []
   \<and> result_stat dco_ignored
       (dco_input example_conf example_env (example_packet (example_addr 2) 30)
     (example_node (example_heap rpl_mrhof None []) Map.empty
        (example_dao_buffer 0x80 (example_addr 1) 4 5 0))) = Inr 1
   \<and> get_global_addr example_conf
        (example_node (example_heap rpl_mrhof None []) Map.empty
           (example_dao_buffer 0x80 (example_addr 1) 4 5 0)) = Some (example_addr 1)
   \<and> 0x80 AND RPL_DAO_K_FLAG \<noteq> 0
   \<and> trace (dco_input example_conf example_env (example_packet (example_addr 2) 30)
     (example_node (example_heap rpl_mrhof None [])
        [example_addr 1 \<mapsto> example_route (example_addr 3) 3]
        (example_dao_buffer 0x80 (example_addr 1) 4 5 0)))
     = Inr [Icmp6_Send (example_addr 3) RPL_CODE_DCO
              (take 30 (example_dao_buffer 0x80 (example_addr 1) 4 5 0)),
            Route_Rm (example_addr 1),
            Icmp6_Send (example_addr 2) RPL_CODE_DCO_ACK [30, 0, 17, 0]]
   \<and> result_route (dco_input example_conf example_env (example_packet (example_addr 2) 30)
     (example_node (example_heap rpl_mrhof None [])
        [example_addr 1 \<mapsto> example_route (example_addr 3) 3]
        (example_dao_buffer 0x80 (example_addr 1) 4 5 0))) (example_addr 1) = Inr None
   \<and> get_global_addr example_conf
        (example_node (example_heap rpl_mrhof None [])
           [example_addr 1 \<mapsto> example_route (example_addr 3) 3]
           (example_dao_buffer 0x80 (example_addr 1) 4 5 0)) = Some (example_addr 1)"
  apply (simp add: dco_input_def example_dco_parse bindE_def RPL_DAO_D_FLAG_def)
  apply (simp add: dco_route_def get_global_addr_def dco_ack_output_def buf_write_def
      uip_ds6_route_rm_def emit_def Let_def stat_incr_def err_defs ex_defs
      ex2_defs example_lollipop_greater_than_def opt_defs trace_def result_stat_def
      result_route_def RPL_CODE_DCO_def RPL_CODE_DCO_ACK_def)
  done

text \<open>
  C4, amended.  For a received DCO of a known instance and of our DAG whose target prefix
  equals the node's global address (the one \<open>get_global_addr\<close> finds), unless that
  address has a route with a next hop, the path lifetime is zero and the DCO's path
  sequence is lollipop-greater than the stored one: the handler removes no route and
  counts an ignored DCO, and it sends no negative DCO-ACK.  It sends nothing at all, also
  when the K flag is set, if the route lookup finds nothing or the path lifetime is not
  zero; otherwise the DCO-ACK with status 0 follows when the K flag is set.
\<close>

theorem dco_input_own_address:
  assumes parse: "dco_parse c e pkt st = Inr (Some (ia, flags, dco_seq, opts))"
    and inst: "deref (instances (heap st)) (Some ia) = Inr instance"
    and own: "get_global_addr c st = Some (opt_prefix opts)"
    and nofwd: "case routes st (opt_prefix opts) of
                  None \<Rightarrow> True
                | Some r \<Rightarrow>
                    opt_lifetime opts \<noteq> 0 \<or> route_nexthop r = None
                    \<or> \<not> lollipop_greater_than (macros c) (opt_pathSequence opts)
                           (dao_path_sequence r)"
  shows "\<exists>st'. dco_input c e pkt st = Inr st'
           \<and> routes st' = routes st
           \<and> dco_ignored (rpl_stats st') = dco_ignored (rpl_stats st) + 1
           \<and> events st' = events st
                @ (if routes st (opt_prefix opts) \<noteq> None \<and> opt_lifetime opts = 0
                      \<and> flags AND RPL_DAO_K_FLAG \<noteq> 0
                   then [Icmp6_Send (srcipaddr pkt) RPL_CODE_DCO_ACK
                           [instance_id instance, 0, dco_seq, 0]]
                   else [])"
  using dco_parse_length [OF parse] parse inst own nofwd
  by (auto simp add: dco_input_def dco_route_def bindE_def Let_def dco_ack_output_ok
        split: option.splits)

text \<open>
  The DCO with the K flag for the node's own address, which has a route here (stored
  path sequence 3): with the path lifetime 1, and with the path lifetime 0 and the older
  path sequence 2.
\<close>

theorem dco_input_own_address_witness:
  "trace (dco_input example_conf example_env (example_packet (example_addr 2) 30)
     (example_node (example_heap rpl_mrhof None [])
        [example_addr 1 \<mapsto> example_route (example_addr 3) 3]
        (example_dao_buffer 0x80 (example_addr 1) 4 5 1))) = Inr []
   \<and> result_route (dco_input example_conf example_env (example_packet (example_addr 2) 30)
     (example_node (example_heap rpl_mrhof None [])
        [example_addr 1 \<mapsto> example_route (example_addr 3) 3]
        (example_dao_buffer 0x80 (example_addr 1) 4 5 1))) (example_addr 1)
       = Inr (Some (example_route (example_addr 3) 3))
   \<and> result_stat dco_ignored
       (dco_input example_conf example_env (example_packet (example_addr 2) 30)
     (example_node (example_heap rpl_mrhof None [])
        [example_addr 1 \<mapsto> example_route (example_addr 3) 3]
        (example_dao_buffer 0x80 (example_addr 1) 4 5 1))) = Inr 1
   \<and> trace (dco_input example_conf example_env (example_packet (example_addr 2) 30)
     (example_node (example_heap rpl_mrhof None [])
        [example_addr 1 \<mapsto> example_route (example_addr 3) 3]
        (example_dao_buffer 0x80 (example_addr 1) 4 2 0)))
     = Inr [Icmp6_Send (example_addr 2) RPL_CODE_DCO_ACK [30, 0, 17, 0]]
   \<and> result_route (dco_input example_conf example_env (example_packet (example_addr 2) 30)
     (example_node (example_heap rpl_mrhof None [])
        [example_addr 1 \<mapsto> example_route (example_addr 3) 3]
        (example_dao_buffer 0x80 (example_addr 1) 4 2 0))) (example_addr 1)
       = Inr (Some (example_route (example_addr 3) 3))
   \<and> result_stat dco_ignored
       (dco_input example_conf example_env (example_packet (example_addr 2) 30)
     (example_node (example_heap rpl_mrhof None [])
        [example_addr 1 \<mapsto> example_route (example_addr 3) 3]
        (example_dao_buffer 0x80 (example_addr 1) 4 2 0))) = Inr 1"
proof -
  let ?rt = "[example_addr 1 \<mapsto> example_route (example_addr 3) 3]"
  let ?st = "example_node (example_heap rpl_mrhof None []) ?rt
        (example_dao_buffer 0x80 (example_addr 1) 4 5 1)"
  let ?opts = "\<lparr>opt_prefix = example_addr 1, opt_prefixlen = 128, opt_pathSequence = 5,
                opt_lifetime = 1, opt_parent_addr = zero_addr\<rparr>"
  let ?st2 = "example_node (example_heap rpl_mrhof None []) ?rt
        (example_dao_buffer 0x80 (example_addr 1) 4 2 0)"
  let ?opts2 = "\<lparr>opt_prefix = example_addr 1, opt_prefixlen = 128, opt_pathSequence = 2,
                opt_lifetime = 0, opt_parent_addr = zero_addr\<rparr>"
  have p: "dco_parse example_conf example_env (example_packet (example_addr 2) 30) ?st
           = Inr (Some (0, 0x80, 17, ?opts))"
    by (rule example_dco_parse) (simp add: RPL_DAO_D_FLAG_def)
  have p2: "dco_parse example_conf example_env (example_packet (example_addr 2) 30) ?st2
           = Inr (Some (0, 0x80, 17, ?opts2))"
    by (rule example_dco_parse) (simp add: RPL_DAO_D_FLAG_def)
  have i: "deref (instances (heap ?st)) (Some 0) = Inr (example_instance rpl_mrhof 2)"
    by (simp add: deref_def example_node_def example_heap_def)
  have i2: "deref (instances (heap ?st2)) (Some 0) = Inr (example_instance rpl_mrhof 2)"
    by (simp add: deref_def example_node_def example_heap_def)
  have g: "get_global_addr example_conf ?st = Some (opt_prefix ?opts)"
    by (simp add: get_global_addr_def example_node_def example_conf_def example_macros_def
        example_addr_def)
  have g2: "get_global_addr example_conf ?st2 = Some (opt_prefix ?opts2)"
    by (simp add: get_global_addr_def example_node_def example_conf_def example_macros_def
        example_addr_def)
  have n: "case routes ?st (opt_prefix ?opts) of
                  None \<Rightarrow> True
                | Some r \<Rightarrow>
                    opt_lifetime ?opts \<noteq> 0 \<or> route_nexthop r = None
                    \<or> \<not> lollipop_greater_than (macros example_conf) (opt_pathSequence ?opts)
                           (dao_path_sequence r)"
    by (simp add: example_node_def)
  have n2: "case routes ?st2 (opt_prefix ?opts2) of
                  None \<Rightarrow> True
                | Some r \<Rightarrow>
                    opt_lifetime ?opts2 \<noteq> 0 \<or> route_nexthop r = None
                    \<or> \<not> lollipop_greater_than (macros example_conf) (opt_pathSequence ?opts2)
                           (dao_path_sequence r)"
    by (simp add: example_node_def example_route_def example_conf_def example_macros_def
        example_lollipop_greater_than_def)
  from dco_input_own_address [OF p i g n] dco_input_own_address [OF p2 i2 g2 n2]
  show ?thesis
    by (auto simp add: example_node_def example_stats_def example_instance_def
        example_packet_def RPL_DAO_K_FLAG_def trace_def result_route_def result_stat_def)
qed

section \<open>DAO input\<close>

lemma dao_storing_parse_length:
  assumes "dao_storing_parse c e pkt st = Inr (Dao_Parsed ip flags sequence unicast opts)"
  shows "4 \<le> length (icmp_payload st)"
  using assms
  by (auto simp add: dao_storing_parse_def Let_def bindE_Inr_iff rd_def
      split: option.splits if_splits)

lemma dao_ack_output_ok:
  assumes "4 \<le> length (icmp_payload st)"
  shows "dao_ack_output st instance dest sequence status =
           Inr (emit (Icmp6_Send dest RPL_CODE_DAO_ACK [instance_id instance, 0, sequence, status])
                  (st\<lparr>icmp_payload := [instance_id instance, 0, sequence, status]
                                        @ drop 4 (icmp_payload st)\<rparr>))"
  using assms by (simp add: dao_ack_output_def buf_write_def bindE_def eval_nat_numeral)

lemma forward_dao_ok:
  assumes "4 \<le> length (icmp_payload st)"
  shows "forward_dao st dest out_seq buffer_length =
           Inr (emit (Icmp6_Send dest RPL_CODE_DAO
                        (take buffer_length ((icmp_payload st)[3 := out_seq])))
                  (st\<lparr>icmp_payload := (icmp_payload st)[3 := out_seq]\<rparr>))"
  using assms
  by (simp add: forward_dao_def buf_write_def bindE_def upd_conv_take_nth_drop
      eval_nat_numeral)

lemma route_update_simps [simp]:
  "heap (route_update st rep f) = heap st" "events (route_update st rep f) = events st"
  "icmp_payload (route_update st rep f) = icmp_payload st"
  "rpl_stats (route_update st rep f) = rpl_stats st"
  "dao_sequence (route_update st rep f) = dao_sequence st"
  by (simp_all add: route_update_def split: option.splits)

lemma route_update_Some:
  "routes st rep = Some r \<Longrightarrow> routes (route_update st rep f) = (routes st)(rep \<mapsto> f r)"
  by (simp add: route_update_def)

text \<open>
  The branch of the No-Path DAO.  With a matching route that is not yet marked: the
  route is marked and its lifetime set, a copy goes to the preferred parent if that has an
  address, with a new outgoing sequence number in octet 3, and the DAO-ACK follows when
  the K flag is set.  Without such a route only the DAO-ACK is left.
\<close>

lemma dao_storing_nopath_result:
  assumes len: "4 \<le> length (icmp_payload st)"
    and pp: "preferred_parent dag \<noteq> None \<longrightarrow>
               deref (parents (heap st)) (preferred_parent dag) = Inr pp"
  shows "\<exists>st'. dao_storing_nopath c pkt st instance dag flags sequence buffer_length opts = Inr st'
     \<and> (let ack = (if flags AND RPL_DAO_K_FLAG \<noteq> 0
                   then [Icmp6_Send (srcipaddr pkt) RPL_CODE_DAO_ACK
                           [instance_id instance, 0, sequence,
                            RPL_DAO_ACK_UNCONDITIONAL_ACCEPT]]
                   else []);
            out_seq = RPL_LOLLIPOP_INCREMENT (macros c) (dao_sequence st);
            unmatched = (events st' = events st @ ack \<and> routes st' = routes st)
        in case routes st (opt_prefix opts) of
             None \<Rightarrow> unmatched
           | Some r \<Rightarrow>
               if \<not> nopath_received r \<and> route_length r = opt_prefixlen opts
                  \<and> route_nexthop r = Some (srcipaddr pkt)
               then
                 (if preferred_parent dag \<noteq> None \<and> parent_ipaddr pp \<noteq> None
                  then routes st' = (routes st)(opt_prefix opts \<mapsto>
                           r\<lparr>nopath_received := True,
                              route_lifetime := RPL_NOPATH_REMOVAL_DELAY c,
                              dao_seqno_in := sequence, dao_seqno_out := out_seq,
                              dao_pending := True\<rparr>)
                       \<and> events st' = events st
                           @ [Icmp6_Send (the (parent_ipaddr pp)) RPL_CODE_DAO
                                (take buffer_length ((icmp_payload st)[3 := out_seq]))]
                           @ ack
                       \<and> dao_sequence st' = out_seq
                  else routes st' = (routes st)(opt_prefix opts \<mapsto>
                           r\<lparr>nopath_received := True,
                              route_lifetime := RPL_NOPATH_REMOVAL_DELAY c\<rparr>)
                       \<and> events st' = events st @ ack)
               else unmatched)"
proof (cases "routes st (opt_prefix opts)")
  case None
  then show ?thesis
    using len by (simp add: dao_storing_nopath_def Let_def bindE_def dao_ack_output_ok)
next
  case (Some r)
  show ?thesis
  proof (cases "\<not> nopath_received r \<and> route_length r = opt_prefixlen opts
                  \<and> route_nexthop r = Some (srcipaddr pkt)")
    case False
    then show ?thesis
      using len Some
      by (auto simp add: dao_storing_nopath_def Let_def bindE_def dao_ack_output_ok)
  next
    case True
    show ?thesis
    proof (cases "preferred_parent dag \<noteq> None \<and> parent_ipaddr pp \<noteq> None")
      case False
      then show ?thesis
        using len Some True pp
        by (auto simp add: dao_storing_nopath_def Let_def bindE_def dao_ack_output_ok
            route_update_Some split: option.splits)
    next
      case fw: True
      then obtain ppa pip where a: "preferred_parent dag = Some ppa"
        and b: "parent_ipaddr pp = Some pip" by auto
      from pp a have d: "deref (parents (heap st)) (Some ppa) = Inr pp" by simp
      show ?thesis
        using len Some True a b d
        by (simp add: dao_storing_nopath_def Let_def bindE_def dao_ack_output_ok
            route_update_Some prepare_for_dao_fwd_def forward_dao_ok)
    qed
  qed
qed

lemmas dao_eval = dao_storing_parse_def dao_options.simps subopt_len_def dao_subopt_def
  dao_target_def dao_dag_id_check_def dao_loop_parent_def DAG_RANK_def rd_def rd_bytes_def
  rpl_get_instance_def rpl_find_parent_def Let_def

text \<open>
  The example DAO from \<open>2001:db8::2\<close>: instance 30, sequence 17, a target option for
  \<open>2001:db8::k/128\<close> and a transit option with the given path sequence and lifetime.
  The node's only parent has the address \<open>2001:db8::7\<close>.
\<close>

lemma example_dao_parse:
  "flags AND RPL_DAO_D_FLAG = 0 \<Longrightarrow>
   dao_storing_parse example_conf example_env (example_packet (example_addr 2) 30)
     (example_node
        (example_heap f pp [example_parent 256 128 (Some (example_addr 7)) None]) rt
        (example_dao_buffer flags (example_addr k) 4 ps lt))
   = Inr (Dao_Parsed (Some 0) flags 17 True
        \<lparr>opt_prefix = example_addr k, opt_prefixlen = 128, opt_pathSequence = ps,
         opt_lifetime = lt, opt_parent_addr = zero_addr\<rparr>)"
  by (simp add: dao_eval err_defs ex_defs ex2_defs opt_defs)

text \<open>
  C5 as stated fails: a unicast No-Path DAO with the K flag whose sender
  \<open>2001:db8::2\<close> is the node's preferred parent, for a target whose route has that
  sender as next hop.  The handler takes the DAO for a forwarding loop and returns: it
  sends no DAO-ACK and leaves the route as it was.
\<close>

theorem dao_input_storing_nopath_from_parent:
  "trace (dao_input_storing example_conf example_env (example_packet (example_addr 2) 30)
     (example_node
        (example_heap rpl_mrhof (Some 0) [example_parent 256 128 (Some (example_addr 2)) None])
        [example_addr 9 \<mapsto> example_route (example_addr 2) 3]
        (example_dao_buffer 0x80 (example_addr 9) 4 5 0))) = Inr []
   \<and> result_route
       (dao_input_storing example_conf example_env (example_packet (example_addr 2) 30)
     (example_node
        (example_heap rpl_mrhof (Some 0) [example_parent 256 128 (Some (example_addr 2)) None])
        [example_addr 9 \<mapsto> example_route (example_addr 2) 3]
        (example_dao_buffer 0x80 (example_addr 9) 4 5 0))) (example_addr 9)
       = Inr (Some (example_route (example_addr 2) 3))
   \<and> \<not> uip_is_addr_mcast (macros example_conf) (example_addr 2)
   \<and> 0x80 AND RPL_DAO_K_FLAG \<noteq> 0"
  by (simp add: dao_input_storing_def dao_eval trace_def result_route_def stat_incr_def
      err_defs ex_defs ex2_defs opt_defs)

text \<open>
  C5, amended.  For every No-Path DAO (lifetime zero) received in storing mode that names
  our DAG and is not taken for a forwarding loop (the sender is not a parent of lower
  rank and not the preferred parent): if a route matches the target prefix and prefix
  length with next hop equal to the sender and its NOPATH bit clear, then afterwards its
  NOPATH bit is set and its lifetime is \<open>RPL_NOPATH_REMOVAL_DELAY\<close>, and, when the
  preferred parent exists and has an address, a copy of the DAO goes to it with payload
  octet 3 replaced by the outgoing sequence number that \<open>prepare_for_dao_fwd\<close>
  allocates (the incremented \<open>dao_sequence\<close>, recorded in the route with the incoming
  one and the pending bit); a DAO-ACK with \<open>UNCONDITIONAL_ACCEPT\<close> goes to the sender
  whenever the K flag is set, whether or not a route matched.
\<close>

theorem dao_input_storing_nopath:
  assumes parse: "dao_storing_parse c e pkt st = Inr (Dao_Parsed ip flags sequence unicast opts)"
    and inst: "deref (instances (heap st)) ip = Inr instance"
    and dag: "deref (dags (heap st)) (current_dag instance) = Inr dag"
    and pp: "preferred_parent dag \<noteq> None \<longrightarrow>
               deref (parents (heap st)) (preferred_parent dag) = Inr pp"
    and zero: "opt_lifetime opts = RPL_ZERO_LIFETIME"
  shows "\<exists>st'. dao_input_storing c e pkt st = Inr st'
     \<and> (let ack = (if flags AND RPL_DAO_K_FLAG \<noteq> 0
                   then [Icmp6_Send (srcipaddr pkt) RPL_CODE_DAO_ACK
                           [instance_id instance, 0, sequence,
                            RPL_DAO_ACK_UNCONDITIONAL_ACCEPT]]
                   else []);
            out_seq = RPL_LOLLIPOP_INCREMENT (macros c) (dao_sequence st);
            unmatched = (events st' = events st @ ack \<and> routes st' = routes st)
        in case routes st (opt_prefix opts) of
             None \<Rightarrow> unmatched
           | Some r \<Rightarrow>
               if \<not> nopath_received r \<and> route_length r = opt_prefixlen opts
                  \<and> route_nexthop r = Some (srcipaddr pkt)
               then
                 (if preferred_parent dag \<noteq> None \<and> parent_ipaddr pp \<noteq> None
                  then routes st' = (routes st)(opt_prefix opts \<mapsto>
                           r\<lparr>nopath_received := True,
                              route_lifetime := RPL_NOPATH_REMOVAL_DELAY c,
                              dao_seqno_in := sequence, dao_seqno_out := out_seq,
                              dao_pending := True\<rparr>)
                       \<and> events st' = events st
                           @ [Icmp6_Send (the (parent_ipaddr pp)) RPL_CODE_DAO
                                (take (payload_len pkt mod 256)
                                   ((icmp_payload st)[3 := out_seq]))]
                           @ ack
                       \<and> dao_sequence st' = out_seq
                  else routes st' = (routes st)(opt_prefix opts \<mapsto>
                           r\<lparr>nopath_received := True,
                              route_lifetime := RPL_NOPATH_REMOVAL_DELAY c\<rparr>)
                       \<and> events st' = events st @ ack)
               else unmatched)"
proof -
  let ?st1 = "stat_incr (\<lambda>s. s\<lparr>dao_recvd := dao_recvd s + 1\<rparr>) st"
  have run: "dao_input_storing c e pkt st =
               dao_storing_nopath c pkt ?st1 instance dag flags sequence
                 (payload_len pkt mod 256) opts"
    using parse inst dag zero by (simp add: dao_input_storing_def Let_def bindE_def)
  have len: "4 \<le> length (icmp_payload ?st1)"
    using dao_storing_parse_length [OF parse] by simp
  have pp1: "preferred_parent dag \<noteq> None \<longrightarrow>
               deref (parents (heap ?st1)) (preferred_parent dag) = Inr pp"
    using pp by simp
  from dao_storing_nopath_result [OF len pp1, of c pkt "instance" flags sequence
         "payload_len pkt mod 256" opts]
  show ?thesis unfolding run by (simp only: stat_incr_simps)
qed

text \<open>
  The No-Path DAO with the K flag from \<open>2001:db8::2\<close>, the next hop of the route of the
  target \<open>2001:db8::9/128\<close>; the preferred parent has the address \<open>2001:db8::7\<close> and
  \<open>dao_sequence\<close> is 240.
\<close>

theorem dao_input_storing_nopath_witness:
  "trace (dao_input_storing example_conf example_env (example_packet (example_addr 2) 30)
     (example_node
        (example_heap rpl_mrhof (Some 0) [example_parent 256 128 (Some (example_addr 7)) None])
        [example_addr 9 \<mapsto> example_route (example_addr 2) 3]
        (example_dao_buffer 0x80 (example_addr 9) 4 5 0)))
     = Inr [Icmp6_Send (example_addr 7) RPL_CODE_DAO
              (take 30 ((example_dao_buffer 0x80 (example_addr 9) 4 5 0)[3 := 241])),
            Icmp6_Send (example_addr 2) RPL_CODE_DAO_ACK [30, 0, 17, 0]]
   \<and> result_route
       (dao_input_storing example_conf example_env (example_packet (example_addr 2) 30)
     (example_node
        (example_heap rpl_mrhof (Some 0) [example_parent 256 128 (Some (example_addr 7)) None])
        [example_addr 9 \<mapsto> example_route (example_addr 2) 3]
        (example_dao_buffer 0x80 (example_addr 9) 4 5 0))) (example_addr 9)
       = Inr (Some ((example_route (example_addr 2) 3)
                \<lparr>nopath_received := True, route_lifetime := 60, dao_seqno_in := 17,
                 dao_seqno_out := 241, dao_pending := True\<rparr>))"
proof -
  let ?h = "example_heap rpl_mrhof (Some 0)
              [example_parent 256 128 (Some (example_addr 7)) None]"
  let ?st = "example_node ?h [example_addr 9 \<mapsto> example_route (example_addr 2) 3]
        (example_dao_buffer 0x80 (example_addr 9) 4 5 0)"
  let ?opts = "\<lparr>opt_prefix = example_addr 9, opt_prefixlen = 128, opt_pathSequence = 5,
                opt_lifetime = 0, opt_parent_addr = zero_addr\<rparr>"
  have p: "dao_storing_parse example_conf example_env (example_packet (example_addr 2) 30) ?st
           = Inr (Dao_Parsed (Some 0) 0x80 17 True ?opts)"
    by (rule example_dao_parse) (simp add: RPL_DAO_D_FLAG_def)
  have i: "deref (instances (heap ?st)) (Some 0) = Inr (example_instance rpl_mrhof 2)"
    by (simp add: deref_def example_node_def example_heap_def)
  have d: "deref (dags (heap ?st)) (current_dag (example_instance rpl_mrhof 2))
           = Inr (example_dag (Some 0) 768)"
    by (simp add: deref_def example_node_def example_heap_def example_instance_def)
  have q: "preferred_parent (example_dag (Some 0) 768) \<noteq> None \<longrightarrow>
             deref (parents (heap ?st)) (preferred_parent (example_dag (Some 0) 768))
             = Inr (example_parent 256 128 (Some (example_addr 7)) None)"
    by (simp add: deref_def example_node_def example_heap_def example_dag_def)
  have z: "opt_lifetime ?opts = RPL_ZERO_LIFETIME"
    by (simp add: RPL_ZERO_LIFETIME_def)
  from dao_input_storing_nopath [OF p i d q z]
  show ?thesis
    by (auto simp add: Let_def trace_def result_route_def example_route_def example_node_def
        example_packet_def example_instance_def example_conf_def example_macros_def
        example_dag_def example_parent_def RPL_DAO_K_FLAG_def
        RPL_DAO_ACK_UNCONDITIONAL_ACCEPT_def)
qed

section \<open>Options that run past the payload\<close>

text \<open>
  \<open>dio_input\<close> tests every option against the end of the payload: an option whose
  length runs past it ends the loop as malformed, the counter goes up and the DIO is not
  handed to \<open>rpl_process_dio\<close>.
\<close>

lemma dio_options_overrun:
  assumes "i < buffer_length" and "subopt_len buffer i = Inr (subopt_type, len)"
    and "buffer_length < len + i"
  shows "dio_options c buffer buffer_length i dio = Inr Malformed"
  using assms by (simp add: dio_options.simps)

lemma dio_input_malformed:
  assumes "dio_parse c (icmp_payload st) (payload_len pkt mod 256) = Inr Malformed"
  shows "dio_input c pkt st =
           Inr (st\<lparr>rpl_stats := (rpl_stats st)\<lparr>dio_recvd := dio_recvd (rpl_stats st) + 1,
                                               malformed_msgs :=
                                                 malformed_msgs (rpl_stats st) + 1\<rparr>\<rparr>)"
  using assms by (simp add: dio_input_def Let_def bindE_def stat_incr_def)

text \<open>
  C1, at a DAO and a DCO of 26 octets.  The claim: a DIO, DAO or DCO in which an option
  declares a length that runs past the end of the payload is rejected as a whole, the
  malformed counter goes up and no route changes.  The payload ends after the two header
  octets of the transit option, which declares four more.  \<open>dao_input\<close> reads path
  sequence and lifetime (30) from the four octets behind the payload and installs the
  route of the target; \<open>dco_input\<close> reads path sequence 5 and lifetime 0 from there and
  removes the route; neither counts a malformed message.
\<close>

theorem dao_dco_input_overlong_option_accepted:
  "result_route
     (dao_input example_conf example_env (example_packet (example_addr 2) 26)
        (example_node
           (example_heap rpl_mrhof None [example_parent 256 128 (Some (example_addr 7)) None])
           Map.empty (example_dao_buffer 0 (example_addr 9) 4 5 30)))
     (example_addr 9)
     = Inr (Some \<lparr>route_length = 128, route_nexthop = Some (example_addr 2),
                  route_lifetime = 1800, dao_seqno_in = 0, dao_seqno_out = 0,
                  dao_path_sequence = 5, dao_pending = False, nopath_received = False\<rparr>)
   \<and> result_stat malformed_msgs
     (dao_input example_conf example_env (example_packet (example_addr 2) 26)
        (example_node
           (example_heap rpl_mrhof None [example_parent 256 128 (Some (example_addr 7)) None])
           Map.empty (example_dao_buffer 0 (example_addr 9) 4 5 30))) = Inr 0
   \<and> result_route
     (dco_input example_conf example_env (example_packet (example_addr 2) 26)
        (example_node (example_heap rpl_mrhof None [])
           [example_addr 9 \<mapsto> example_route (example_addr 3) 3]
           (example_dao_buffer 0 (example_addr 9) 4 5 0)))
     (example_addr 9) = Inr None
   \<and> result_stat malformed_msgs
     (dco_input example_conf example_env (example_packet (example_addr 2) 26)
        (example_node (example_heap rpl_mrhof None [])
           [example_addr 9 \<mapsto> example_route (example_addr 3) 3]
           (example_dao_buffer 0 (example_addr 9) 4 5 0))) = Inr 0"
proof -
  let ?dao = "dao_input example_conf example_env (example_packet (example_addr 2) 26)
        (example_node
           (example_heap rpl_mrhof None [example_parent 256 128 (Some (example_addr 7)) None])
           Map.empty (example_dao_buffer 0 (example_addr 9) 4 5 30))"
  let ?dco = "dco_input example_conf example_env (example_packet (example_addr 2) 26)
        (example_node (example_heap rpl_mrhof None [])
           [example_addr 9 \<mapsto> example_route (example_addr 3) 3]
           (example_dao_buffer 0 (example_addr 9) 4 5 0))"
  have a: "result_route ?dao (example_addr 9)
     = Inr (Some \<lparr>route_length = 128, route_nexthop = Some (example_addr 2),
                  route_lifetime = 1800, dao_seqno_in = 0, dao_seqno_out = 0,
                  dao_path_sequence = 5, dao_pending = False, nopath_received = False\<rparr>)"
    by (simp add: dao_input_def dao_input_storing_def dao_eval dao_storing_add_def
        dao_storing_forward_def rpl_icmp6_update_nbr_table_def rpl_add_route_def
        route_update_def result_route_def stat_incr_def RPL_ZERO_LIFETIME_def
        err_defs ex_defs ex2_defs opt_defs)
  have b: "result_stat malformed_msgs ?dao = Inr 0"
    by (simp add: dao_input_def dao_input_storing_def dao_eval dao_storing_add_def
        dao_storing_forward_def rpl_icmp6_update_nbr_table_def rpl_add_route_def
        route_update_def result_stat_def stat_incr_def RPL_ZERO_LIFETIME_def
        err_defs ex_defs ex2_defs opt_defs)
  have c: "result_route ?dco (example_addr 9) = Inr None"
    by (simp add: dco_input_def dco_route_def dco_eval uip_ds6_route_rm_def emit_def
        result_route_def stat_incr_def example_lollipop_greater_than_def
        err_defs ex_defs ex2_defs opt_defs)
  have d: "result_stat malformed_msgs ?dco = Inr 0"
    by (simp add: dco_input_def dco_route_def dco_eval uip_ds6_route_rm_def emit_def
        result_stat_def stat_incr_def example_lollipop_greater_than_def
        err_defs ex_defs ex2_defs opt_defs)
  from a b c d show ?thesis by (intro conjI)
qed


section \<open>Round trip of the wire codec\<close>

lemma ff16: "(0xff :: 16 word) = mask 8" by (simp add: mask_eq_exp_minus_1)
lemma ff32: "(0xff :: 32 word) = mask 8" by (simp add: mask_eq_exp_minus_1)

lemma get16_set16_word:
  "push_bit 8 (ucast (ucast (drop_bit 8 v) :: 8 word)) OR ucast (ucast (v AND 0xff) :: 8 word)
   = (v :: 16 word)"
  unfolding ff16
  by (rule bit_word_eqI) (auto simp add: bit_simps)

lemma get32_set32_word:
  "push_bit 24 (ucast (ucast (drop_bit 24 v) :: 8 word))
   OR push_bit 16 (ucast (ucast (drop_bit 16 v AND 0xff) :: 8 word))
   OR push_bit 8 (ucast (ucast (drop_bit 8 v AND 0xff) :: 8 word))
   OR ucast (ucast (v AND 0xff) :: 8 word) = (v :: 32 word)"
  unfolding ff32
proof (rule bit_word_eqI, goal_cases)
  case (1 n)
  consider "n < 8" | "8 \<le> n" "n < 16" | "16 \<le> n" "n < 24" | "24 \<le> n" by linarith
  then show ?case
    using 1 by cases (auto simp add: bit_simps)
qed

text \<open>Reading behind a prefix of the buffer.\<close>

lemma rd_append [simp]: "length pre \<le> i \<Longrightarrow> rd (pre @ l) i = rd l (i - length pre)"
  by (auto simp add: rd_def nth_append)

lemma rd_bytes_append [simp]:
  "length pre \<le> i \<Longrightarrow> rd_bytes (pre @ l) i n = rd_bytes l (i - length pre) n"
  by (auto simp add: rd_bytes_def)

lemma get16_append [simp]:
  "length pre \<le> i \<Longrightarrow> get16 (pre @ l) i = get16 l (i - length pre)"
  by (simp add: get16_def Suc_diff_le)

lemma get32_append [simp]:
  "length pre \<le> i \<Longrightarrow> get32 (pre @ l) i = get32 l (i - length pre)"
  by (simp add: get32_def Suc_diff_le)

lemma subopt_len_append [simp]: "subopt_len (pre @ l) (length pre) = subopt_len l 0"
  by (simp add: subopt_len_def cong: if_cong)

lemma dio_metric_container_append:
  "dio_metric_container c (pre @ l) (length pre) len dio = dio_metric_container c l 0 len dio"
  by (simp add: dio_metric_container_def Let_def numeral_2_eq_2 cong: if_cong)

lemma dio_route_info_append:
  "dio_route_info (pre @ l) (length pre) len dio = dio_route_info l 0 len dio"
  by (simp add: dio_route_info_def Let_def numeral_2_eq_2 cong: if_cong)

lemma dio_dag_conf_append:
  "dio_dag_conf (pre @ l) (length pre) len dio = dio_dag_conf l 0 len dio"
  by (simp add: dio_dag_conf_def cong: if_cong)

lemma dio_prefix_information_append:
  "dio_prefix_information (pre @ l) (length pre) len dio = dio_prefix_information l 0 len dio"
  by (simp add: dio_prefix_information_def numeral_2_eq_2 cong: if_cong)

lemma dio_subopt_append [simp]:
  "dio_subopt c (pre @ l) (length pre) t len dio = dio_subopt c l 0 t len dio"
  by (simp only: dio_subopt_def dio_metric_container_append dio_route_info_append
      dio_dag_conf_append dio_prefix_information_append)

lemma get16_set16 [simp]: "get16 (set16 v @ post) 0 = Inr v"
  by (simp add: get16_def set16_def rd_def bindE_def get16_set16_word)

lemma get32_set32 [simp]: "get32 (set32 v @ post) 0 = Inr v"
  by (simp add: get32_def set32_def rd_def bindE_def get32_set32_word)

lemma length_set16 [simp]: "length (set16 v) = 2" by (simp add: set16_def)
lemma length_set32 [simp]: "length (set32 v) = 4" by (simp add: set32_def)

text \<open>One turn of the DIO option loop, behind a prefix of the buffer.\<close>

lemma dio_options_step:
  assumes "subopt_len l 0 = Inr (t, len)" and "dio_subopt c l 0 t len dio = Inr (Accept dio')"
    and "length pre < buffer_length" and "len + length pre \<le> buffer_length"
  shows "dio_options c (pre @ l) buffer_length (length pre) dio
         = dio_options c (pre @ l) buffer_length (length pre + len) dio'"
  using assms by (subst dio_options.simps) simp

lemma dio_options_end:
  "buffer_length \<le> i \<Longrightarrow> dio_options c buffer buffer_length i dio = Inr (Accept dio)"
  by (subst dio_options.simps) simp


text \<open>Reading behind the first octets of an explicit list.\<close>

lemma rd_Cons [simp]:
  "rd (x # l) 0 = Inr x" "rd (x # l) (Suc i) = rd l i" "rd (x # l) 1 = rd l 0"
  "rd (x # l) (numeral k) = rd l (pred_numeral k)"
  by (simp_all add: rd_def numeral_eq_Suc)

lemma rd_bytes_Cons [simp]:
  "rd_bytes (x # l) (Suc i) n = rd_bytes l i n" "rd_bytes (x # l) 1 n = rd_bytes l 0 n"
  "rd_bytes (x # l) (numeral k) n = rd_bytes l (pred_numeral k) n"
  by (simp_all add: rd_bytes_def numeral_eq_Suc)

lemma get16_Cons [simp]:
  "get16 (x # l) (Suc i) = get16 l i" "get16 (x # l) 1 = get16 l 0"
  "get16 (x # l) (numeral k) = get16 l (pred_numeral k)"
  by (simp_all add: get16_def numeral_eq_Suc)

lemma get32_Cons [simp]:
  "get32 (x # l) (Suc i) = get32 l i" "get32 (x # l) 1 = get32 l 0"
  "get32 (x # l) (numeral k) = get32 l (pred_numeral k)"
  by (simp_all add: get32_def numeral_eq_Suc)

lemma rd_bytes_exact [simp]: "length a = n \<Longrightarrow> rd_bytes (a @ post) 0 n = Inr a"
  by (simp add: rd_bytes_def)

lemma bindE_Inr [simp]: "bindE (Inr v) f = f v"
  by (simp add: bindE_def)

lemma bindE_Inl [simp]: "bindE (Inl e) f = Inl e"
  by (simp add: bindE_def)

text \<open>The flag octets.\<close>

lemma m1: "(1 :: 8 word) = mask 1" by (simp add: mask_eq_exp_minus_1)
lemma m3: "(3 :: 8 word) = mask 2" by (simp add: mask_eq_exp_minus_1)
lemma m7: "(7 :: 8 word) = mask 3" by (simp add: mask_eq_exp_minus_1)
lemma m15: "(15 :: 8 word) = mask 4" by (simp add: mask_eq_exp_minus_1)
lemma m38: "(0x38 :: 8 word) = push_bit 3 (mask 3)" by (simp add: mask_eq_exp_minus_1)
lemma m80: "(0x80 :: 8 word) = push_bit 7 (mask 1)" by (simp add: mask_eq_exp_minus_1)

lemma lt8: "(x :: 8 word) < 8 \<Longrightarrow> x AND 7 = x"
  using less_mask_eq [of x 3] by (simp add: mask_eq_exp_minus_1)
lemma lt4: "(x :: 8 word) < 4 \<Longrightarrow> x AND 3 = x"
  using less_mask_eq [of x 2] by (simp add: mask_eq_exp_minus_1)
lemma lt16: "(x :: 8 word) < 16 \<Longrightarrow> x AND 15 = x"
  using less_mask_eq [of x 4] by (simp add: mask_eq_exp_minus_1)

lemma mc_flags_word:
  "push_bit 1 (drop_bit 1 f)
   OR drop_bit 7 (push_bit 7 (f AND 1) OR (push_bit 4 (a AND 3) OR (p AND 15))) = (f :: 8 word)"
  unfolding m1 m3 m15
  apply (rule bit_word_eqI)
  apply (simp only: bit_or_iff bit_and_iff bit_push_bit_iff bit_drop_bit_eq bit_mask_iff
      possible_bit_word comp_apply)
  apply (case_tac "n = 0")
   apply auto
  done

lemma mc_aggr_word:
  "drop_bit 4 (push_bit 7 (f AND 1) OR (push_bit 4 (a AND 3) OR (p AND 15))) AND 3
   = (a AND 3 :: 8 word)"
  unfolding m1 m3 m15
  apply (rule bit_word_eqI)
  apply (simp only: bit_or_iff bit_and_iff bit_push_bit_iff bit_drop_bit_eq bit_mask_iff
      possible_bit_word comp_apply)
  apply auto
  done

lemma mc_prec_word:
  "(push_bit 7 (f AND 1) OR (push_bit 4 (a AND 3) OR (p AND 15))) AND 15 = (p AND 15 :: 8 word)"
  unfolding m1 m3 m15
  apply (rule bit_word_eqI)
  apply (simp only: bit_or_iff bit_and_iff bit_push_bit_iff bit_drop_bit_eq bit_mask_iff
      possible_bit_word comp_apply)
  apply auto
  done

lemma dio_grounded_word:
  "(push_bit 7 (g AND 1) OR push_bit 3 (m AND 7) OR (p AND 7)) AND 0x80
   = (push_bit 7 (g AND 1) :: 8 word)"
  unfolding m7 m80 m1
  apply (rule bit_word_eqI)
  apply (simp only: bit_or_iff bit_and_iff bit_push_bit_iff bit_drop_bit_eq bit_mask_iff
      possible_bit_word comp_apply)
  apply auto
  done

lemma dio_mop_word:
  "drop_bit 3 ((push_bit 7 (g AND 1) OR push_bit 3 (m AND 7) OR (p AND 7)) AND 0x38)
   = (m AND 7 :: 8 word)"
  unfolding m7 m38 m1
  apply (rule bit_word_eqI)
  apply (simp only: bit_or_iff bit_and_iff bit_push_bit_iff bit_drop_bit_eq bit_mask_iff
      possible_bit_word comp_apply)
  apply auto
  done

lemma dio_preference_word:
  "(push_bit 7 (g AND 1) OR push_bit 3 (m AND 7) OR (p AND 7)) AND 7 = (p AND 7 :: 8 word)"
  unfolding m7 m1
  apply (rule bit_word_eqI)
  apply (simp only: bit_or_iff bit_and_iff bit_push_bit_iff bit_drop_bit_eq bit_mask_iff
      possible_bit_word comp_apply)
  apply auto
  done

text \<open>The octet of the DIO base object with G, MOP and Prf, and what the parser reads in it.\<close>

lemma dio_flags_octet:
  fixes fb :: "8 word"
  assumes fb: "fb = (if g then RPL_DIO_GROUNDED else 0) OR push_bit RPL_DIO_MOP_SHIFT m
                    OR (p AND RPL_DIO_PREFERENCE_MASK)"
    and m: "m < 8"
  shows "fb AND RPL_DIO_GROUNDED = (if g then 0x80 else 0)"
    and "drop_bit RPL_DIO_MOP_SHIFT (fb AND RPL_DIO_MOP_MASK) = m"
    and "fb AND RPL_DIO_PREFERENCE_MASK = p AND 7"
proof -
  have fb': "fb = push_bit 7 ((if g then 1 else 0) AND 1) OR push_bit 3 (m AND 7) OR (p AND 7)"
    using m by (simp add: fb lt8 RPL_DIO_GROUNDED_def RPL_DIO_MOP_SHIFT_def
        RPL_DIO_PREFERENCE_MASK_def)
  show "fb AND RPL_DIO_GROUNDED = (if g then 0x80 else 0)"
    unfolding fb' RPL_DIO_GROUNDED_def dio_grounded_word by simp
  show "drop_bit RPL_DIO_MOP_SHIFT (fb AND RPL_DIO_MOP_MASK) = m"
    unfolding fb' RPL_DIO_MOP_SHIFT_def RPL_DIO_MOP_MASK_def dio_mop_word using m by (simp add: lt8)
  show "fb AND RPL_DIO_PREFERENCE_MASK = p AND 7"
    unfolding fb' RPL_DIO_PREFERENCE_MASK_def dio_preference_word by simp
qed

text \<open>The two octets of the metric container with flags, aggregation and precedence.\<close>

lemma mc_flag_octets:
  fixes b3 b4 :: "8 word"
  assumes b3: "b3 = drop_bit 1 f"
    and b4: "b4 = push_bit 7 (f AND 1) OR (push_bit 4 a OR p)"
    and a: "a < 4" and p: "p < 16"
  shows "push_bit 1 b3 OR drop_bit 7 b4 = f" and "drop_bit 4 b4 AND 0x3 = a"
    and "b4 AND 0xf = p"
proof -
  have b4': "b4 = push_bit 7 (f AND 1) OR (push_bit 4 (a AND 3) OR (p AND 15))"
    using a p by (simp add: b4 lt4 lt16)
  show "push_bit 1 b3 OR drop_bit 7 b4 = f"
    unfolding b3 b4' by (rule mc_flags_word)
  show "drop_bit 4 b4 AND 0x3 = a"
    unfolding b4' mc_aggr_word using a by (simp add: lt4)
  show "b4 AND 0xf = p"
    unfolding b4' mc_prec_word using p by (simp add: lt16)
qed


text \<open>The two octets of the metric object, written as ETX and read as ETX.\<close>

lemma etx_octets_word:
  "ucast (push_bit 8 (ucast a :: 16 word) OR ucast b) = (b :: 8 word)"
  "ucast (drop_bit 8 (push_bit 8 (ucast a :: 16 word) OR ucast b)) = (a :: 8 word)"
  by (rule bit_word_eqI; auto simp add: bit_simps dest: bit_imp_le_length)+

lemma mc_obj_etx_roundtrip:
  "mc_obj_etx_update le (mc_obj_etx le m) m' = m'\<lparr>mc_obj0 := mc_obj0 m, mc_obj1 := mc_obj1 m\<rparr>"
  by (cases le)
     (simp_all only: mc_obj_etx_update_def mc_obj_etx_def etx_octets_word if_True if_False)

subsection \<open>The base object and the options of a DIO\<close>

text \<open>
  What the parser reads in the octets of each part of a DIO, when they stand at the
  head of the buffer.
\<close>

lemmas dio_opt_defs = RPL_OPTION_PAD1_def RPL_OPTION_DAG_METRIC_CONTAINER_def
  RPL_OPTION_ROUTE_INFO_def RPL_OPTION_DAG_CONF_def RPL_OPTION_PREFIX_INFO_def

lemma dio_base_roundtrip:
  assumes "length (dag_id dag) = 16" and "mop instance < 8"
  shows "dio_base c (dio_base_bytes c instance dag @ post) =
    Inr ((dio_init c)\<lparr>dio_instance_id := instance_id instance, dio_version := version dag,
           dio_rank := (if RPL_LEAF_ONLY c then INFINITE_RANK c else dag_rank dag),
           dio_grounded := (if grounded dag \<noteq> 0 then 0x80 else 0),
           dio_mop := mop instance, dio_preference := preference dag AND 7,
           dio_dtsn := dtsn_out instance, dio_dag_id := dag_id dag\<rparr>)"
proof -
  define fb where "fb = (if grounded dag \<noteq> 0 then RPL_DIO_GROUNDED else 0)
          OR push_bit RPL_DIO_MOP_SHIFT (mop instance)
          OR (preference dag AND RPL_DIO_PREFERENCE_MASK)"
  have bytes: "dio_base_bytes c instance dag =
      [instance_id instance, version dag]
      @ set16 (if RPL_LEAF_ONLY c then INFINITE_RANK c else dag_rank dag)
      @ [fb, dtsn_out instance, 0, 0] @ dag_id dag"
    using assms(1) by (simp add: dio_base_bytes_def fb_def)
  note fl = dio_flags_octet [OF fb_def assms(2)]
  have fl2: "drop_bit RPL_DIO_MOP_SHIFT fb AND drop_bit RPL_DIO_MOP_SHIFT RPL_DIO_MOP_MASK
      = mop instance"
    using fl(2) by simp
  show ?thesis
    unfolding bytes using assms(1) by (simp add: dio_base_def fl fl2)
qed

lemma length_dio_base_bytes [simp]:
  "length (dag_id dag) = 16 \<Longrightarrow> length (dio_base_bytes c instance dag) = 24"
  by (simp add: dio_base_bytes_def)

lemma dio_conf_option:
  "subopt_len (dio_conf_bytes instance @ post) 0 = Inr (RPL_OPTION_DAG_CONF, 16)"
  "dio_subopt c (dio_conf_bytes instance @ post) 0 RPL_OPTION_DAG_CONF 16 dio =
     Inr (Accept (dio\<lparr>dag_intdoubl := dio_intdoubl instance, dag_intmin := dio_intmin instance,
                       dag_redund := dio_redundancy instance,
                       dag_max_rankinc := max_rankinc instance,
                       dag_min_hoprankinc := min_hoprankinc instance,
                       dio_ocp := ocp (inst_of instance),
                       dio_default_lifetime := default_lifetime instance,
                       dio_lifetime_unit := lifetime_unit instance\<rparr>))"
  by (simp_all add: dio_conf_bytes_def subopt_len_def dio_subopt_def dio_dag_conf_def
      dio_opt_defs)

lemma length_dio_conf_bytes [simp]: "length (dio_conf_bytes instance) = 16"
  by (simp add: dio_conf_bytes_def)

lemma dio_prefix_option:
  assumes "prefix_length (prefix_info dag) > 0"
    and "length (prefix (prefix_info dag)) = 16"
  shows "subopt_len (dio_prefix_bytes dag @ post) 0 = Inr (RPL_OPTION_PREFIX_INFO, 32)"
    and "dio_subopt c (dio_prefix_bytes dag @ post) 0 RPL_OPTION_PREFIX_INFO 32 dio =
           Inr (Accept (dio\<lparr>dio_prefix_info := prefix_info dag\<rparr>))"
    and "length (dio_prefix_bytes dag) = 32"
  using assms
  by (simp_all add: dio_prefix_bytes_def subopt_len_def dio_subopt_def
      dio_prefix_information_def dio_opt_defs)

lemma dio_mc_option:
  assumes ok: "dio_mc_bytes c m = (mcb, True)"
    and a: "mc_aggr m < 4" and p: "mc_prec m < 16"
    and nz: "RPL_DAG_MC_ETX (mcc c) \<noteq> RPL_DAG_MC_NONE (mcc c)"
      "RPL_DAG_MC_ENERGY (mcc c) \<noteq> RPL_DAG_MC_NONE (mcc c)"
  shows "subopt_len (mcb @ post) 0 = Inr (RPL_OPTION_DAG_METRIC_CONTAINER, 8)"
    and "dio_subopt c (mcb @ post) 0 RPL_OPTION_DAG_METRIC_CONTAINER 8 dio =
           Inr (Accept (dio\<lparr>dio_mc :=
              (dio_mc dio)\<lparr>mc_type := mc_type m, mc_flags := mc_flags m,
                      mc_aggr := mc_aggr m, mc_prec := mc_prec m, mc_length := 2,
                      mc_obj0 := mc_obj0 m, mc_obj1 := mc_obj1 m\<rparr>\<rparr>))"
    and "length mcb = 8"
proof -
  define b3 where "b3 = drop_bit 1 (mc_flags m)"
  define b4 where "b4 = push_bit 7 (mc_flags m AND 1) OR (push_bit 4 (mc_aggr m) OR mc_prec m)"
  note fl0 = mc_flag_octets [OF b3_def b4_def a p]
  have fl1: "b3 * 2 OR drop_bit 7 b4 = mc_flags m"
    using fl0(1) by simp
  note fl = fl0 fl1
  have ty: "mc_type m = RPL_DAG_MC_ETX (mcc c) \<or> mc_type m = RPL_DAG_MC_ENERGY (mcc c)"
    using ok by (auto simp add: dio_mc_bytes_def Let_def split: if_splits)
  have bytes: "mcb = [RPL_OPTION_DAG_METRIC_CONTAINER, 6, mc_type m, b3, b4, 2]
                 @ (if mc_type m = RPL_DAG_MC_ETX (mcc c)
                    then set16 (mc_obj_etx (HOST_LITTLE_ENDIAN c) m)
                    else [mc_obj0 m, mc_obj1 m])"
    using ok by (auto simp add: dio_mc_bytes_def Let_def b3_def b4_def split: if_splits)
  show "subopt_len (mcb @ post) 0 = Inr (RPL_OPTION_DAG_METRIC_CONTAINER, 8)"
    unfolding bytes by (simp add: subopt_len_def dio_opt_defs)
  show "length mcb = 8"
    unfolding bytes by simp
  show "dio_subopt c (mcb @ post) 0 RPL_OPTION_DAG_METRIC_CONTAINER 8 dio =
           Inr (Accept (dio\<lparr>dio_mc :=
              (dio_mc dio)\<lparr>mc_type := mc_type m, mc_flags := mc_flags m,
                      mc_aggr := mc_aggr m, mc_prec := mc_prec m, mc_length := 2,
                      mc_obj0 := mc_obj0 m, mc_obj1 := mc_obj1 m\<rparr>\<rparr>))"
  proof (cases "mc_type m = RPL_DAG_MC_ETX (mcc c)")
    case True
    show ?thesis
      unfolding bytes using True nz
      by (simp add: dio_subopt_def dio_metric_container_def dio_opt_defs Let_def fl
          mc_obj_etx_roundtrip)
  next
    case False
    show ?thesis
      unfolding bytes using False ty nz
      by (simp add: dio_subopt_def dio_metric_container_def dio_opt_defs Let_def fl
          mc_obj_etx_roundtrip)
  qed
qed


text \<open>One turn of the DIO option loop for each option that \<open>dio_output\<close> writes.\<close>

lemma dio_options_opt:
  assumes "subopt_len (opt @ post) 0 = Inr (t, length opt)"
    and "dio_subopt c (opt @ post) 0 t (length opt) dio = Inr (Accept dio')"
    and "length pre + length opt \<le> L" and "opt \<noteq> []"
  shows "dio_options c (pre @ opt @ post) L (length pre) dio =
         dio_options c ((pre @ opt) @ post) L (length (pre @ opt)) dio'"
proof -
  have "length pre < L"
    using assms(3,4) by (cases opt) auto
  then show ?thesis
    using dio_options_step [of "opt @ post" t "length opt" c dio dio' pre L] assms
    by (simp add: add.commute)
qed

lemma dio_options_done:
  "dio_options c buffer (length pre) (length pre) dio = Inr (Accept dio)"
  by (rule dio_options_end) simp

lemma dio_options_mc:
  assumes ok: "dio_mc_bytes c m = (mcb, True)"
    and a: "mc_aggr m < 4" and p: "mc_prec m < 16"
    and nz: "RPL_DAG_MC_ETX (mcc c) \<noteq> RPL_DAG_MC_NONE (mcc c)"
      "RPL_DAG_MC_ENERGY (mcc c) \<noteq> RPL_DAG_MC_NONE (mcc c)"
    and L: "length pre + 8 \<le> L"
  shows "dio_options c (pre @ mcb @ post) L (length pre) dio =
         dio_options c ((pre @ mcb) @ post) L (length (pre @ mcb))
           (dio\<lparr>dio_mc :=
              (dio_mc dio)\<lparr>mc_type := mc_type m, mc_flags := mc_flags m,
                      mc_aggr := mc_aggr m, mc_prec := mc_prec m, mc_length := 2,
                      mc_obj0 := mc_obj0 m, mc_obj1 := mc_obj1 m\<rparr>\<rparr>)"
proof -
  note o = dio_mc_option [OF ok a p nz]
  have len: "length mcb = 8" by (rule o(3))
  show ?thesis
    by (rule dio_options_opt [where t = RPL_OPTION_DAG_METRIC_CONTAINER])
       (use len L in \<open>simp_all add: o(1) o(2)\<close>, auto)
qed

lemma dio_options_conf:
  assumes L: "length pre + 16 \<le> L"
  shows "dio_options c (pre @ dio_conf_bytes instance @ post) L (length pre) dio =
         dio_options c ((pre @ dio_conf_bytes instance) @ post) L
           (length (pre @ dio_conf_bytes instance))
           (dio\<lparr>dag_intdoubl := dio_intdoubl instance, dag_intmin := dio_intmin instance,
                       dag_redund := dio_redundancy instance,
                       dag_max_rankinc := max_rankinc instance,
                       dag_min_hoprankinc := min_hoprankinc instance,
                       dio_ocp := ocp (inst_of instance),
                       dio_default_lifetime := default_lifetime instance,
                       dio_lifetime_unit := lifetime_unit instance\<rparr>)"
proof -
  have ne: "dio_conf_bytes instance \<noteq> []"
    by (simp add: dio_conf_bytes_def)
  show ?thesis
    by (rule dio_options_opt [where t = RPL_OPTION_DAG_CONF])
       (use L ne in \<open>simp_all add: dio_conf_option\<close>)
qed

lemma dio_options_prefix:
  assumes pl: "prefix_length (prefix_info dag) > 0"
    and pw: "length (prefix (prefix_info dag)) = 16"
    and L: "length pre + 32 \<le> L"
  shows "dio_options c (pre @ dio_prefix_bytes dag @ post) L (length pre) dio =
         dio_options c ((pre @ dio_prefix_bytes dag) @ post) L
           (length (pre @ dio_prefix_bytes dag))
           (dio\<lparr>dio_prefix_info := prefix_info dag\<rparr>)"
proof -
  note o = dio_prefix_option [OF pl pw]
  have ne: "dio_prefix_bytes dag \<noteq> []"
    using o(3) by auto
  show ?thesis
    by (rule dio_options_opt [where t = RPL_OPTION_PREFIX_INFO])
       (use L ne in \<open>simp_all add: o\<close>)
qed


subsection \<open>The DIO parser on the octets of a DIO\<close>

text \<open>
  The octets of the base object, of the metric container if there is one, of the
  configuration and of the prefix information if the DAG has a prefix, followed by
  anything: the parser, given their length, returns the DIO they were written from.
\<close>

lemma dio_parse_roundtrip:
  assumes did: "length (dag_id dag) = 16" and mop: "mop instance < 8"
    and pw: "length (prefix (prefix_info dag)) = 16"
    and mc: "mcb = [] \<or> (dio_mc_bytes c m = (mcb, True) \<and> mc_aggr m < 4 \<and> mc_prec m < 16)"
    and nz: "RPL_DAG_MC_ETX (mcc c) \<noteq> RPL_DAG_MC_NONE (mcc c)"
      "RPL_DAG_MC_ENERGY (mcc c) \<noteq> RPL_DAG_MC_NONE (mcc c)"
    and msg: "msg = dio_base_bytes c instance dag @ mcb @ dio_conf_bytes instance2
                      @ dio_prefix_bytes dag"
  shows "dio_parse c (msg @ rest) (length msg) =
    Inr (Accept
      ((dio_init c)\<lparr>dio_instance_id := instance_id instance, dio_version := version dag,
           dio_rank := (if RPL_LEAF_ONLY c then INFINITE_RANK c else dag_rank dag),
           dio_grounded := (if grounded dag \<noteq> 0 then 0x80 else 0),
           dio_mop := mop instance, dio_preference := preference dag AND 7,
           dio_dtsn := dtsn_out instance, dio_dag_id := dag_id dag,
           dio_mc :=
             (if mcb = [] then zero_mc else m\<lparr>mc_length := 2\<rparr>),
           dag_intdoubl := dio_intdoubl instance2, dag_intmin := dio_intmin instance2,
           dag_redund := dio_redundancy instance2,
           dag_max_rankinc := max_rankinc instance2,
           dag_min_hoprankinc := min_hoprankinc instance2,
           dio_ocp := ocp (inst_of instance2),
           dio_default_lifetime := default_lifetime instance2,
           dio_lifetime_unit := lifetime_unit instance2,
           dio_prefix_info :=
             (if prefix_length (prefix_info dag) > 0 then prefix_info dag
              else zero_prefix)\<rparr>))"
    (is "_ = Inr (Accept ?D)")
proof -
  define B where "B = dio_base_bytes c instance dag"
  define C where "C = dio_conf_bytes instance2"
  define P where "P = dio_prefix_bytes dag"
  define L where "L = length msg"
  define d0 where "d0 = (dio_init c)\<lparr>dio_instance_id := instance_id instance,
           dio_version := version dag,
           dio_rank := (if RPL_LEAF_ONLY c then INFINITE_RANK c else dag_rank dag),
           dio_grounded := (if grounded dag \<noteq> 0 then 0x80 else 0),
           dio_mop := mop instance, dio_preference := preference dag AND 7,
           dio_dtsn := dtsn_out instance, dio_dag_id := dag_id dag\<rparr>"
  define d1 where "d1 = (if mcb = [] then d0 else d0\<lparr>dio_mc :=
              (dio_mc d0)\<lparr>mc_type := mc_type m, mc_flags := mc_flags m,
                      mc_aggr := mc_aggr m, mc_prec := mc_prec m, mc_length := 2,
                      mc_obj0 := mc_obj0 m, mc_obj1 := mc_obj1 m\<rparr>\<rparr>)"
  define d2 where "d2 = d1\<lparr>dag_intdoubl := dio_intdoubl instance2,
           dag_intmin := dio_intmin instance2,
           dag_redund := dio_redundancy instance2,
           dag_max_rankinc := max_rankinc instance2,
           dag_min_hoprankinc := min_hoprankinc instance2,
           dio_ocp := ocp (inst_of instance2),
           dio_default_lifetime := default_lifetime instance2,
           dio_lifetime_unit := lifetime_unit instance2\<rparr>"
  define d3 where "d3 = (if prefix_length (prefix_info dag) > 0
                         then d2\<lparr>dio_prefix_info := prefix_info dag\<rparr> else d2)"
  have lB: "length B = 24"
    using did by (simp add: B_def)
  have lC: "length C = 16"
    by (simp add: C_def)
  have lM: "mcb = [] \<or> length mcb = 8"
    using mc dio_mc_option(3) [OF _ _ _ nz] by blast
  have lP: "P = [] \<or> length P = 32"
    using dio_prefix_option(3) [OF _ pw] by (auto simp add: P_def dio_prefix_bytes_def)
  have msgB: "msg = B @ mcb @ C @ P"
    by (simp add: msg B_def C_def P_def)
  have Lv: "L = length B + length mcb + length C + length P"
    by (simp add: L_def msgB)
  have b: "dio_base c (B @ mcb @ C @ P @ rest) = Inr d0"
    unfolding B_def d0_def by (rule dio_base_roundtrip [OF did mop])
  have s1: "dio_options c (B @ mcb @ C @ P @ rest) L (length B) d0 =
            dio_options c (B @ mcb @ C @ P @ rest) L (length (B @ mcb)) d1"
  proof (cases "mcb = []")
    case True
    then show ?thesis by (simp add: d1_def)
  next
    case False
    then have ok: "dio_mc_bytes c m = (mcb, True)" "mc_aggr m < 4" "mc_prec m < 16"
      using mc by auto
    have "length B + 8 \<le> L"
      using Lv lM False by simp
    from dio_options_mc [OF ok nz this, of "C @ P @ rest" d0]
    show ?thesis
      using False by (simp add: d1_def)
  qed
  have s2: "dio_options c (B @ mcb @ C @ P @ rest) L (length (B @ mcb)) d1 =
            dio_options c (B @ mcb @ C @ P @ rest) L (length (B @ mcb @ C)) d2"
  proof -
    have "length (B @ mcb) + 16 \<le> L"
      using Lv lC by simp
    from dio_options_conf [OF this, of c instance2 "P @ rest" d1]
    show ?thesis
      by (simp add: d2_def C_def)
  qed
  have s3: "dio_options c (B @ mcb @ C @ P @ rest) L (length (B @ mcb @ C)) d2 =
            dio_options c (B @ mcb @ C @ P @ rest) L (length (B @ mcb @ C @ P)) d3"
  proof (cases "prefix_length (prefix_info dag) > 0")
    case False
    then show ?thesis by (simp add: d3_def P_def dio_prefix_bytes_def)
  next
    case True
    have "length P = 32"
      using dio_prefix_option(3) [OF True pw] by (simp add: P_def)
    then have "length (B @ mcb @ C) + 32 \<le> L"
      using Lv by simp
    from dio_options_prefix [OF True pw this, of c rest d2]
    show ?thesis
      using True by (simp add: d3_def P_def)
  qed
  have s4: "dio_options c (B @ mcb @ C @ P @ rest) L (length (B @ mcb @ C @ P)) d3 =
            Inr (Accept d3)"
    by (rule dio_options_end) (simp add: Lv)
  have D: "d3 = ?D"
    by (simp add: d3_def d2_def d1_def d0_def dio_init_def)
  have "dio_parse c (msg @ rest) (length msg) =
        dio_options c (B @ mcb @ C @ P @ rest) L (length B) d0"
    using b by (simp add: dio_parse_def msgB L_def lB)
  also have "\<dots> = Inr (Accept d3)"
    by (simp only: s1 s2 s3 s4)
  finally show ?thesis
    by (simp only: D)
qed



subsection \<open>The message that \<open>dio_output\<close> sends\<close>

text \<open>
  When \<open>dio_output\<close> sends: not for a multicast in leaf mode, and, if the instance has a
  metric container, only if the objective function leaves one of type ETX or ENERGY.
  The DIO then consists of the octets above, written from the instance and its DAG, the
  DTSN as it was before the increment.
\<close>

lemma deref_Some_iff:
  "deref tbl (Some a) = Inr x \<longleftrightarrow> a < length tbl \<and> tbl ! a = x"
  by (auto simp add: deref_def)

lemma deref_set_instance [simp]:
  "ia < length (instances h) \<Longrightarrow>
   deref (instances (set_instance h ia i)) (Some ia) = Inr i"
  by (simp add: deref_def set_instance_def)

lemma deref_set_instance_mc [simp]:
  "ia < length (instances h) \<Longrightarrow>
   deref (instances (set_instance_mc h ia m)) (Some ia) = Inr ((instances h ! ia)\<lparr>mc := m\<rparr>)"
  by (simp add: deref_def set_instance_mc_def)

lemma length_set_instance [simp]:
  "length (instances (set_instance h ia i)) = length (instances h)"
  by (simp add: set_instance_def)

lemma nth_set_instance [simp]:
  "ia < length (instances h) \<Longrightarrow> instances (set_instance h ia i) ! ia = i"
  by (simp add: set_instance_def)

lemma dio_conf_bytes_cong:
  "dio_conf_bytes (instance\<lparr>dtsn_out := d\<rparr>) = dio_conf_bytes instance"
  "dio_conf_bytes (instance\<lparr>mc := m\<rparr>) = dio_conf_bytes instance"
  by (simp_all add: dio_conf_bytes_def)

lemma buf_write_room:
  "length bytes \<le> length buffer \<Longrightarrow>
   buf_write buffer 0 bytes = Inr (bytes @ drop (length bytes) buffer)"
  by (simp add: buf_write_def)

lemma dio_output_sends:
  assumes inst: "deref (instances (heap st)) (Some ia) = Inr instance"
    and dag: "deref (dags (heap st)) (current_dag instance) = Inr dag"
    and nl: "\<not> (RPL_LEAF_ONLY c \<and> uc = None)"
    and sent: "sent = (if RPL_DIO_REFRESH_DAO_ROUTES c
                         \<and> dag_rank dag = ROOT_RANK (macros c) instance \<and> uc = None
                       then instance\<lparr>dtsn_out :=
                              RPL_LOLLIPOP_INCREMENT (macros c) (dtsn_out instance)\<rparr>
                       else instance)"
    and mc: "\<not> RPL_LEAF_ONLY c \<and> mc_type (mc instance) \<noteq> RPL_DAG_MC_NONE (mcc c) \<longrightarrow>
               update_metric_container c (inst_of instance)
                 (set_instance (heap st) ia sent) ia
                 = Inr (set_instance_mc (set_instance (heap st) ia sent) ia m)
               \<and> (mc_type m = RPL_DAG_MC_ETX (mcc c) \<or> mc_type m = RPL_DAG_MC_ENERGY (mcc c))"
    and msg: "msg = dio_base_bytes c instance dag
                @ (if RPL_LEAF_ONLY c \<or> mc_type (mc instance) = RPL_DAG_MC_NONE (mcc c)
                   then [] else fst (dio_mc_bytes c m))
                @ dio_conf_bytes instance @ dio_prefix_bytes dag"
    and room: "length msg \<le> length (icmp_payload st)"
  shows "trace (dio_output c st ia uc) =
           Inr (events st @ [Icmp6_Send (case uc of None \<Rightarrow> linklocal_rplnodes_mcast (macros c)
                                           | Some a \<Rightarrow> a) RPL_CODE_DIO msg])"
proof -
  have ia: "ia < length (instances (heap st))"
    using inst by (simp add: deref_Some_iff)
  define h1 where "h1 = set_instance (heap st) ia sent"
  have s1: "mc sent = mc instance" "inst_of sent = inst_of instance"
    by (simp_all add: sent)
  have dh1: "deref (instances h1) (Some ia) = Inr sent"
    using ia by (simp add: h1_def)
  have c1: "(RPL_LEAF_ONLY c \<and> uc = None) = False"
    using nl by simp
  have bw: "buf_write (icmp_payload st) 0 msg = Inr (msg @ drop (length msg) (icmp_payload st))"
    by (rule buf_write_room [OF room])
  show ?thesis
  proof (cases "\<not> RPL_LEAF_ONLY c \<and> mc_type (mc instance) \<noteq> RPL_DAG_MC_NONE (mcc c)")
    case True
    then have up: "update_metric_container c (inst_of instance) h1 ia
                     = Inr (set_instance_mc h1 ia m)"
      and ty: "mc_type m = RPL_DAG_MC_ETX (mcc c) \<or> mc_type m = RPL_DAG_MC_ENERGY (mcc c)"
      using mc by (simp_all add: h1_def)
    have d2: "deref (instances (set_instance_mc h1 ia m)) (Some ia) = Inr (sent\<lparr>mc := m\<rparr>)"
      using ia by (simp add: h1_def)
    have "snd (dio_mc_bytes c m)"
      using ty by (auto simp add: dio_mc_bytes_def Let_def)
    then obtain mcb where mb: "dio_mc_bytes c m = (mcb, True)"
      by (cases "dio_mc_bytes c m") auto
    have m2: "msg = dio_base_bytes c instance dag @ mcb
                @ dio_conf_bytes (sent\<lparr>mc := m\<rparr>) @ dio_prefix_bytes dag"
      using True by (simp add: msg mb sent dio_conf_bytes_cong)
    have c0: "(\<not> RPL_LEAF_ONLY c \<and> mc_type (mc instance) \<noteq> RPL_DAG_MC_NONE (mcc c)) = True"
      using True by simp
    have "dio_output c st ia uc =
        (let st2 = st\<lparr>heap := set_instance_mc h1 ia m,
                       icmp_payload := msg @ drop (length msg) (icmp_payload st)\<rparr> in
         case uc of
           None \<Rightarrow>
             Inr (stat_incr (\<lambda>s. s\<lparr>dio_sent_m := dio_sent_m s + 1\<rparr>)
                   (emit (Icmp6_Send (linklocal_rplnodes_mcast (macros c))
                            RPL_CODE_DIO msg) st2))
         | Some a \<Rightarrow>
             if RPL_LEAF_ONLY c then Inr (emit (Icmp6_Send a RPL_CODE_DIO msg) st2)
             else Inr (stat_incr (\<lambda>s. s\<lparr>dio_sent_u := dio_sent_u s + 1\<rparr>)
                        (emit (Icmp6_Send a RPL_CODE_DIO msg) st2)))"
      using inst dag
      by (simp add: dio_output_def Let_def s1 sent [symmetric] h1_def [symmetric]
          c0 c1 up d2 mb m2 [symmetric] bw)
    then show ?thesis
      by (simp add: trace_def Let_def split: option.splits)
  next
    case False
    have m2: "msg = dio_base_bytes c instance dag
                @ dio_conf_bytes sent @ dio_prefix_bytes dag"
      using False by (auto simp add: msg sent dio_conf_bytes_cong)
    have c0: "(\<not> RPL_LEAF_ONLY c \<and> mc_type (mc instance) \<noteq> RPL_DAG_MC_NONE (mcc c)) = False"
      using False by simp
    have "dio_output c st ia uc =
        (let st2 = st\<lparr>heap := h1,
                       icmp_payload := msg @ drop (length msg) (icmp_payload st)\<rparr> in
         case uc of
           None \<Rightarrow>
             Inr (stat_incr (\<lambda>s. s\<lparr>dio_sent_m := dio_sent_m s + 1\<rparr>)
                   (emit (Icmp6_Send (linklocal_rplnodes_mcast (macros c))
                            RPL_CODE_DIO msg) st2))
         | Some a \<Rightarrow>
             if RPL_LEAF_ONLY c then Inr (emit (Icmp6_Send a RPL_CODE_DIO msg) st2)
             else Inr (stat_incr (\<lambda>s. s\<lparr>dio_sent_u := dio_sent_u s + 1\<rparr>)
                        (emit (Icmp6_Send a RPL_CODE_DIO msg) st2)))"
      using inst dag
      by (simp add: dio_output_def Let_def s1 sent [symmetric] h1_def [symmetric]
          c0 c1 dh1 m2 [symmetric] bw)
    then show ?thesis
      by (simp add: trace_def Let_def split: option.splits)
  qed
qed



text \<open>The DIO that \<open>dio_output\<close> sends, received by \<open>dio_input\<close>.\<close>

lemma dio_round_trip:
  assumes mc: "\<not> RPL_LEAF_ONLY c \<and> mc_type (mc instance) \<noteq> RPL_DAG_MC_NONE (mcc c) \<longrightarrow>
               (mc_type m = RPL_DAG_MC_ETX (mcc c) \<or> mc_type m = RPL_DAG_MC_ENERGY (mcc c))
               \<and> mc_aggr m < 4 \<and> mc_prec m < 16"
    and msg: "msg = dio_base_bytes c instance dag
                @ (if RPL_LEAF_ONLY c \<or> mc_type (mc instance) = RPL_DAG_MC_NONE (mcc c)
                   then [] else fst (dio_mc_bytes c m))
                @ dio_conf_bytes instance @ dio_prefix_bytes dag"
    and mop: "mop instance < 8" and pref: "preference dag < 8"
    and did: "length (dag_id dag) = 16"
    and pw: "length (prefix (prefix_info dag)) = 16"
    and nz: "RPL_DAG_MC_ETX (mcc c) \<noteq> RPL_DAG_MC_NONE (mcc c)"
      "RPL_DAG_MC_ENERGY (mcc c) \<noteq> RPL_DAG_MC_NONE (mcc c)"
    and buf: "icmp_payload rcv = msg @ rest" and len: "payload_len pkt = length msg"
  shows "trace (dio_input c pkt rcv) = Inr (events rcv @ [Process_Dio (srcipaddr pkt)
      \<lparr>dio_dag_id = dag_id dag, dio_ocp = ocp (inst_of instance),
       dio_rank = (if RPL_LEAF_ONLY c then INFINITE_RANK c else dag_rank dag),
       dio_grounded = (if grounded dag \<noteq> 0 then RPL_DIO_GROUNDED else 0),
       dio_mop = mop instance, dio_preference = preference dag,
       dio_version = version dag, dio_instance_id = instance_id instance,
       dio_dtsn = dtsn_out instance,
       dag_intdoubl = dio_intdoubl instance, dag_intmin = dio_intmin instance,
       dag_redund = dio_redundancy instance,
       dio_default_lifetime = default_lifetime instance,
       dio_lifetime_unit = lifetime_unit instance,
       dag_max_rankinc = max_rankinc instance,
       dag_min_hoprankinc = min_hoprankinc instance,
       destination_prefix = zero_prefix,
       dio_prefix_info = (if prefix_length (prefix_info dag) > 0 then prefix_info dag
                          else zero_prefix),
       dio_mc = (if RPL_LEAF_ONLY c \<or> mc_type (mc instance) = RPL_DAG_MC_NONE (mcc c)
                 then zero_mc else m\<lparr>mc_length := 2\<rparr>)\<rparr>])"
proof -
  define mcb where "mcb = (if RPL_LEAF_ONLY c \<or> mc_type (mc instance) = RPL_DAG_MC_NONE (mcc c)
                   then [] else fst (dio_mc_bytes c m))"
  have msg': "msg = dio_base_bytes c instance dag @ mcb
                @ dio_conf_bytes instance @ dio_prefix_bytes dag"
    by (simp add: msg mcb_def)
  have ok: "\<not> RPL_LEAF_ONLY c \<and> mc_type (mc instance) \<noteq> RPL_DAG_MC_NONE (mcc c)
            \<Longrightarrow> dio_mc_bytes c m = (mcb, True)"
    using mc by (auto simp add: mcb_def dio_mc_bytes_def Let_def)
  have mcd: "mcb = [] \<or> (dio_mc_bytes c m = (mcb, True) \<and> mc_aggr m < 4 \<and> mc_prec m < 16)"
  proof (cases "RPL_LEAF_ONLY c \<or> mc_type (mc instance) = RPL_DAG_MC_NONE (mcc c)")
    case True
    then show ?thesis by (simp add: mcb_def)
  next
    case False
    then show ?thesis using ok mc by simp
  qed
  have ne: "mcb = [] \<longleftrightarrow>
        RPL_LEAF_ONLY c \<or> mc_type (mc instance) = RPL_DAG_MC_NONE (mcc c)"
  proof (cases "RPL_LEAF_ONLY c \<or> mc_type (mc instance) = RPL_DAG_MC_NONE (mcc c)")
    case True
    then show ?thesis by (simp add: mcb_def)
  next
    case False
    then have "length mcb = 8"
      using dio_mc_option(3) [OF ok _ _ nz] mc by simp
    then show ?thesis
      using False by auto
  qed
  have lm: "length msg < 256"
  proof -
    have "length mcb \<le> 8"
      using mcd dio_mc_option(3) [OF _ _ _ nz] by auto
    moreover have "length (dio_prefix_bytes dag) \<le> 32"
      using dio_prefix_option(3) [OF _ pw] by (cases "prefix_length (prefix_info dag) > 0")
        (auto simp add: dio_prefix_bytes_def)
    ultimately show ?thesis
      using did by (simp add: msg')
  qed
  note rt = dio_parse_roundtrip [OF did mop pw mcd nz msg', of rest]
  show ?thesis
    using lm
    by (simp add: dio_input_def trace_def buf len rt Let_def ne lt8 [OF pref]
        dio_init_def zero_mc_def RPL_DIO_GROUNDED_def)
qed

subsection \<open>The options of a DAO and of a DCO\<close>

lemmas dao_opt_defs = RPL_OPTION_PAD1_def RPL_OPTION_TARGET_def RPL_OPTION_TRANSIT_def

lemma dao_target_append [simp]:
  "dao_target (pre @ l) (length pre) opts = dao_target l 0 opts"
  by (simp add: dao_target_def cong: if_cong)

lemma dao_subopt_append [simp]:
  "dao_subopt (pre @ l) (length pre) t opts = dao_subopt l 0 t opts"
  by (simp add: dao_subopt_def cong: if_cong)

lemma dao_nonstoring_subopt_append [simp]:
  "dao_nonstoring_subopt (pre @ l) (length pre) t len opts = dao_nonstoring_subopt l 0 t len opts"
  by (simp add: dao_nonstoring_subopt_def cong: if_cong)

lemma dao_options_step:
  assumes "subopt_len l 0 = Inr (t, len)"
    and "(if ns then dao_nonstoring_subopt l 0 t len opts else dao_subopt l 0 t opts)
         = Inr opts'"
    and "length pre < L"
  shows "dao_options ns (pre @ l) L (length pre) opts =
         dao_options ns (pre @ l) L (length pre + len) opts'"
  using assms by (subst dao_options.simps) (simp split: if_splits)

lemma dao_options_end: "L \<le> i \<Longrightarrow> dao_options ns buffer L i opts = Inr opts"
  by (subst dao_options.simps) simp

lemma dco_options_step:
  assumes "subopt_len l 0 = Inr (t, len)"
    and "dao_subopt l 0 t opts = Inr opts'"
    and "length pre < L" and "length pre + len < 65536"
  shows "dco_options (pre @ l) L (length pre) opts =
         dco_options (pre @ l) L (length pre + len) opts'"
  using assms by (subst dco_options.simps) simp

lemma dco_options_end: "L \<le> i \<Longrightarrow> dco_options buffer L i opts = Inr opts"
  by (subst dco_options.simps) simp

lemma dao_target_option:
  assumes "length pfx = 16"
  shows "subopt_len ([RPL_OPTION_TARGET, 18, 0, 128] @ pfx @ post) 0
           = Inr (RPL_OPTION_TARGET, 20)"
    and "dao_target ([RPL_OPTION_TARGET, 18, 0, 128] @ pfx @ post) 0 opts
           = Inr (opts\<lparr>opt_prefixlen := 128, opt_prefix := pfx\<rparr>)"
  using assms by (simp_all add: subopt_len_def dao_target_def dao_opt_defs)

lemma dao_transit_option:
  shows "subopt_len ([RPL_OPTION_TRANSIT, 4, 0, 0, ps, lt] @ post) 0
           = Inr (RPL_OPTION_TRANSIT, 6)"
    and "dao_subopt ([RPL_OPTION_TRANSIT, 4, 0, 0, ps, lt] @ post) 0 RPL_OPTION_TRANSIT opts
           = Inr (opts\<lparr>opt_pathSequence := ps, opt_lifetime := lt\<rparr>)"
  by (simp_all add: subopt_len_def dao_subopt_def dao_opt_defs)

lemma dao_transit_option_nonstoring:
  assumes "length pa = 16"
  shows "subopt_len ([RPL_OPTION_TRANSIT, 20, 0, 0, ps, lt] @ pa @ post) 0
           = Inr (RPL_OPTION_TRANSIT, 22)"
    and "dao_nonstoring_subopt ([RPL_OPTION_TRANSIT, 20, 0, 0, ps, lt] @ pa @ post) 0
           RPL_OPTION_TRANSIT 22 opts
           = Inr (opts\<lparr>opt_lifetime := lt, opt_parent_addr := pa\<rparr>)"
  using assms by (simp_all add: subopt_len_def dao_nonstoring_subopt_def dao_opt_defs)

lemma dao_options_storing_roundtrip:
  assumes pfx: "length pfx = 16"
  shows "dao_options False
           (H @ [RPL_OPTION_TARGET, 18, 0, 128] @ pfx
              @ [RPL_OPTION_TRANSIT, 4, 0, 0, ps, lt] @ rest)
           (length H + 26) (length H) opts
         = Inr (opts\<lparr>opt_prefixlen := 128, opt_prefix := pfx,
                     opt_pathSequence := ps, opt_lifetime := lt\<rparr>)"
proof -
  define X where "X = [RPL_OPTION_TRANSIT, 4, 0, 0, ps, lt] @ rest"
  define T where "T = [RPL_OPTION_TARGET, 18, 0, 128] @ pfx"
  define o1 where "o1 = opts\<lparr>opt_prefixlen := 128, opt_prefix := pfx\<rparr>"
  have lT: "length T = 20"
    using pfx by (simp add: T_def)
  have t: "subopt_len (T @ X) 0 = Inr (RPL_OPTION_TARGET, 20)"
    "dao_subopt (T @ X) 0 RPL_OPTION_TARGET opts = Inr o1"
    by (simp_all add: T_def o1_def dao_subopt_def dao_target_option [OF pfx]
        del: append.simps)
  have x: "subopt_len X 0 = Inr (RPL_OPTION_TRANSIT, 6)"
    "dao_subopt X 0 RPL_OPTION_TRANSIT o1 =
       Inr (o1\<lparr>opt_pathSequence := ps, opt_lifetime := lt\<rparr>)"
    by (simp_all add: X_def dao_transit_option del: append.simps)
  have s1: "dao_options False (H @ T @ X) (length H + 26) (length H) opts =
            dao_options False (H @ T @ X) (length H + 26) (length H + 20) o1"
    by (rule dao_options_step [where t = RPL_OPTION_TARGET]) (simp_all add: t)
  have s2: "dao_options False ((H @ T) @ X) (length H + 26) (length (H @ T)) o1 =
            dao_options False ((H @ T) @ X) (length H + 26) (length (H @ T) + 6)
              (o1\<lparr>opt_pathSequence := ps, opt_lifetime := lt\<rparr>)"
    by (rule dao_options_step [where t = RPL_OPTION_TRANSIT]) (simp_all add: x lT)
  have s3: "dao_options False (H @ T @ X) (length H + 26) (length H + 26)
              (o1\<lparr>opt_pathSequence := ps, opt_lifetime := lt\<rparr>) =
            Inr (o1\<lparr>opt_pathSequence := ps, opt_lifetime := lt\<rparr>)"
    by (rule dao_options_end) simp
  have s2': "dao_options False (H @ T @ X) (length H + 26) (length H + 20) o1 =
             dao_options False (H @ T @ X) (length H + 26) (length H + 26)
               (o1\<lparr>opt_pathSequence := ps, opt_lifetime := lt\<rparr>)"
  proof -
    have e1: "length (H @ T) = length H + 20"
      by (simp add: lT)
    have e2: "length H + 20 + 6 = length H + 26"
      by simp
    show ?thesis
      using s2 unfolding e1 e2 append_assoc .
  qed
  have "dao_options False (H @ T @ X) (length H + 26) (length H) opts =
        Inr (o1\<lparr>opt_pathSequence := ps, opt_lifetime := lt\<rparr>)"
    by (simp only: s1 s2' s3)
  then show ?thesis
    by (simp add: T_def X_def o1_def)
qed

lemma dco_options_roundtrip:
  assumes pfx: "length pfx = 16" and H: "length H \<le> 20"
  shows "dco_options
           (H @ [RPL_OPTION_TARGET, 18, 0, 128] @ pfx
              @ [RPL_OPTION_TRANSIT, 4, 0, 0, ps, lt] @ rest)
           (length H + 26) (length H) opts
         = Inr (opts\<lparr>opt_prefixlen := 128, opt_prefix := pfx,
                     opt_pathSequence := ps, opt_lifetime := lt\<rparr>)"
proof -
  define X where "X = [RPL_OPTION_TRANSIT, 4, 0, 0, ps, lt] @ rest"
  define T where "T = [RPL_OPTION_TARGET, 18, 0, 128] @ pfx"
  define o1 where "o1 = opts\<lparr>opt_prefixlen := 128, opt_prefix := pfx\<rparr>"
  have lT: "length T = 20"
    using pfx by (simp add: T_def)
  have t: "subopt_len (T @ X) 0 = Inr (RPL_OPTION_TARGET, 20)"
    "dao_subopt (T @ X) 0 RPL_OPTION_TARGET opts = Inr o1"
    by (simp_all add: T_def o1_def dao_subopt_def dao_target_option [OF pfx]
        del: append.simps)
  have x: "subopt_len X 0 = Inr (RPL_OPTION_TRANSIT, 6)"
    "dao_subopt X 0 RPL_OPTION_TRANSIT o1 =
       Inr (o1\<lparr>opt_pathSequence := ps, opt_lifetime := lt\<rparr>)"
    by (simp_all add: X_def dao_transit_option del: append.simps)
  have s1: "dco_options (H @ T @ X) (length H + 26) (length H) opts =
            dco_options (H @ T @ X) (length H + 26) (length H + 20) o1"
    by (rule dco_options_step [where t = RPL_OPTION_TARGET]) (use H in \<open>simp_all add: t\<close>)
  have s2: "dco_options ((H @ T) @ X) (length H + 26) (length (H @ T)) o1 =
            dco_options ((H @ T) @ X) (length H + 26) (length (H @ T) + 6)
              (o1\<lparr>opt_pathSequence := ps, opt_lifetime := lt\<rparr>)"
    by (rule dco_options_step [where t = RPL_OPTION_TRANSIT]) (use H in \<open>simp_all add: x lT\<close>)
  have s3: "dco_options (H @ T @ X) (length H + 26) (length H + 26)
              (o1\<lparr>opt_pathSequence := ps, opt_lifetime := lt\<rparr>) =
            Inr (o1\<lparr>opt_pathSequence := ps, opt_lifetime := lt\<rparr>)"
    by (rule dco_options_end) simp
  have s2': "dco_options (H @ T @ X) (length H + 26) (length H + 20) o1 =
             dco_options (H @ T @ X) (length H + 26) (length H + 26)
               (o1\<lparr>opt_pathSequence := ps, opt_lifetime := lt\<rparr>)"
  proof -
    have e1: "length (H @ T) = length H + 20"
      by (simp add: lT)
    have e2: "length H + 20 + 6 = length H + 26"
      by simp
    show ?thesis
      using s2 unfolding e1 e2 append_assoc .
  qed
  have "dco_options (H @ T @ X) (length H + 26) (length H) opts =
        Inr (o1\<lparr>opt_pathSequence := ps, opt_lifetime := lt\<rparr>)"
    by (simp only: s1 s2' s3)
  then show ?thesis
    by (simp add: T_def X_def o1_def)
qed

lemma dao_options_nonstoring_roundtrip:
  assumes pfx: "length pfx = 16" and pa: "length pa = 16"
  shows "dao_options True
           (H @ [RPL_OPTION_TARGET, 18, 0, 128] @ pfx
              @ [RPL_OPTION_TRANSIT, 20, 0, 0, ps, lt] @ pa @ rest)
           (length H + 42) (length H) opts
         = Inr (opts\<lparr>opt_prefixlen := 128, opt_prefix := pfx,
                     opt_lifetime := lt, opt_parent_addr := pa\<rparr>)"
proof -
  define X where "X = [RPL_OPTION_TRANSIT, 20, 0, 0, ps, lt] @ pa @ rest"
  define T where "T = [RPL_OPTION_TARGET, 18, 0, 128] @ pfx"
  define o1 where "o1 = opts\<lparr>opt_prefixlen := 128, opt_prefix := pfx\<rparr>"
  have lT: "length T = 20"
    using pfx by (simp add: T_def)
  have t: "subopt_len (T @ X) 0 = Inr (RPL_OPTION_TARGET, 20)"
    "dao_nonstoring_subopt (T @ X) 0 RPL_OPTION_TARGET 20 opts = Inr o1"
    by (simp_all add: T_def o1_def dao_nonstoring_subopt_def dao_target_option [OF pfx]
        del: append.simps)
  have x: "subopt_len X 0 = Inr (RPL_OPTION_TRANSIT, 22)"
    "dao_nonstoring_subopt X 0 RPL_OPTION_TRANSIT 22 o1 =
       Inr (o1\<lparr>opt_lifetime := lt, opt_parent_addr := pa\<rparr>)"
    by (simp_all add: X_def dao_transit_option_nonstoring [OF pa] del: append.simps)
  have s1: "dao_options True (H @ T @ X) (length H + 42) (length H) opts =
            dao_options True (H @ T @ X) (length H + 42) (length H + 20) o1"
    by (rule dao_options_step [where t = RPL_OPTION_TARGET]) (simp_all add: t)
  have s2: "dao_options True ((H @ T) @ X) (length H + 42) (length (H @ T)) o1 =
            dao_options True ((H @ T) @ X) (length H + 42) (length (H @ T) + 22)
              (o1\<lparr>opt_lifetime := lt, opt_parent_addr := pa\<rparr>)"
    by (rule dao_options_step [where t = RPL_OPTION_TRANSIT]) (simp_all add: x lT)
  have s3: "dao_options True (H @ T @ X) (length H + 42) (length H + 42)
              (o1\<lparr>opt_lifetime := lt, opt_parent_addr := pa\<rparr>) =
            Inr (o1\<lparr>opt_lifetime := lt, opt_parent_addr := pa\<rparr>)"
    by (rule dao_options_end) simp
  have s2': "dao_options True (H @ T @ X) (length H + 42) (length H + 20) o1 =
             dao_options True (H @ T @ X) (length H + 42) (length H + 42)
               (o1\<lparr>opt_lifetime := lt, opt_parent_addr := pa\<rparr>)"
  proof -
    have e1: "length (H @ T) = length H + 20"
      by (simp add: lT)
    have e2: "length H + 20 + 22 = length H + 42"
      by simp
    show ?thesis
      using s2 unfolding e1 e2 append_assoc .
  qed
  have "dao_options True (H @ T @ X) (length H + 42) (length H) opts =
        Inr (o1\<lparr>opt_lifetime := lt, opt_parent_addr := pa\<rparr>)"
    by (simp only: s1 s2' s3)
  then show ?thesis
    by (simp add: T_def X_def o1_def)
qed


subsection \<open>The DAO and the DCO that the builders send\<close>

lemma dao_flags_d [simp]:
  "((if s then RPL_DAO_D_FLAG else 0) OR (if k then RPL_DAO_K_FLAG else 0)) AND RPL_DAO_D_FLAG
     = (if s then RPL_DAO_D_FLAG else 0)"
  by (simp add: RPL_DAO_D_FLAG_def RPL_DAO_K_FLAG_def)

lemma RPL_DAO_K_AND_D [simp]: "RPL_DAO_K_FLAG AND RPL_DAO_D_FLAG = 0"
  by (simp add: RPL_DAO_D_FLAG_def RPL_DAO_K_FLAG_def)

lemma RPL_DAO_D_FLAG_nz [simp]: "RPL_DAO_D_FLAG \<noteq> 0"
  by (simp add: RPL_DAO_D_FLAG_def)

text \<open>
  When the builders send: \<open>dao_output_target_seq\<close> outside feather mode, for a parent
  with an address in the neighbour cache, a DAG and an instance; \<open>dco_output\<close> for an
  instance (with its current DAG when the DAG id is written).
\<close>

lemma dao_output_sends:
  assumes nf: "\<not> feather_mode st"
    and p: "deref (parents (heap st)) parent = Inr p"
    and pip: "parent_ipaddr p = Some parent_ip"
    and dg: "deref (dags (heap st)) (parent_dag p) = Inr dag"
    and inst: "deref (instances (heap st)) (dag_instance dag) = Inr instance"
    and room: "length (dao_bytes c st instance dag parent_ip pfx lifetime seq_no)
                 \<le> length (icmp_payload st)"
  shows "trace (dao_output_target_seq c st parent (Some pfx) lifetime seq_no) =
           Inr (events st @ [Icmp6_Send (if mop instance \<noteq> RPL_MOP_NON_STORING c
                                          then parent_ip else dag_id dag) RPL_CODE_DAO
                               (dao_bytes c st instance dag parent_ip pfx lifetime seq_no)])"
proof -
  obtain pa where pa: "parent = Some pa"
    using p by (cases parent) (simp_all add: deref_def)
  obtain da where da: "parent_dag p = Some da"
    using dg by (cases "parent_dag p") (simp_all add: deref_def)
  obtain ia where ia: "dag_instance dag = Some ia"
    using inst by (cases "dag_instance dag") (simp_all add: deref_def)
  show ?thesis
    using nf p dg inst pip unfolding pa da ia
    by (simp add: dao_output_target_seq_def Let_def da ia buf_write_room [OF room]
        trace_def)
qed

lemma dco_output_sends:
  assumes inst: "deref (instances (heap st)) ip = Inr instance"
    and dag: "RPL_DAO_SPECIFY_DAG c \<longrightarrow>
                deref (dags (heap st)) (current_dag instance) = Inr dag"
    and room: "length (dco_bytes c st instance
                         (if RPL_DAO_SPECIFY_DAG c then dag_id dag else []) target ps)
                 \<le> length (icmp_payload st)"
  shows "trace (dco_output c st ip target dco_target ps) =
           Inr (events st @ [Icmp6_Send dco_target RPL_CODE_DCO
                               (dco_bytes c st instance
                                  (if RPL_DAO_SPECIFY_DAG c then dag_id dag else [])
                                  target ps)])"
proof (cases "RPL_DAO_SPECIFY_DAG c")
  case True
  have "buf_write (icmp_payload st) 0 (dco_bytes c st instance (dag_id dag) target ps)
        = Inr (dco_bytes c st instance (dag_id dag) target ps
               @ drop (length (dco_bytes c st instance (dag_id dag) target ps))
                   (icmp_payload st))"
    by (rule buf_write_room) (use room True in simp)
  then show ?thesis
    using inst dag True by (simp add: dco_output_def Let_def trace_def)
next
  case False
  have "buf_write (icmp_payload st) 0 (dco_bytes c st instance [] target ps)
        = Inr (dco_bytes c st instance [] target ps
               @ drop (length (dco_bytes c st instance [] target ps)) (icmp_payload st))"
    by (rule buf_write_room) (use room False in simp)
  then show ?thesis
    using inst False by (simp add: dco_output_def Let_def trace_def)
qed

lemma dao_storing_parse_bytes:
  assumes storing: "mop instance \<noteq> RPL_MOP_NON_STORING c"
    and pfx: "length pfx = 16" and did: "length (dag_id dag) = 16"
    and msg: "msg = dao_bytes c st instance dag parent_ip pfx lifetime seq_no"
    and buf: "icmp_payload st_r = msg @ rest" and len: "payload_len pkt = length msg"
    and ir: "deref (instances (heap st_r))
               (rpl_get_instance (heap st_r) (instance_id instance)) = Inr instance_r"
    and dr: "deref (dags (heap st_r)) (current_dag instance_r) = Inr dag_r"
    and same: "RPL_DAO_SPECIFY_DAG c \<longrightarrow> dag_id dag_r = dag_id dag"
    and noloop: "dao_loop_parent (heap st_r) instance_r dag_r
                   (if \<not> uip_is_addr_mcast (macros c) (srcipaddr pkt)
                    then rpl_find_parent (heap st_r) (current_dag instance_r) (srcipaddr pkt)
                    else None) = Inr False"
  shows "dao_storing_parse c e pkt st_r =
     Inr (Dao_Parsed (rpl_get_instance (heap st_r) (instance_id instance))
            ((if RPL_DAO_SPECIFY_DAG c then RPL_DAO_D_FLAG else 0)
               OR (if lifetime \<noteq> RPL_ZERO_LIFETIME then RPL_DAO_K_FLAG else 0))
            seq_no (\<not> uip_is_addr_mcast (macros c) (srcipaddr pkt))
            \<lparr>opt_prefix = pfx, opt_prefixlen = 128, opt_pathSequence = path_sequence st,
             opt_lifetime = lifetime, opt_parent_addr = zero_addr\<rparr>)"
proof -
  define fl where "fl = (if RPL_DAO_SPECIFY_DAG c then RPL_DAO_D_FLAG else 0)
               OR (if lifetime \<noteq> RPL_ZERO_LIFETIME then RPL_DAO_K_FLAG else 0)"
  define D where "D = (if RPL_DAO_SPECIFY_DAG c then dag_id dag else [])"
  define H where "H = [instance_id instance, fl, 0, seq_no] @ D"
  define Os where "Os = [RPL_OPTION_TARGET, 18, 0, 128] @ pfx
              @ [RPL_OPTION_TRANSIT, 4, 0, 0, path_sequence st, lifetime] @ rest"
  have shape: "msg @ rest = H @ Os"
    using storing pfx did by (simp add: msg dao_bytes_def H_def Os_def D_def fl_def)
  have lmsg: "length msg = length H + 26"
    using storing pfx did by (simp add: msg dao_bytes_def H_def D_def)
  have lH: "length H = (if RPL_DAO_SPECIFY_DAG c then 20 else 4)"
    using did by (simp add: H_def D_def)
  have hd: "rd (H @ Os) 0 = Inr (instance_id instance)" "rd (H @ Os) 1 = Inr fl"
    "rd (H @ Os) 3 = Inr seq_no" "rd (H @ Os) (Suc 0) = Inr fl"
    by (simp_all add: H_def)
  have chk: "dao_dag_id_check (H @ Os) fl dag_r = Inr (Some (length H))"
  proof (cases "RPL_DAO_SPECIFY_DAG c")
    case True
    then have "rd_bytes (H @ Os) 4 16 = Inr (dag_id dag)"
      using did by (simp add: H_def D_def)
    then show ?thesis
      using True same did by (simp add: dao_dag_id_check_def fl_def lH)
  next
    case False
    then show ?thesis
      by (simp add: dao_dag_id_check_def fl_def lH)
  qed
  have opt: "dao_options False (H @ Os) (length H + 26) (length H) opts =
         Inr (opts\<lparr>opt_prefixlen := 128, opt_prefix := pfx,
                     opt_pathSequence := path_sequence st, opt_lifetime := lifetime\<rparr>)"
    for opts
    unfolding Os_def by (rule dao_options_storing_roundtrip [OF pfx])
  have lm: "(length H + 26) mod 256 = length H + 26"
    by (simp add: lH)
  show ?thesis
    using ir dr noloop
    by (simp add: dao_storing_parse_def Let_def buf shape len lmsg lm hd chk opt
        fl_def [symmetric])
qed


text \<open>The non-storing DAO, and the DCO.\<close>

lemma dao_nonstoring_parse_bytes:
  assumes nonstoring: "mop instance = RPL_MOP_NON_STORING c"
    and pfx: "length pfx = 16" and did: "length (dag_id dag) = 16"
    and pip: "length parent_ip = 16"
    and msg: "msg = dao_bytes c st instance dag parent_ip pfx lifetime seq_no"
    and buf: "icmp_payload st_r = msg @ rest" and len: "payload_len pkt = length msg"
    and ir: "deref (instances (heap st_r))
               (rpl_get_instance (heap st_r) (instance_id instance)) = Inr instance_r"
    and dr: "deref (dags (heap st_r)) (current_dag instance_r) = Inr dag_r"
    and same: "RPL_DAO_SPECIFY_DAG c \<longrightarrow> dag_id dag_r = dag_id dag"
  shows "dao_nonstoring_parse c e pkt st_r =
     Inr (Some (rpl_get_instance (heap st_r) (instance_id instance),
            (if RPL_DAO_SPECIFY_DAG c then RPL_DAO_D_FLAG else 0)
               OR (if lifetime \<noteq> RPL_ZERO_LIFETIME then RPL_DAO_K_FLAG else 0),
            seq_no,
            \<lparr>opt_prefix = pfx, opt_prefixlen = 128, opt_pathSequence = stack_pathSequence e,
             opt_lifetime = lifetime,
             opt_parent_addr = take 8 (dag_id dag) @ take 8 (drop 8 parent_ip)\<rparr>))"
proof -
  define fl where "fl = (if RPL_DAO_SPECIFY_DAG c then RPL_DAO_D_FLAG else 0)
               OR (if lifetime \<noteq> RPL_ZERO_LIFETIME then RPL_DAO_K_FLAG else 0)"
  define D where "D = (if RPL_DAO_SPECIFY_DAG c then dag_id dag else [])"
  define H where "H = [instance_id instance, fl, 0, seq_no] @ D"
  define pa where "pa = take 8 (dag_id dag) @ take 8 (drop 8 parent_ip)"
  define Os where "Os = [RPL_OPTION_TARGET, 18, 0, 128] @ pfx
              @ [RPL_OPTION_TRANSIT, 20, 0, 0, path_sequence st, lifetime] @ pa @ rest"
  have lpa: "length pa = 16"
    using did pip by (simp add: pa_def)
  have shape: "msg @ rest = H @ Os"
    using nonstoring pfx did
    by (simp add: msg dao_bytes_def H_def Os_def D_def fl_def pa_def)
  have lmsg: "length msg = length H + 42"
    using nonstoring pfx did pip by (simp add: msg dao_bytes_def H_def D_def)
  have lH: "length H = (if RPL_DAO_SPECIFY_DAG c then 20 else 4)"
    using did by (simp add: H_def D_def)
  have hd: "rd (H @ Os) 0 = Inr (instance_id instance)" "rd (H @ Os) 1 = Inr fl"
    "rd (H @ Os) 3 = Inr seq_no" "rd (H @ Os) (Suc 0) = Inr fl"
    by (simp_all add: H_def)
  have chk: "dao_dag_id_check (H @ Os) fl dag_r = Inr (Some (length H))"
  proof (cases "RPL_DAO_SPECIFY_DAG c")
    case True
    then have "rd_bytes (H @ Os) 4 16 = Inr (dag_id dag)"
      using did by (simp add: H_def D_def)
    then show ?thesis
      using True same did by (simp add: dao_dag_id_check_def fl_def lH)
  next
    case False
    then show ?thesis
      by (simp add: dao_dag_id_check_def fl_def lH)
  qed
  have opt: "dao_options True (H @ Os) (length H + 42) (length H) opts =
         Inr (opts\<lparr>opt_prefixlen := 128, opt_prefix := pfx,
                     opt_lifetime := lifetime, opt_parent_addr := pa\<rparr>)"
    for opts
    unfolding Os_def by (rule dao_options_nonstoring_roundtrip [OF pfx lpa])
  have lm: "(length H + 42) mod 256 = length H + 42"
    by (simp add: lH)
  show ?thesis
    using ir dr
    by (simp add: dao_nonstoring_parse_def Let_def buf shape len lmsg lm hd chk opt
        fl_def [symmetric] pa_def [symmetric])
qed

lemma dco_parse_bytes:
  assumes pfx: "length target = 16"
    and did: "RPL_DAO_SPECIFY_DAG c \<longrightarrow> length did = 16 \<and> dag_id dag_r = did"
    and msg: "msg = dco_bytes c st instance did target ps"
    and buf: "icmp_payload st_r = msg @ rest" and len: "payload_len pkt = length msg"
    and ia: "rpl_get_instance (heap st_r) (instance_id instance) = Some ia_r"
    and ir: "deref (instances (heap st_r)) (Some ia_r) = Inr instance_r"
    and dr: "deref (dags (heap st_r)) (current_dag instance_r) = Inr dag_r"
  shows "dco_parse c e pkt st_r =
     Inr (Some (ia_r,
            (if RPL_DAO_SPECIFY_DAG c then RPL_DAO_D_FLAG else 0)
               OR (if RPL_WITH_DCO_ACK c then RPL_DAO_K_FLAG else 0),
            dco_sequence st,
            \<lparr>opt_prefix = target, opt_prefixlen = 128, opt_pathSequence = ps,
             opt_lifetime = 0, opt_parent_addr = zero_addr\<rparr>))"
proof -
  define fl where "fl = (if RPL_DAO_SPECIFY_DAG c then RPL_DAO_D_FLAG else 0)
               OR (if RPL_WITH_DCO_ACK c then RPL_DAO_K_FLAG else 0)"
  define D where "D = (if RPL_DAO_SPECIFY_DAG c then did else [])"
  define H where "H = [instance_id instance, fl, 0, dco_sequence st] @ D"
  define Os where "Os = [RPL_OPTION_TARGET, 18, 0, 128] @ target
              @ [RPL_OPTION_TRANSIT, 4, 0, 0, ps, 0] @ rest"
  have shape: "msg @ rest = H @ Os"
    using pfx did by (simp add: msg dco_bytes_def H_def Os_def D_def fl_def)
  have lmsg: "length msg = length H + 26"
    using pfx did by (simp add: msg dco_bytes_def H_def D_def)
  have lH: "length H = (if RPL_DAO_SPECIFY_DAG c then 20 else 4)"
    using did by (simp add: H_def D_def)
  have hd: "rd (H @ Os) 0 = Inr (instance_id instance)" "rd (H @ Os) 1 = Inr fl"
    "rd (H @ Os) 3 = Inr (dco_sequence st)" "rd (H @ Os) (Suc 0) = Inr fl"
    by (simp_all add: H_def)
  have chk: "dao_dag_id_check (H @ Os) fl dag_r = Inr (Some (length H))"
  proof (cases "RPL_DAO_SPECIFY_DAG c")
    case True
    then have "rd_bytes (H @ Os) 4 16 = Inr did"
      using did by (simp add: H_def D_def)
    then show ?thesis
      using True did by (simp add: dao_dag_id_check_def fl_def lH)
  next
    case False
    then show ?thesis
      by (simp add: dao_dag_id_check_def fl_def lH)
  qed
  have opt: "dco_options (H @ Os) (length H + 26) (length H) opts =
         Inr (opts\<lparr>opt_prefixlen := 128, opt_prefix := target,
                     opt_pathSequence := ps, opt_lifetime := 0\<rparr>)"
    for opts
    unfolding Os_def by (rule dco_options_roundtrip [OF pfx]) (simp add: lH)
  have lm: "(length H + 26) mod 65536 = length H + 26"
    by (simp add: lH)
  show ?thesis
    using ir dr
    by (simp add: dco_parse_def Let_def buf shape len lmsg lm hd chk opt ia
        fl_def [symmetric])
qed



subsection \<open>Builder and parser together\<close>

lemma dio_builder_parser:
  assumes inst: "deref (instances (heap st)) (Some ia) = Inr instance"
    and dag: "deref (dags (heap st)) (current_dag instance) = Inr dag"
    and nl: "\<not> (RPL_LEAF_ONLY c \<and> uc = None)"
    and sent: "sent = (if RPL_DIO_REFRESH_DAO_ROUTES c
                         \<and> dag_rank dag = ROOT_RANK (macros c) instance \<and> uc = None
                       then instance\<lparr>dtsn_out :=
                              RPL_LOLLIPOP_INCREMENT (macros c) (dtsn_out instance)\<rparr>
                       else instance)"
    and mc: "\<not> RPL_LEAF_ONLY c \<and> mc_type (mc instance) \<noteq> RPL_DAG_MC_NONE (mcc c) \<longrightarrow>
               update_metric_container c (inst_of instance)
                 (set_instance (heap st) ia sent) ia
                 = Inr (set_instance_mc (set_instance (heap st) ia sent) ia m)
               \<and> (mc_type m = RPL_DAG_MC_ETX (mcc c) \<or> mc_type m = RPL_DAG_MC_ENERGY (mcc c))
               \<and> mc_aggr m < 4 \<and> mc_prec m < 16"
    and msg: "msg = dio_base_bytes c instance dag
                @ (if RPL_LEAF_ONLY c \<or> mc_type (mc instance) = RPL_DAG_MC_NONE (mcc c)
                   then [] else fst (dio_mc_bytes c m))
                @ dio_conf_bytes instance @ dio_prefix_bytes dag"
    and room: "length msg \<le> length (icmp_payload st)"
    and mop: "mop instance < 8" and pref: "preference dag < 8"
    and did: "length (dag_id dag) = 16"
    and pw: "length (prefix (prefix_info dag)) = 16"
    and nz: "RPL_DAG_MC_ETX (mcc c) \<noteq> RPL_DAG_MC_NONE (mcc c)"
      "RPL_DAG_MC_ENERGY (mcc c) \<noteq> RPL_DAG_MC_NONE (mcc c)"
    and buf: "icmp_payload rcv = msg @ rest" and len: "payload_len pkt = length msg"
  shows "trace (dio_output c st ia uc) =
           Inr (events st @ [Icmp6_Send (case uc of None \<Rightarrow> linklocal_rplnodes_mcast (macros c)
                                           | Some a \<Rightarrow> a) RPL_CODE_DIO msg])
    \<and> trace (dio_input c pkt rcv) = Inr (events rcv @ [Process_Dio (srcipaddr pkt)
      \<lparr>dio_dag_id = dag_id dag, dio_ocp = ocp (inst_of instance),
       dio_rank = (if RPL_LEAF_ONLY c then INFINITE_RANK c else dag_rank dag),
       dio_grounded = (if grounded dag \<noteq> 0 then RPL_DIO_GROUNDED else 0),
       dio_mop = mop instance, dio_preference = preference dag,
       dio_version = version dag, dio_instance_id = instance_id instance,
       dio_dtsn = dtsn_out instance,
       dag_intdoubl = dio_intdoubl instance, dag_intmin = dio_intmin instance,
       dag_redund = dio_redundancy instance,
       dio_default_lifetime = default_lifetime instance,
       dio_lifetime_unit = lifetime_unit instance,
       dag_max_rankinc = max_rankinc instance,
       dag_min_hoprankinc = min_hoprankinc instance,
       destination_prefix = zero_prefix,
       dio_prefix_info = (if prefix_length (prefix_info dag) > 0 then prefix_info dag
                          else zero_prefix),
       dio_mc = (if RPL_LEAF_ONLY c \<or> mc_type (mc instance) = RPL_DAG_MC_NONE (mcc c)
                 then zero_mc else m\<lparr>mc_length := 2\<rparr>)\<rparr>])"
proof
  have mc1: "\<not> RPL_LEAF_ONLY c \<and> mc_type (mc instance) \<noteq> RPL_DAG_MC_NONE (mcc c) \<longrightarrow>
               update_metric_container c (inst_of instance)
                 (set_instance (heap st) ia sent) ia
                 = Inr (set_instance_mc (set_instance (heap st) ia sent) ia m)
               \<and> (mc_type m = RPL_DAG_MC_ETX (mcc c) \<or> mc_type m = RPL_DAG_MC_ENERGY (mcc c))"
    using mc by simp
  show "trace (dio_output c st ia uc) =
           Inr (events st @ [Icmp6_Send (case uc of None \<Rightarrow> linklocal_rplnodes_mcast (macros c)
                                           | Some a \<Rightarrow> a) RPL_CODE_DIO msg])"
    by (rule dio_output_sends [OF inst dag nl sent mc1 msg room])
next
  have mc2: "\<not> RPL_LEAF_ONLY c \<and> mc_type (mc instance) \<noteq> RPL_DAG_MC_NONE (mcc c) \<longrightarrow>
               (mc_type m = RPL_DAG_MC_ETX (mcc c) \<or> mc_type m = RPL_DAG_MC_ENERGY (mcc c))
               \<and> mc_aggr m < 4 \<and> mc_prec m < 16"
    using mc by simp
  show "trace (dio_input c pkt rcv) = Inr (events rcv @ [Process_Dio (srcipaddr pkt)
      \<lparr>dio_dag_id = dag_id dag, dio_ocp = ocp (inst_of instance),
       dio_rank = (if RPL_LEAF_ONLY c then INFINITE_RANK c else dag_rank dag),
       dio_grounded = (if grounded dag \<noteq> 0 then RPL_DIO_GROUNDED else 0),
       dio_mop = mop instance, dio_preference = preference dag,
       dio_version = version dag, dio_instance_id = instance_id instance,
       dio_dtsn = dtsn_out instance,
       dag_intdoubl = dio_intdoubl instance, dag_intmin = dio_intmin instance,
       dag_redund = dio_redundancy instance,
       dio_default_lifetime = default_lifetime instance,
       dio_lifetime_unit = lifetime_unit instance,
       dag_max_rankinc = max_rankinc instance,
       dag_min_hoprankinc = min_hoprankinc instance,
       destination_prefix = zero_prefix,
       dio_prefix_info = (if prefix_length (prefix_info dag) > 0 then prefix_info dag
                          else zero_prefix),
       dio_mc = (if RPL_LEAF_ONLY c \<or> mc_type (mc instance) = RPL_DAG_MC_NONE (mcc c)
                 then zero_mc else m\<lparr>mc_length := 2\<rparr>)\<rparr>])"
    by (rule dio_round_trip [OF mc2 msg mop pref did pw nz buf len])
qed

lemma dao_storing_builder_parser:
  assumes nf: "\<not> feather_mode st"
    and p: "deref (parents (heap st)) parent = Inr p"
    and pip: "parent_ipaddr p = Some parent_ip"
    and dg: "deref (dags (heap st)) (parent_dag p) = Inr dag"
    and inst: "deref (instances (heap st)) (dag_instance dag) = Inr instance"
    and storing: "mop instance \<noteq> RPL_MOP_NON_STORING c"
    and msg: "msg = dao_bytes c st instance dag parent_ip pfx lifetime seq_no"
    and room: "length msg \<le> length (icmp_payload st)"
    and pfx: "length pfx = 16" and did: "length (dag_id dag) = 16"
    and buf: "icmp_payload rcv = msg @ rest" and len: "payload_len pkt = length msg"
    and ir: "deref (instances (heap rcv))
               (rpl_get_instance (heap rcv) (instance_id instance)) = Inr rinstance"
    and dr: "deref (dags (heap rcv)) (current_dag rinstance) = Inr rdag"
    and same: "RPL_DAO_SPECIFY_DAG c \<longrightarrow> dag_id rdag = dag_id dag"
    and noloop: "dao_loop_parent (heap rcv) rinstance rdag
                   (if \<not> uip_is_addr_mcast (macros c) (srcipaddr pkt)
                    then rpl_find_parent (heap rcv) (current_dag rinstance) (srcipaddr pkt)
                    else None) = Inr False"
  shows "trace (dao_output_target_seq c st parent (Some pfx) lifetime seq_no) =
           Inr (events st @ [Icmp6_Send parent_ip RPL_CODE_DAO msg])
    \<and> dao_storing_parse c e pkt rcv =
        Inr (Dao_Parsed (rpl_get_instance (heap rcv) (instance_id instance))
            ((if RPL_DAO_SPECIFY_DAG c then RPL_DAO_D_FLAG else 0)
               OR (if lifetime \<noteq> RPL_ZERO_LIFETIME then RPL_DAO_K_FLAG else 0))
            seq_no (\<not> uip_is_addr_mcast (macros c) (srcipaddr pkt))
            \<lparr>opt_prefix = pfx, opt_prefixlen = 128, opt_pathSequence = path_sequence st,
             opt_lifetime = lifetime, opt_parent_addr = zero_addr\<rparr>)"
  using dao_output_sends [OF nf p pip dg inst room [unfolded msg]] storing
    dao_storing_parse_bytes [OF storing pfx did msg buf len ir dr same noloop]
  by (simp add: msg)

lemma dao_nonstoring_builder_parser:
  assumes nf: "\<not> feather_mode st"
    and p: "deref (parents (heap st)) parent = Inr p"
    and pip: "parent_ipaddr p = Some parent_ip"
    and dg: "deref (dags (heap st)) (parent_dag p) = Inr dag"
    and inst: "deref (instances (heap st)) (dag_instance dag) = Inr instance"
    and nonstoring: "mop instance = RPL_MOP_NON_STORING c"
    and msg: "msg = dao_bytes c st instance dag parent_ip pfx lifetime seq_no"
    and room: "length msg \<le> length (icmp_payload st)"
    and pfx: "length pfx = 16" and did: "length (dag_id dag) = 16"
    and lpip: "length parent_ip = 16"
    and buf: "icmp_payload rcv = msg @ rest" and len: "payload_len pkt = length msg"
    and ir: "deref (instances (heap rcv))
               (rpl_get_instance (heap rcv) (instance_id instance)) = Inr rinstance"
    and dr: "deref (dags (heap rcv)) (current_dag rinstance) = Inr rdag"
    and same: "RPL_DAO_SPECIFY_DAG c \<longrightarrow> dag_id rdag = dag_id dag"
  shows "trace (dao_output_target_seq c st parent (Some pfx) lifetime seq_no) =
           Inr (events st @ [Icmp6_Send (dag_id dag) RPL_CODE_DAO msg])
    \<and> dao_nonstoring_parse c e pkt rcv =
        Inr (Some (rpl_get_instance (heap rcv) (instance_id instance),
            (if RPL_DAO_SPECIFY_DAG c then RPL_DAO_D_FLAG else 0)
               OR (if lifetime \<noteq> RPL_ZERO_LIFETIME then RPL_DAO_K_FLAG else 0),
            seq_no,
            \<lparr>opt_prefix = pfx, opt_prefixlen = 128, opt_pathSequence = stack_pathSequence e,
             opt_lifetime = lifetime,
             opt_parent_addr = take 8 (dag_id dag) @ take 8 (drop 8 parent_ip)\<rparr>))"
  using dao_output_sends [OF nf p pip dg inst room [unfolded msg]] nonstoring
    dao_nonstoring_parse_bytes [OF nonstoring pfx did lpip msg buf len ir dr same]
  by (simp add: msg)

lemma dco_builder_parser:
  assumes inst: "deref (instances (heap st)) ip = Inr instance"
    and did: "RPL_DAO_SPECIFY_DAG c \<longrightarrow>
                deref (dags (heap st)) (current_dag instance) = Inr dag
                \<and> length (dag_id dag) = 16 \<and> dag_id rdag = dag_id dag"
    and msg: "msg = dco_bytes c st instance
                      (if RPL_DAO_SPECIFY_DAG c then dag_id dag else []) target ps"
    and room: "length msg \<le> length (icmp_payload st)"
    and pfx: "length target = 16"
    and buf: "icmp_payload rcv = msg @ rest" and len: "payload_len pkt = length msg"
    and ia: "rpl_get_instance (heap rcv) (instance_id instance) = Some ria"
    and ir: "deref (instances (heap rcv)) (Some ria) = Inr rinstance"
    and dr: "deref (dags (heap rcv)) (current_dag rinstance) = Inr rdag"
  shows "trace (dco_output c st ip target dco_target ps) =
           Inr (events st @ [Icmp6_Send dco_target RPL_CODE_DCO msg])
    \<and> dco_parse c e pkt rcv =
        Inr (Some (ria,
            (if RPL_DAO_SPECIFY_DAG c then RPL_DAO_D_FLAG else 0)
               OR (if RPL_WITH_DCO_ACK c then RPL_DAO_K_FLAG else 0),
            dco_sequence st,
            \<lparr>opt_prefix = target, opt_prefixlen = 128, opt_pathSequence = ps,
             opt_lifetime = 0, opt_parent_addr = zero_addr\<rparr>))"
proof -
  have d1: "RPL_DAO_SPECIFY_DAG c \<longrightarrow>
              deref (dags (heap st)) (current_dag instance) = Inr dag"
    using did by simp
  have d2: "RPL_DAO_SPECIFY_DAG c \<longrightarrow>
              length (if RPL_DAO_SPECIFY_DAG c then dag_id dag else []) = 16
              \<and> dag_id rdag = (if RPL_DAO_SPECIFY_DAG c then dag_id dag else [])"
    using did by simp
  show ?thesis
    using dco_output_sends [OF inst d1 room [unfolded msg]]
      dco_parse_bytes [OF pfx d2 msg buf len ia ir dr]
    by (simp add: msg)
qed



text \<open>
  C2.  A message that an outbound builder sends is read back by the corresponding input
  parser with the values it was built from; reserved octets are written as zero and not
  read.  Each part says when the builder sends, what it sends, and what the parser makes
  of it.

  \<^item> DIO.  Take an instance \<open>ia\<close> of the sender with its current DAG, not a multicast
    in leaf mode, a payload buffer with room for the message, and, unless the node is a
    leaf or the instance has no metric container, an \<open>update_metric_container\<close> that
    leaves the container \<open>m1\<close> of type ETX or ENERGY in the instance.  Then
    \<open>dio_output\<close> sends \<open>msg1\<close>: the base object, the container option, the
    configuration option and the prefix option.  With the mode of operation and the
    preference within their three bits, the aggregation and the precedence of the
    container within their two and four bits, addresses of 16 octets, and the container
    types ETX and ENERGY different from NONE, \<open>dio_input\<close>, on a payload of that length
    that starts with \<open>msg1\<close>, hands to \<open>rpl_process_dio\<close> the DIO with the sender's
    base fields (the DTSN before its increment, the rank \<open>INFINITE_RANK\<close> in leaf mode,
    a non-zero grounded field as the bit \<open>0x80\<close>), its configuration, its prefix
    information if the prefix length is not zero, and the container \<open>m1\<close> with the
    length 2 that is written: type, flags, aggregation, precedence and the two octets of
    the object.  What no option carries keeps the parser's initial value.
  \<^item> DAO, storing mode.  Outside feather mode, for a parent with an address, its DAG
    and the instance of that DAG in storing mode, and a buffer with room,
    \<open>dao_output_target_seq\<close> sends \<open>msg2\<close> to the parent.  At a receiver that knows
    the instance, has the same DAG id if the D flag is used, and finds no loop, the parsing
    part of \<open>dao_input_storing\<close> gives the instance, the flags, the sequence number, the
    target prefix with its length 128, the path sequence and the lifetime.
  \<^item> DAO, non-storing mode.  \<open>dao_output_target_seq\<close> sends \<open>msg3\<close> to the DAG id.
    The parsing part of \<open>dao_input_nonstoring\<close> gives the instance, the flags, the
    sequence number, the target prefix, the lifetime and the parent address that was
    written (the first 8 octets of the DAG id and the last 8 of the parent's address).
    This parser does not read the path sequence, which keeps the value the local variable
    had.
  \<^item> DCO.  For an instance (and its current DAG if the D flag is used) and a buffer
    with room, \<open>dco_output\<close> sends \<open>msg4\<close> to the given node.  At a receiver that knows
    the instance and has the same DAG id if the D flag is used, the parsing part of
    \<open>dco_input\<close> gives the instance, the flags, the DCO sequence number, the target
    prefix with its length 128, the path sequence and the path lifetime 0.
  \<^item> \<open>get16\<close> and \<open>get32\<close> read what \<open>set16\<close> and \<open>set32\<close> wrote.
\<close>

theorem codec_round_trip:
  "(deref (instances (heap st1)) (Some ia) = Inr instance1 \<and>
    deref (dags (heap st1)) (current_dag instance1) = Inr dag1 \<and>
    \<not> (RPL_LEAF_ONLY c \<and> uc = None) \<and>
    sent1 = (if RPL_DIO_REFRESH_DAO_ROUTES c
               \<and> dag_rank dag1 = ROOT_RANK (macros c) instance1 \<and> uc = None
             then instance1\<lparr>dtsn_out :=
                    RPL_LOLLIPOP_INCREMENT (macros c) (dtsn_out instance1)\<rparr>
             else instance1) \<and>
    (\<not> RPL_LEAF_ONLY c \<and> mc_type (mc instance1) \<noteq> RPL_DAG_MC_NONE (mcc c) \<longrightarrow>
       update_metric_container c (inst_of instance1)
         (set_instance (heap st1) ia sent1) ia
         = Inr (set_instance_mc (set_instance (heap st1) ia sent1) ia m1)
       \<and> (mc_type m1 = RPL_DAG_MC_ETX (mcc c) \<or> mc_type m1 = RPL_DAG_MC_ENERGY (mcc c))
       \<and> mc_aggr m1 < 4 \<and> mc_prec m1 < 16) \<and>
    msg1 = dio_base_bytes c instance1 dag1
             @ (if RPL_LEAF_ONLY c \<or> mc_type (mc instance1) = RPL_DAG_MC_NONE (mcc c)
                then [] else fst (dio_mc_bytes c m1))
             @ dio_conf_bytes instance1 @ dio_prefix_bytes dag1 \<and>
    length msg1 \<le> length (icmp_payload st1) \<and>
    mop instance1 < 8 \<and> preference dag1 < 8 \<and> length (dag_id dag1) = 16 \<and>
    length (prefix (prefix_info dag1)) = 16 \<and>
    RPL_DAG_MC_ETX (mcc c) \<noteq> RPL_DAG_MC_NONE (mcc c) \<and>
    RPL_DAG_MC_ENERGY (mcc c) \<noteq> RPL_DAG_MC_NONE (mcc c) \<and>
    icmp_payload rcv1 = msg1 @ rest1 \<and> payload_len pkt1 = length msg1
    \<longrightarrow>
    trace (dio_output c st1 ia uc) =
      Inr (events st1 @ [Icmp6_Send (case uc of None \<Rightarrow> linklocal_rplnodes_mcast (macros c)
                                      | Some a \<Rightarrow> a) RPL_CODE_DIO msg1])
    \<and> trace (dio_input c pkt1 rcv1) = Inr (events rcv1 @ [Process_Dio (srcipaddr pkt1)
      \<lparr>dio_dag_id = dag_id dag1, dio_ocp = ocp (inst_of instance1),
       dio_rank = (if RPL_LEAF_ONLY c then INFINITE_RANK c else dag_rank dag1),
       dio_grounded = (if grounded dag1 \<noteq> 0 then RPL_DIO_GROUNDED else 0),
       dio_mop = mop instance1, dio_preference = preference dag1,
       dio_version = version dag1, dio_instance_id = instance_id instance1,
       dio_dtsn = dtsn_out instance1,
       dag_intdoubl = dio_intdoubl instance1, dag_intmin = dio_intmin instance1,
       dag_redund = dio_redundancy instance1,
       dio_default_lifetime = default_lifetime instance1,
       dio_lifetime_unit = lifetime_unit instance1,
       dag_max_rankinc = max_rankinc instance1,
       dag_min_hoprankinc = min_hoprankinc instance1,
       destination_prefix = zero_prefix,
       dio_prefix_info = (if prefix_length (prefix_info dag1) > 0 then prefix_info dag1
                          else zero_prefix),
       dio_mc = (if RPL_LEAF_ONLY c \<or> mc_type (mc instance1) = RPL_DAG_MC_NONE (mcc c)
                 then zero_mc else m1\<lparr>mc_length := 2\<rparr>)\<rparr>]))
   \<and>
   (\<not> feather_mode st2 \<and>
    deref (parents (heap st2)) parent2 = Inr p2 \<and>
    parent_ipaddr p2 = Some parent_ip2 \<and>
    deref (dags (heap st2)) (parent_dag p2) = Inr dag2 \<and>
    deref (instances (heap st2)) (dag_instance dag2) = Inr instance2 \<and>
    mop instance2 \<noteq> RPL_MOP_NON_STORING c \<and>
    msg2 = dao_bytes c st2 instance2 dag2 parent_ip2 pfx2 lifetime2 seq_no2 \<and>
    length msg2 \<le> length (icmp_payload st2) \<and>
    length pfx2 = 16 \<and> length (dag_id dag2) = 16 \<and>
    icmp_payload rcv2 = msg2 @ rest2 \<and> payload_len pkt2 = length msg2 \<and>
    deref (instances (heap rcv2))
      (rpl_get_instance (heap rcv2) (instance_id instance2)) = Inr rinstance2 \<and>
    deref (dags (heap rcv2)) (current_dag rinstance2) = Inr rdag2 \<and>
    (RPL_DAO_SPECIFY_DAG c \<longrightarrow> dag_id rdag2 = dag_id dag2) \<and>
    dao_loop_parent (heap rcv2) rinstance2 rdag2
      (if \<not> uip_is_addr_mcast (macros c) (srcipaddr pkt2)
       then rpl_find_parent (heap rcv2) (current_dag rinstance2) (srcipaddr pkt2)
       else None) = Inr False
    \<longrightarrow>
    trace (dao_output_target_seq c st2 parent2 (Some pfx2) lifetime2 seq_no2) =
      Inr (events st2 @ [Icmp6_Send parent_ip2 RPL_CODE_DAO msg2])
    \<and> dao_storing_parse c e pkt2 rcv2 =
      Inr (Dao_Parsed (rpl_get_instance (heap rcv2) (instance_id instance2))
            ((if RPL_DAO_SPECIFY_DAG c then RPL_DAO_D_FLAG else 0)
               OR (if lifetime2 \<noteq> RPL_ZERO_LIFETIME then RPL_DAO_K_FLAG else 0))
            seq_no2 (\<not> uip_is_addr_mcast (macros c) (srcipaddr pkt2))
            \<lparr>opt_prefix = pfx2, opt_prefixlen = 128, opt_pathSequence = path_sequence st2,
             opt_lifetime = lifetime2, opt_parent_addr = zero_addr\<rparr>))
   \<and>
   (\<not> feather_mode st3 \<and>
    deref (parents (heap st3)) parent3 = Inr p3 \<and>
    parent_ipaddr p3 = Some parent_ip3 \<and>
    deref (dags (heap st3)) (parent_dag p3) = Inr dag3 \<and>
    deref (instances (heap st3)) (dag_instance dag3) = Inr instance3 \<and>
    mop instance3 = RPL_MOP_NON_STORING c \<and>
    msg3 = dao_bytes c st3 instance3 dag3 parent_ip3 pfx3 lifetime3 seq_no3 \<and>
    length msg3 \<le> length (icmp_payload st3) \<and>
    length pfx3 = 16 \<and> length (dag_id dag3) = 16 \<and> length parent_ip3 = 16 \<and>
    icmp_payload rcv3 = msg3 @ rest3 \<and> payload_len pkt3 = length msg3 \<and>
    deref (instances (heap rcv3))
      (rpl_get_instance (heap rcv3) (instance_id instance3)) = Inr rinstance3 \<and>
    deref (dags (heap rcv3)) (current_dag rinstance3) = Inr rdag3 \<and>
    (RPL_DAO_SPECIFY_DAG c \<longrightarrow> dag_id rdag3 = dag_id dag3)
    \<longrightarrow>
    trace (dao_output_target_seq c st3 parent3 (Some pfx3) lifetime3 seq_no3) =
      Inr (events st3 @ [Icmp6_Send (dag_id dag3) RPL_CODE_DAO msg3])
    \<and> dao_nonstoring_parse c e pkt3 rcv3 =
      Inr (Some (rpl_get_instance (heap rcv3) (instance_id instance3),
            (if RPL_DAO_SPECIFY_DAG c then RPL_DAO_D_FLAG else 0)
               OR (if lifetime3 \<noteq> RPL_ZERO_LIFETIME then RPL_DAO_K_FLAG else 0),
            seq_no3,
            \<lparr>opt_prefix = pfx3, opt_prefixlen = 128,
             opt_pathSequence = stack_pathSequence e, opt_lifetime = lifetime3,
             opt_parent_addr = take 8 (dag_id dag3) @ take 8 (drop 8 parent_ip3)\<rparr>)))
   \<and>
   (deref (instances (heap st4)) ip4 = Inr instance4 \<and>
    (RPL_DAO_SPECIFY_DAG c \<longrightarrow>
       deref (dags (heap st4)) (current_dag instance4) = Inr dag4
       \<and> length (dag_id dag4) = 16 \<and> dag_id rdag4 = dag_id dag4) \<and>
    msg4 = dco_bytes c st4 instance4
             (if RPL_DAO_SPECIFY_DAG c then dag_id dag4 else []) target4 ps4 \<and>
    length msg4 \<le> length (icmp_payload st4) \<and>
    length target4 = 16 \<and>
    icmp_payload rcv4 = msg4 @ rest4 \<and> payload_len pkt4 = length msg4 \<and>
    rpl_get_instance (heap rcv4) (instance_id instance4) = Some ria4 \<and>
    deref (instances (heap rcv4)) (Some ria4) = Inr rinstance4 \<and>
    deref (dags (heap rcv4)) (current_dag rinstance4) = Inr rdag4
    \<longrightarrow>
    trace (dco_output c st4 ip4 target4 dco_target4 ps4) =
      Inr (events st4 @ [Icmp6_Send dco_target4 RPL_CODE_DCO msg4])
    \<and> dco_parse c e pkt4 rcv4 =
      Inr (Some (ria4,
            (if RPL_DAO_SPECIFY_DAG c then RPL_DAO_D_FLAG else 0)
               OR (if RPL_WITH_DCO_ACK c then RPL_DAO_K_FLAG else 0),
            dco_sequence st4,
            \<lparr>opt_prefix = target4, opt_prefixlen = 128, opt_pathSequence = ps4,
             opt_lifetime = 0, opt_parent_addr = zero_addr\<rparr>)))
   \<and> get16 (set16 v16 @ post5) 0 = Inr v16
   \<and> get32 (set32 v32 @ post5) 0 = Inr v32"
proof (intro conjI)
  show "get16 (set16 v16 @ post5) 0 = Inr v16"
    by (rule get16_set16)
  show "get32 (set32 v32 @ post5) 0 = Inr v32"
    by (rule get32_set32)
qed (rule impI, elim conjE, (rule dio_builder_parser dao_storing_builder_parser
      dao_nonstoring_builder_parser dco_builder_parser; assumption))+



text \<open>
  The example: a node of rank 768 below the root, on a little-endian host, sends a DIO
  with an ETX container and a prefix, a storing and a non-storing DAO and a DCO for
  \<open>2001:db8::9\<close>.
\<close>

lemmas ex3_defs = example_conf_etx_def example_prefix_def example_etx_heap_def
  example_nonstoring_heap_def example_dio_bytes_def example_dao_bytes_def
  example_dao_nonstoring_bytes_def example_dco_bytes_def

lemma example_mc_updated:
  "update_metric_container example_conf_etx
     (inst_of ((example_instance rpl_mrhof 2)\<lparr>mc := zero_mc\<lparr>mc_type := 7\<rparr>\<rparr>))
     (set_instance (heap (example_node example_etx_heap Map.empty (replicate 128 0))) 0
        ((example_instance rpl_mrhof 2)\<lparr>mc := zero_mc\<lparr>mc_type := 7\<rparr>\<rparr>)) 0
   = Inr (set_instance_mc
       (set_instance (heap (example_node example_etx_heap Map.empty (replicate 128 0))) 0
          ((example_instance rpl_mrhof 2)\<lparr>mc := zero_mc\<lparr>mc_type := 7\<rparr>\<rparr>)) 0
       \<lparr>mc_type = 7, mc_flags = 8, mc_aggr = 0, mc_prec = 0, mc_length = 2,
        mc_obj0 = 128, mc_obj1 = 0\<rparr>)"
  by (simp add: update_metric_container_def mrhof_update_metric_container_def
      calculate_path_metric_def mc_obj_etx_update_def mc_obj_etx_def set_instance_def
      set_instance_mc_def Let_def err_defs ex_defs ex2_defs ex3_defs)

lemma example_dio_message:
  "example_dio_bytes =
     dio_base_bytes example_conf_etx
       ((example_instance rpl_mrhof 2)\<lparr>mc := zero_mc\<lparr>mc_type := 7\<rparr>\<rparr>)
       ((example_dag (Some 0) 768)\<lparr>prefix_info := example_prefix\<rparr>)
     @ (if RPL_LEAF_ONLY example_conf_etx
          \<or> mc_type (mc ((example_instance rpl_mrhof 2)\<lparr>mc := zero_mc\<lparr>mc_type := 7\<rparr>\<rparr>))
            = RPL_DAG_MC_NONE (mcc example_conf_etx)
        then []
        else fst (dio_mc_bytes example_conf_etx
               \<lparr>mc_type = 7, mc_flags = 8, mc_aggr = 0, mc_prec = 0, mc_length = 2,
                mc_obj0 = 128, mc_obj1 = 0\<rparr>))
     @ dio_conf_bytes ((example_instance rpl_mrhof 2)\<lparr>mc := zero_mc\<lparr>mc_type := 7\<rparr>\<rparr>)
     @ dio_prefix_bytes ((example_dag (Some 0) 768)\<lparr>prefix_info := example_prefix\<rparr>)"
  by (simp add: dio_base_bytes_def dio_mc_bytes_def dio_conf_bytes_def dio_prefix_bytes_def
      mc_obj_etx_def set16_def set32_def ocp_def RPL_DIO_GROUNDED_def RPL_DIO_MOP_SHIFT_def
      RPL_DIO_PREFERENCE_MASK_def RPL_OPTION_DAG_METRIC_CONTAINER_def
      RPL_OPTION_DAG_CONF_def RPL_OPTION_PREFIX_INFO_def Let_def
      err_defs ex_defs ex2_defs ex3_defs)

lemma example_dao_message:
  "example_dao_bytes =
     dao_bytes example_conf_etx (example_node example_etx_heap Map.empty (replicate 128 0))
       ((example_instance rpl_mrhof 2)\<lparr>mc := zero_mc\<lparr>mc_type := 7\<rparr>\<rparr>)
       ((example_dag (Some 0) 768)\<lparr>prefix_info := example_prefix\<rparr>)
       (example_addr 2) (example_addr 9) 30 17"
  by (simp add: dao_bytes_def RPL_ZERO_LIFETIME_def opt_defs err_defs ex_defs ex2_defs
      ex3_defs)

lemma example_dao_nonstoring_message:
  "example_dao_nonstoring_bytes =
     dao_bytes example_conf_etx
       (example_node example_nonstoring_heap Map.empty (replicate 128 0))
       (example_instance rpl_mrhof 1) (example_dag (Some 0) 768)
       (example_addr 2) (example_addr 9) 30 17"
  by (simp add: dao_bytes_def RPL_ZERO_LIFETIME_def opt_defs err_defs ex_defs ex2_defs
      ex3_defs)

lemma example_dco_message:
  "example_dco_bytes =
     dco_bytes example_conf_etx (example_node example_etx_heap Map.empty (replicate 128 0))
       ((example_instance rpl_mrhof 2)\<lparr>mc := zero_mc\<lparr>mc_type := 7\<rparr>\<rparr>)
       (if RPL_DAO_SPECIFY_DAG example_conf_etx
        then dag_id ((example_dag (Some 0) 768)\<lparr>prefix_info := example_prefix\<rparr>) else [])
       (example_addr 9) 4"
  by (simp add: dco_bytes_def opt_defs err_defs ex_defs ex2_defs ex3_defs)

text \<open>
  The four builders send these messages, and each message, followed by two stale octets
  of the buffer, is read back at a receiver of the same instance.
\<close>

theorem codec_round_trip_witness:
  "trace (dio_output example_conf_etx
            (example_node example_etx_heap Map.empty (replicate 128 0)) 0 None)
     = Inr [Icmp6_Send (linklocal_rplnodes_mcast example_macros) RPL_CODE_DIO
              example_dio_bytes]
   \<and> trace (dio_input example_conf_etx (example_packet (example_addr 2) 80)
            (example_node (example_heap rpl_of0 None []) Map.empty
               (example_dio_bytes @ [0, 0])))
     = Inr [Process_Dio (example_addr 2)
         \<lparr>dio_dag_id = [0xaa, 0xaa, 0, 0, 0, 0, 0, 0, 0, 0, 0, 0, 0, 0, 0, 1],
          dio_ocp = 1, dio_rank = 768, dio_grounded = 0x80, dio_mop = 2,
          dio_preference = 0, dio_version = 240, dio_instance_id = 30, dio_dtsn = 240,
          dag_intdoubl = 8, dag_intmin = 12, dag_redund = 10, dio_default_lifetime = 30,
          dio_lifetime_unit = 60, dag_max_rankinc = 1792, dag_min_hoprankinc = 256,
          destination_prefix = zero_prefix, dio_prefix_info = example_prefix,
          dio_mc = \<lparr>mc_type = 7, mc_flags = 8, mc_aggr = 0, mc_prec = 0, mc_length = 2,
                     mc_obj0 = 128, mc_obj1 = 0\<rparr>\<rparr>]
   \<and> trace (dao_output_target_seq example_conf_etx
            (example_node example_etx_heap Map.empty (replicate 128 0))
            (Some 0) (Some (example_addr 9)) 30 17)
     = Inr [Icmp6_Send (example_addr 2) RPL_CODE_DAO example_dao_bytes]
   \<and> dao_storing_parse example_conf_etx example_env (example_packet (example_addr 5) 30)
        (example_node (example_heap rpl_of0 None []) Map.empty (example_dao_bytes @ [0, 0]))
     = Inr (Dao_Parsed (Some 0) 0x80 17 True
              \<lparr>opt_prefix = example_addr 9, opt_prefixlen = 128, opt_pathSequence = 240,
               opt_lifetime = 30, opt_parent_addr = zero_addr\<rparr>)
   \<and> trace (dao_output_target_seq example_conf_etx
            (example_node example_nonstoring_heap Map.empty (replicate 128 0))
            (Some 0) (Some (example_addr 9)) 30 17)
     = Inr [Icmp6_Send [0xaa, 0xaa, 0, 0, 0, 0, 0, 0, 0, 0, 0, 0, 0, 0, 0, 1] RPL_CODE_DAO
              example_dao_nonstoring_bytes]
   \<and> dao_nonstoring_parse example_conf_etx example_env (example_packet (example_addr 5) 46)
        (example_node example_nonstoring_heap Map.empty
           (example_dao_nonstoring_bytes @ [0, 0]))
     = Inr (Some (Some 0, 0x80, 17,
              \<lparr>opt_prefix = example_addr 9, opt_prefixlen = 128, opt_pathSequence = 0,
               opt_lifetime = 30,
               opt_parent_addr = [0xaa, 0xaa, 0, 0, 0, 0, 0, 0, 0, 0, 0, 0, 0, 0, 0, 2]\<rparr>))
   \<and> trace (dco_output example_conf_etx
            (example_node example_etx_heap Map.empty (replicate 128 0))
            (Some 0) (example_addr 9) (example_addr 3) 4)
     = Inr [Icmp6_Send (example_addr 3) RPL_CODE_DCO example_dco_bytes]
   \<and> dco_parse example_conf_etx example_env (example_packet (example_addr 1) 30)
        (example_node (example_heap rpl_of0 None []) Map.empty (example_dco_bytes @ [0, 0]))
     = Inr (Some (0, 0, 240,
              \<lparr>opt_prefix = example_addr 9, opt_prefixlen = 128, opt_pathSequence = 4,
               opt_lifetime = 0, opt_parent_addr = zero_addr\<rparr>))"
proof -
  let ?snd = "example_node example_etx_heap Map.empty (replicate 128 0)"
  let ?nsnd = "example_node example_nonstoring_heap Map.empty (replicate 128 0)"
  let ?rh = "example_heap rpl_of0 None []"
  let ?inst = "(example_instance rpl_mrhof 2)\<lparr>mc := zero_mc\<lparr>mc_type := 7\<rparr>\<rparr>"
  let ?dag = "(example_dag (Some 0) 768)\<lparr>prefix_info := example_prefix\<rparr>"
  let ?par = "example_parent 512 128 (Some (example_addr 2)) (Some 160)"
  note t = codec_round_trip [where c = example_conf_etx and e = example_env
      and ?st1.0 = ?snd and ia = 0 and uc = None
      and ?msg1.0 = example_dio_bytes and ?instance1.0 = ?inst and ?dag1.0 = ?dag
      and ?sent1.0 = ?inst
      and ?m1.0 = "\<lparr>mc_type = 7, mc_flags = 8, mc_aggr = 0, mc_prec = 0, mc_length = 2,
                     mc_obj0 = 128, mc_obj1 = 0\<rparr>"
      and ?rcv1.0 = "example_node ?rh Map.empty (example_dio_bytes @ [0, 0])"
      and ?rest1.0 = "[0, 0]" and ?pkt1.0 = "example_packet (example_addr 2) 80"
      and ?st2.0 = ?snd and ?parent2.0 = "Some 0" and ?pfx2.0 = "example_addr 9"
      and ?lifetime2.0 = 30 and ?seq_no2.0 = 17 and ?parent_ip2.0 = "example_addr 2"
      and ?msg2.0 = example_dao_bytes and ?p2.0 = ?par
      and ?dag2.0 = ?dag and ?instance2.0 = ?inst
      and ?rcv2.0 = "example_node ?rh Map.empty (example_dao_bytes @ [0, 0])"
      and ?rest2.0 = "[0, 0]" and ?pkt2.0 = "example_packet (example_addr 5) 30"
      and ?rinstance2.0 = "example_instance rpl_of0 2" and ?rdag2.0 = "example_dag None 768"
      and ?st3.0 = ?nsnd and ?parent3.0 = "Some 0" and ?pfx3.0 = "example_addr 9"
      and ?lifetime3.0 = 30 and ?seq_no3.0 = 17
      and ?msg3.0 = example_dao_nonstoring_bytes and ?p3.0 = ?par
      and ?dag3.0 = "example_dag (Some 0) 768" and ?instance3.0 = "example_instance rpl_mrhof 1"
      and ?parent_ip3.0 = "example_addr 2"
      and ?rcv3.0 = "example_node example_nonstoring_heap Map.empty
                       (example_dao_nonstoring_bytes @ [0, 0])"
      and ?rest3.0 = "[0, 0]" and ?pkt3.0 = "example_packet (example_addr 5) 46"
      and ?rinstance3.0 = "example_instance rpl_mrhof 1"
      and ?rdag3.0 = "example_dag (Some 0) 768"
      and ?st4.0 = ?snd and ?ip4.0 = "Some 0" and ?target4.0 = "example_addr 9"
      and ?dco_target4.0 = "example_addr 3" and ?ps4.0 = 4
      and ?msg4.0 = example_dco_bytes and ?instance4.0 = ?inst
      and ?dag4.0 = ?dag and ?rdag4.0 = "example_dag None 768"
      and ?rcv4.0 = "example_node ?rh Map.empty (example_dco_bytes @ [0, 0])"
      and ?rest4.0 = "[0, 0]" and ?pkt4.0 = "example_packet (example_addr 1) 30"
      and ?ria4.0 = 0 and ?rinstance4.0 = "example_instance rpl_of0 2"]
  have m1: "(example_dio_bytes =
     dio_base_bytes example_conf_etx ?inst ?dag
     @ (if RPL_LEAF_ONLY example_conf_etx
          \<or> mc_type (mc ?inst) = RPL_DAG_MC_NONE (mcc example_conf_etx)
        then []
        else fst (dio_mc_bytes example_conf_etx
               \<lparr>mc_type = 7, mc_flags = 8, mc_aggr = 0, mc_prec = 0, mc_length = 2,
                mc_obj0 = 128, mc_obj1 = 0\<rparr>))
     @ dio_conf_bytes ?inst @ dio_prefix_bytes ?dag) = True"
    using example_dio_message by simp
  have m2: "(example_dao_bytes =
     dao_bytes example_conf_etx ?snd ?inst ?dag (example_addr 2) (example_addr 9) 30 17)
     = True"
    using example_dao_message by simp
  have m3: "(example_dao_nonstoring_bytes =
     dao_bytes example_conf_etx ?nsnd (example_instance rpl_mrhof 1)
       (example_dag (Some 0) 768) (example_addr 2) (example_addr 9) 30 17) = True"
    using example_dao_nonstoring_message by simp
  have m4: "(example_dco_bytes =
     dco_bytes example_conf_etx ?snd ?inst
       (if RPL_DAO_SPECIFY_DAG example_conf_etx then dag_id ?dag else [])
       (example_addr 9) 4) = True"
    using example_dco_message by simp
  show ?thesis
    using t
    apply (simp only: example_mc_updated m1 m2 m3 m4 simp_thms)
    apply (simp add: err_defs ex_defs ex2_defs ex3_defs rpl_get_instance_def
        rpl_find_parent_def dao_loop_parent_def ocp_def RPL_DIO_GROUNDED_def
        RPL_ZERO_LIFETIME_def opt_defs)
    done
qed


end
